(* ===== verification/Hid_Prelude.thy ===== *)
theory Hid_Prelude
  imports Main "HOL-Library.Word" "HOL-Library.Code_Target_Nat" "HOL-Library.AList"
begin

text \<open>
  Shared vocabulary of the HID quirk-driver model: the machine types of the kernel
  interface (\<open>__u8\<close>, \<open>__u16\<close>, \<open>__u32\<close> as words), the errno values the drivers
  return, the part of \<open>struct hid_device\<close> and \<open>struct hid_device_id\<close>
  (\<open>include/linux/hid.h\<close>) that the drivers under \<open>src/\<close> read or write, the
  logging calls \<open>hid_info\<close> and \<open>hid_err\<close> as appends to the device's log, and the
  generic lemmas on words and lists the component theories share.
\<close>

section \<open>Machine types and kernel constants\<close>

type_synonym u8 = "8 word"
type_synonym u16 = "16 word"
type_synonym u32 = "32 word"

text \<open>A report descriptor is a byte sequence (\<open>__u8 *\<close> with a length).\<close>

type_synonym rdesc_bytes = "u8 list"

text \<open>
  The drivers return a C \<open>int\<close>: \<open>0\<close> or a negated errno. The value is only passed
  through, never computed with, so \<open>int\<close> is exact.
\<close>

definition ENODEV :: int where "ENODEV = 19"
definition EINVAL :: int where "EINVAL = 22"
definition EBUSY :: int where "EBUSY = 16"

named_theorems errno_defs "the errno constants"
declare ENODEV_def [errno_defs] EINVAL_def [errno_defs] EBUSY_def [errno_defs]

definition BUS_USB :: u16 where "BUS_USB = 3"
definition HID_BUS_ANY :: u16 where "HID_BUS_ANY = 0xffff"
definition HID_GROUP_ANY :: u16 where "HID_GROUP_ANY = 0"
definition HID_ANY_ID :: u32 where "HID_ANY_ID = 0xffffffff"

text \<open>\<open>HID_STAT_PARSED\<close> is \<open>BIT(1)\<close> of \<open>hdev->status\<close>.\<close>

definition HID_STAT_PARSED :: u32 where "HID_STAT_PARSED = 2"

text \<open>
  \<open>HID_CONNECT_DEFAULT = HID_CONNECT_HIDINPUT | HID_CONNECT_HIDRAW |
  HID_CONNECT_HIDDEV | HID_CONNECT_FF\<close>, bits 0, 2, 3 and 5.
\<close>

definition HID_CONNECT_DEFAULT :: u32 where "HID_CONNECT_DEFAULT = 0x2d"

named_theorems hid_const_defs "the kernel constants of hid.h"
declare BUS_USB_def [hid_const_defs] HID_BUS_ANY_def [hid_const_defs]
  HID_GROUP_ANY_def [hid_const_defs] HID_ANY_ID_def [hid_const_defs]
  HID_STAT_PARSED_def [hid_const_defs] HID_CONNECT_DEFAULT_def [hid_const_defs]

section \<open>The device and its identity\<close>

datatype log_level = KERN_INFO | KERN_ERR

text \<open>
  The fields of \<open>struct hid_device\<close> the drivers and the probe path touch:
  the identity (\<open>bus\<close>, \<open>group\<close>, \<open>vendor\<close>, \<open>product\<close>), the raw descriptor
  read from the device (\<open>dev_rdesc\<close>, \<open>dev_rsize\<close>), the descriptor the parser
  used (\<open>rdesc\<close>, \<open>rsize\<close>), the \<open>status\<close> bits, whether the hardware was started,
  and the kernel log lines emitted for this device.
\<close>

record hid_device =
  bus :: u16
  group :: u16
  vendor :: u32
  product :: u32
  dev_rdesc :: rdesc_bytes
  dev_rsize :: u32
  rdesc :: rdesc_bytes
  rsize :: u32
  status :: u32
  hw_started :: bool
  dmesg :: "(log_level \<times> string) list"

text \<open>\<open>struct hid_device_id\<close>: the key of a driver's match table.\<close>

record hid_device_id =
  id_bus :: u16
  id_group :: u16
  id_vendor :: u32
  id_product :: u32

text \<open>\<open>HID_USB_DEVICE(ven, prod)\<close> sets \<open>.bus = BUS_USB\<close> and leaves the group 0.\<close>

definition HID_USB_DEVICE :: "u32 \<Rightarrow> u32 \<Rightarrow> hid_device_id" where
  "HID_USB_DEVICE ven devid =
     \<lparr>id_bus = BUS_USB, id_group = 0, id_vendor = ven, id_product = devid\<rparr>"

text \<open>The terminating \<open>{ }\<close> entry of a match table.\<close>

definition hid_id_sentinel :: hid_device_id where
  "hid_id_sentinel = \<lparr>id_bus = 0, id_group = 0, id_vendor = 0, id_product = 0\<rparr>"

section \<open>Logging\<close>

text \<open>\<open>hid_info\<close> and \<open>hid_err\<close> print a line tagged with the device.\<close>

definition hid_info :: "hid_device \<Rightarrow> string \<Rightarrow> hid_device" where
  "hid_info hdev msg = hdev\<lparr>dmesg := dmesg hdev @ [(KERN_INFO, msg)]\<rparr>"

definition hid_err :: "hid_device \<Rightarrow> string \<Rightarrow> hid_device" where
  "hid_err hdev msg = hdev\<lparr>dmesg := dmesg hdev @ [(KERN_ERR, msg)]\<rparr>"

section \<open>Shared lemmas\<close>

text \<open>Logging changes the log and nothing else.\<close>

lemma hid_log_frame [simp]:
  "dev_rsize (hid_info h m) = dev_rsize h" "dev_rdesc (hid_info h m) = dev_rdesc h"
  "rdesc (hid_info h m) = rdesc h" "rsize (hid_info h m) = rsize h"
  "status (hid_info h m) = status h" "hw_started (hid_info h m) = hw_started h"
  "dmesg (hid_info h m) = dmesg h @ [(KERN_INFO, m)]"
  "dev_rsize (hid_err h m) = dev_rsize h" "dev_rdesc (hid_err h m) = dev_rdesc h"
  "rdesc (hid_err h m) = rdesc h" "rsize (hid_err h m) = rsize h"
  "status (hid_err h m) = status h" "hw_started (hid_err h m) = hw_started h"
  "dmesg (hid_err h m) = dmesg h @ [(KERN_ERR, m)]"
  by (simp_all add: hid_info_def hid_err_def)

lemma hid_log_identity [simp]:
  "bus (hid_info h m) = bus h" "group (hid_info h m) = group h"
  "vendor (hid_info h m) = vendor h" "product (hid_info h m) = product h"
  "bus (hid_err h m) = bus h" "group (hid_err h m) = group h"
  "vendor (hid_err h m) = vendor h" "product (hid_err h m) = product h"
  by (simp_all add: hid_info_def hid_err_def)

text \<open>
  \<open>sizeof\<close> of a table is stored into an \<open>unsigned int\<close>; a length below
  \<open>2 ^ 32\<close> survives the conversion.
\<close>

lemma unat_of_nat_u32 [simp]:
  "n < 2 ^ 32 \<Longrightarrow> unat (of_nat n :: u32) = n"
  by (simp add: unat_of_nat)

lemma of_nat_u32_eq_numeral_iff:
  "n < 2 ^ 32 \<Longrightarrow> numeral k < (2::nat) ^ 32 \<Longrightarrow>
     ((of_nat n :: u32) = numeral k) = (n = numeral k)"
  by (metis unat_of_nat_u32 of_nat_numeral)

text \<open>Taking a whole list, as \<open>kmemdup(start, size)\<close> does with the exact size.\<close>

lemma take_unat_length_u32 [simp]:
  "length xs < 2 ^ 32 \<Longrightarrow> take (unat (of_nat (length xs) :: u32)) xs = xs"
  by simp

text \<open>An association-list update keeps a property every entry has.\<close>

lemma list_all_update:
  "list_all P al \<Longrightarrow> P (k, v) \<Longrightarrow> list_all P (AList.update k v al)"
  by (induction al) auto

text \<open>Updating one element of a list keeps a property all elements have.\<close>

lemma list_update_all: "\<forall>s \<in> set xs. P s \<Longrightarrow> P x \<Longrightarrow> \<forall>s \<in> set (xs[i := x]). P s"
  using set_update_subset_insert [of xs i x] by blast

end
