(* ===== verification/Hid_Items.thy ===== *)
theory Hid_Items
  imports Hid_Prelude
begin

text \<open>
  The HID report-descriptor item format as the host's generic parser reads it
  (\<open>drivers/hid/hid-core.c\<close>: \<open>fetch_item\<close> and the bytes-to-items step of the
  item loop of \<open>hid_open_report\<close>). The drivers under \<open>src/\<close> only supply
  descriptor bytes; this theory holds the item tokenizer, its inverse encoder with
  both round-trip laws, termination of the tokenizer on every buffer, and the
  well-formedness of every fetched item. The parser that consumes the items is
  \<open>Hid_Parser\<close>.
\<close>


unbundle bit_operations_syntax

section \<open>Items\<close>

datatype hid_item_format = HID_ITEM_FORMAT_SHORT | HID_ITEM_FORMAT_LONG

text \<open>\<open>struct hid_item\<close>; the data union is kept as its raw little-endian bytes.\<close>

record hid_item =
  item_format :: hid_item_format
  item_size :: nat
  item_type :: nat
  item_tag :: nat
  item_data :: "u8 list"

definition HID_ITEM_TAG_LONG :: nat where "HID_ITEM_TAG_LONG = 15"

text \<open>The two size bits of a short item: 0, 1, 2 bytes, and 3 meaning 4 bytes.\<close>

definition short_item_size :: "nat \<Rightarrow> nat" where
  "short_item_size c = (if c = 3 then 4 else c)"

definition fetch_item :: "u8 list \<Rightarrow> (hid_item \<times> u8 list) option" where
  "fetch_item buf =
     (case buf of
        [] \<Rightarrow> None
      | b # start \<Rightarrow>
          (let type = unat (drop_bit 2 b AND 3);
               tag = unat (drop_bit 4 b AND 15)
           in if tag = HID_ITEM_TAG_LONG then
                (case start of
                   sz # ltag # start' \<Rightarrow>
                     (if unat sz \<le> length start'
                      then Some (\<lparr>item_format = HID_ITEM_FORMAT_LONG, item_size = unat sz,
                                  item_type = type, item_tag = unat ltag,
                                  item_data = take (unat sz) start'\<rparr>, drop (unat sz) start')
                      else None)
                 | _ \<Rightarrow> None)
              else
                (let n = short_item_size (unat (b AND 3))
                 in if n \<le> length start
                    then Some (\<lparr>item_format = HID_ITEM_FORMAT_SHORT, item_size = n,
                                item_type = type, item_tag = tag,
                                item_data = take n start\<rparr>, drop n start)
                    else None)))"

text \<open>\<open>item_udata\<close> and \<open>item_sdata\<close>: the data read unsigned or sign-extended.\<close>

fun le_value :: "u8 list \<Rightarrow> nat" where
  "le_value [] = 0"
| "le_value (b # bs) = unat b + 256 * le_value bs"

definition item_udata :: "hid_item \<Rightarrow> nat" where
  "item_udata it = (if item_size it \<in> {1, 2, 4} then le_value (item_data it) else 0)"

definition item_sdata :: "hid_item \<Rightarrow> int" where
  "item_sdata it =
     (if item_size it \<in> {1, 2, 4}
      then (let v = int (le_value (item_data it)); w = 8 * item_size it
            in if 2 ^ (w - 1) \<le> v then v - 2 ^ w else v)
      else 0)"

section \<open>Decoding facts\<close>

lemma u8_unat_less: "unat (b :: u8) < 256"
proof -
  have "unat b < 2 ^ LENGTH(8)" by (rule unsigned_less)
  then show ?thesis by simp
qed

lemma u8_three_mask: "(3 :: u8) = mask 2"
  by (simp add: mask_eq_exp_minus_1)

lemma u8_fifteen_mask: "(15 :: u8) = mask 4"
  by (simp add: mask_eq_exp_minus_1)

lemma unat_item_type: "unat (drop_bit 2 (b :: u8) AND 3) = unat b div 4 mod 4"
  by (simp add: u8_three_mask unat_drop_bit_eq drop_bit_eq_div unsigned_take_bit_eq
      take_bit_eq_mod unat_div unat_mod flip: take_bit_eq_mask)

lemma unat_item_sizebits: "unat ((b :: u8) AND 3) = unat b mod 4"
  by (simp add: u8_three_mask unsigned_take_bit_eq take_bit_eq_mod unat_mod
      flip: take_bit_eq_mask)

lemma unat_item_tag: "unat (drop_bit 4 (b :: u8) AND 15) = unat b div 16"
  using u8_unat_less [of b]
  by (simp add: u8_fifteen_mask unat_drop_bit_eq drop_bit_eq_div unsigned_take_bit_eq
      take_bit_eq_mod unat_div unat_mod flip: take_bit_eq_mask)

text \<open>The reader in arithmetic form: the prefix byte split into tag, type and size.\<close>

lemma fetch_item_Cons:
  "fetch_item (b # start) =
     (if unat b div 16 = 15 then
        (case start of
           sz # ltag # start' \<Rightarrow>
             (if unat sz \<le> length start'
              then Some (\<lparr>item_format = HID_ITEM_FORMAT_LONG, item_size = unat sz,
                          item_type = unat b div 4 mod 4, item_tag = unat ltag,
                          item_data = take (unat sz) start'\<rparr>, drop (unat sz) start')
              else None)
         | _ \<Rightarrow> None)
      else
        (if short_item_size (unat b mod 4) \<le> length start
         then Some (\<lparr>item_format = HID_ITEM_FORMAT_SHORT,
                     item_size = short_item_size (unat b mod 4),
                     item_type = unat b div 4 mod 4, item_tag = unat b div 16,
                     item_data = take (short_item_size (unat b mod 4)) start\<rparr>,
                    drop (short_item_size (unat b mod 4)) start)
         else None))"
  unfolding fetch_item_def Let_def unat_item_type unat_item_sizebits unat_item_tag
    HID_ITEM_TAG_LONG_def
  by (simp add: unat_drop_bit_eq drop_bit_eq_div unat_div split: list.split)

lemma unat_of_nat_u8: "n < 256 \<Longrightarrow> unat (of_nat n :: u8) = n"
  by (simp add: unat_of_nat)

lemma fetch_item_Nil [simp]: "fetch_item [] = None"
  by (simp add: fetch_item_def)

text \<open>Every item the reader returns consumes at least its prefix byte.\<close>

lemma fetch_item_shorter:
  "fetch_item buf = Some (it, next) \<Longrightarrow> length next < length buf"
  by (cases buf) (auto simp: fetch_item_Cons split: if_splits list.splits)

lemma fetch_item_data_length:
  "fetch_item buf = Some (it, next) \<Longrightarrow> length (item_data it) = item_size it"
  by (cases buf) (auto simp: fetch_item_Cons split: if_splits list.splits)

section \<open>Tokenizing a whole descriptor, and its inverse\<close>

text \<open>
  \<open>fetch_items\<close> splits a descriptor into items with \<open>fetch_item\<close> until the
  bytes are used up; \<open>encode_item\<close> writes an item back (a short item as its
  prefix byte and data, a long item as \<open>0xFE\<close>, size, tag and data). The two
  round-trip laws: well-formed items encode and read back to themselves, and a
  descriptor that reads as short items is the encoding of what it reads as.
\<close>

function (domintros) fetch_items :: "u8 list \<Rightarrow> hid_item list option" where
  "fetch_items buf =
     (if buf = [] then Some []
      else (case fetch_item buf of
              None \<Rightarrow> None
            | Some (it, next) \<Rightarrow> map_option (Cons it) (fetch_items next)))"
  by pat_completeness auto
termination
  by (relation "measure length") (auto dest: fetch_item_shorter)

declare fetch_items.simps [simp del]

text \<open>The size bits of a short item of \<open>n\<close> data bytes.\<close>

definition short_size_code :: "nat \<Rightarrow> nat" where
  "short_size_code n = (if n = 4 then 3 else n)"

definition encode_item :: "hid_item \<Rightarrow> u8 list" where
  "encode_item it =
     (if item_format it = HID_ITEM_FORMAT_LONG
      then 0xFE # of_nat (item_size it) # of_nat (item_tag it) # item_data it
      else of_nat (16 * item_tag it + 4 * item_type it + short_size_code (item_size it))
           # item_data it)"

text \<open>An item the format can express.\<close>

definition item_ok :: "hid_item \<Rightarrow> bool" where
  "item_ok it =
     (length (item_data it) = item_size it \<and>
      (if item_format it = HID_ITEM_FORMAT_LONG
       then item_type it = 3 \<and> item_tag it < 256 \<and> item_size it < 256
       else item_tag it < 15 \<and> item_type it < 4 \<and> item_size it \<in> {0, 1, 2, 4}))"

lemma prefix_fields:
  assumes "ty < 4" "c < (4::nat)"
  shows "(16 * t + 4 * ty + c) div 16 = t" "(16 * t + 4 * ty + c) div 4 mod 4 = ty"
    "(16 * t + 4 * ty + c) mod 4 = c"
proof -
  have "4 * ty + c < 16" using assms by simp
  then show "(16 * t + 4 * ty + c) div 16 = t" by simp
  have "(16 * t + 4 * ty + c) div 4 = 4 * t + ty" using assms by simp
  then show "(16 * t + 4 * ty + c) div 4 mod 4 = ty" using assms by simp
  have e: "16 * t + 4 * ty + c = c + (4 * t + ty) * 4" by simp
  show "(16 * t + 4 * ty + c) mod 4 = c" using assms by (simp only: e mod_mult_self1) simp
qed

lemma fetch_item_encode:
  assumes "item_ok it"
  shows "fetch_item (encode_item it @ rest) = Some (it, rest)"
proof (cases "item_format it")
  case HID_ITEM_FORMAT_SHORT
  let ?n = "16 * item_tag it + 4 * item_type it + short_size_code (item_size it)"
  have c: "short_size_code (item_size it) < 4"
    and sz: "short_item_size (short_size_code (item_size it)) = item_size it"
    and ty: "item_type it < 4" and tg: "item_tag it < 15"
    and len: "length (item_data it) = item_size it"
    using assms HID_ITEM_FORMAT_SHORT
    by (auto simp: item_ok_def short_size_code_def short_item_size_def)
  define b where "b = (of_nat ?n :: u8)"
  have e: "encode_item it = b # item_data it"
    using HID_ITEM_FORMAT_SHORT by (simp add: encode_item_def b_def)
  have ub: "unat b = ?n"
    unfolding b_def using c ty tg by (intro unat_of_nat_u8) simp
  note f = prefix_fields [OF ty c, of "item_tag it"]
  have "fetch_item (b # item_data it @ rest) = Some (it, rest)"
    using tg HID_ITEM_FORMAT_SHORT len
    by (simp only: fetch_item_Cons ub f sz) simp
  then show ?thesis by (simp add: e)
next
  case HID_ITEM_FORMAT_LONG
  then show ?thesis
    using assms by (simp add: encode_item_def fetch_item_Cons item_ok_def unat_of_nat_u8)
qed


lemma encode_item_nonempty: "encode_item it \<noteq> []"
  by (simp add: encode_item_def)

lemma fetch_items_encode:
  "list_all item_ok its \<Longrightarrow> fetch_items (concat (map encode_item its)) = Some its"
proof (induction its)
  case Nil
  then show ?case by (simp add: fetch_items.simps)
next
  case (Cons it its)
  have "fetch_item (encode_item it @ concat (map encode_item its)) =
      Some (it, concat (map encode_item its))"
    using Cons.prems by (simp add: fetch_item_encode)
  then show ?case
    using Cons encode_item_nonempty [of it]
    by (simp add: fetch_items.simps [of "encode_item it @ concat (map encode_item its)"])
qed

lemma prefix_rebuild: "16 * (x div 16) + 4 * (x div 4 mod 4) + x mod 4 = (x :: nat)"
proof -
  have a: "x = 16 * (x div 16) + x mod 16" by simp
  have b: "x mod 16 = 4 * (x div 4 mod 4) + x mod 4"
    by (metis mod_mult2_eq mult.commute numeral_times_numeral semiring_norm(12) semiring_norm(13))
  show ?thesis using a b by linarith
qed

lemma short_size_code_inverse: "c < 4 \<Longrightarrow> short_size_code (short_item_size c) = c"
  by (auto simp: short_size_code_def short_item_size_def)

lemma encode_fetch_item:
  assumes "fetch_item buf = Some (it, next)" and "item_format it = HID_ITEM_FORMAT_SHORT"
  shows "encode_item it @ next = buf"
proof (cases buf)
  case Nil
  with assms show ?thesis by simp
next
  case (Cons b start)
  let ?c = "unat b mod 4"
  have it: "it = \<lparr>item_format = HID_ITEM_FORMAT_SHORT, item_size = short_item_size ?c,
                  item_type = unat b div 4 mod 4, item_tag = unat b div 16,
                  item_data = take (short_item_size ?c) start\<rparr>"
    and nx: "next = drop (short_item_size ?c) start"
    using assms Cons by (auto simp: fetch_item_Cons split: if_splits list.splits)
  have "(of_nat (16 * (unat b div 16) + 4 * (unat b div 4 mod 4) +
            short_size_code (short_item_size ?c)) :: u8) = b"
    by (simp only: short_size_code_inverse prefix_rebuild) simp
  then show ?thesis
    by (simp add: it nx Cons encode_item_def)
qed

lemma encode_fetch_items:
  "fetch_items buf = Some its \<Longrightarrow> list_all (\<lambda>it. item_format it = HID_ITEM_FORMAT_SHORT) its \<Longrightarrow>
   concat (map encode_item its) = buf"
proof (induction buf arbitrary: its rule: fetch_items.induct)
  case (1 buf)
  show ?case
  proof (cases "buf = []")
    case True
    with "1.prems" show ?thesis by (simp add: fetch_items.simps)
  next
    case False
    with "1.prems"(1) obtain it "next" its' where
      f: "fetch_item buf = Some (it, next)" and r: "fetch_items next = Some its'"
      and its: "its = it # its'"
      by (auto simp: fetch_items.simps [of buf] split: option.splits)
    with "1.prems"(2) have "concat (map encode_item its') = next"
      using "1.IH" [OF False f refl] by simp
    moreover have "encode_item it @ next = buf"
      using f "1.prems"(2) its by (intro encode_fetch_item) auto
    ultimately show ?thesis by (simp add: its)
  qed
qed

text \<open>A descriptor that reads completely as well-formed short items.\<close>

definition items_wf :: "u8 list \<Rightarrow> bool" where
  "items_wf buf =
     (case fetch_items buf of
        None \<Rightarrow> False
      | Some its \<Rightarrow> list_all (\<lambda>it. item_format it = HID_ITEM_FORMAT_SHORT \<and> item_ok it) its)"

lemma items_wf_roundtrip:
  assumes "items_wf buf"
  shows "\<exists>its. fetch_items buf = Some its \<and> list_all item_ok its \<and>
           concat (map encode_item its) = buf \<and> fetch_items (concat (map encode_item its)) = Some its"
proof -
  from assms obtain its where f: "fetch_items buf = Some its"
    and a: "list_all (\<lambda>it. item_format it = HID_ITEM_FORMAT_SHORT \<and> item_ok it) its"
    by (auto simp: items_wf_def split: option.splits)
  from a have sh: "list_all (\<lambda>it. item_format it = HID_ITEM_FORMAT_SHORT) its"
    and ok: "list_all item_ok its"
    by (auto simp: list_all_iff)
  have "concat (map encode_item its) = buf" by (rule encode_fetch_items [OF f sh])
  with f ok show ?thesis by auto
qed

section \<open>Properties of the item reader\<close>

lemma fetch_items_dom_all: "fetch_items_dom buf"
proof (induction buf rule: length_induct)
  case (1 buf)
  show ?case
    by (rule fetch_items.domintros) (use 1 fetch_item_shorter in blast)
qed

text \<open>
  Every item \<open>fetch_item\<close> returns is well formed: its type has two bits, its
  data is as long as its size; a short item has 0, 1, 2 or 4 data bytes and a tag
  below the long-item tag and was read from one prefix byte followed by its data;
  a long item has a one-byte size and tag and was read from three header bytes
  followed by its data. What follows the item is the rest of the buffer.
\<close>

lemma fetch_item_wf:
  assumes "fetch_item buf = Some (it, next)"
  shows "item_type it < 4 \<and> length (item_data it) = item_size it \<and>
    (if item_format it = HID_ITEM_FORMAT_SHORT
     then item_size it \<in> {0, 1, 2, 4} \<and> item_tag it < 15 \<and> (\<exists>b. buf = b # item_data it @ next)
     else item_size it < 256 \<and> item_tag it < 256 \<and> (\<exists>b sz t. buf = b # sz # t # item_data it @ next))"
proof (cases buf)
  case Nil
  then show ?thesis using assms by simp
next
  case (Cons b start)
  have "unat b div 16 < 16" using u8_unat_less [of b] by simp
  then show ?thesis
    using assms u8_unat_less Cons
    by (auto simp: fetch_item_Cons short_item_size_def split: if_splits list.splits)
qed

text \<open>A Usage Page (Generic Desktop) item: one prefix byte and one data byte.\<close>

lemma fetch_item_usage_page:
  "fetch_item [0x05, 0x01] = Some (\<lparr>item_format = HID_ITEM_FORMAT_SHORT, item_size = 1, item_type = 1,
      item_tag = 0, item_data = [0x01]\<rparr>, []) \<and> item_size (fst (the (fetch_item [0x05, 0x01]))) \<in> {0, 1, 2, 4}"
proof -
  have f: "fetch_item [0x05, 0x01] = Some (\<lparr>item_format = HID_ITEM_FORMAT_SHORT, item_size = 1, item_type = 1,
      item_tag = 0, item_data = [0x01]\<rparr>, [])"
    by (simp add: fetch_item_Cons short_item_size_def)
  show ?thesis using fetch_item_wf [OF f] f by simp
qed

end
