(* ===== verification/Hid_Parser.thy ===== *)
theory Hid_Parser
  imports Hid_Items
begin

text \<open>
  The host's generic report-descriptor parser (\<open>drivers/hid/hid-core.c\<close>: the
  item loop of \<open>hid_open_report\<close>, \<open>hid_parser_main\<close>, \<open>hid_parser_global\<close>,
  \<open>hid_parser_local\<close>, \<open>hid_add_usage\<close>, \<open>hid_add_field\<close>), run on the items of
  \<open>Hid_Items\<close>. It models the parser's structural checks (collection nesting,
  the global push/pop stack, the limits on report size, count and id, delimiters,
  the logical range of a main item), the usage lists of the local state with their
  \<open>HID_MAX_USAGES\<close> limit and the usage page joined to short usages
  (\<open>complete_usage\<close>, \<open>hid_concatenate_last_usage_page\<close>), and its accounting of
  the size of each report and the usages of each of its fields. The lemmas show
  that the item loop ends and returns 0 or \<open>-EINVAL\<close>, what joining the usage
  page does, and that every state of the loop stays within hid-core's array bounds
  (\<open>parser_wf\<close>). Of a field only its usages are kept: its flags, units,
  collections and value arrays are not modelled.
\<close>

unbundle bit_operations_syntax

section \<open>The parser state and its item handlers\<close>

text \<open>
  The part of \<open>struct hid_global\<close> the parser reads. The logical extent is a pair
  of \<open>__s32\<close>, kept as the integers they hold.
\<close>

record hid_global =
  usage_page :: u32
  logical_minimum :: int
  logical_maximum :: int
  report_size :: nat
  report_count :: nat
  report_id :: nat

text \<open>
  The part of \<open>struct hid_parser\<close> the checks read: the global state and its
  push/pop stack, the collection stack (top first, each entry the collection type);
  the local state: the usages collected since the last main item, each with the
  size of the item that declared it (\<open>usage[]\<close> and \<open>usage_size[]\<close>, with
  \<open>usage_index\<close> their length), \<open>usage_minimum\<close>, the delimiter depth and
  the number of delimiter sets opened (\<open>delimiter_branch\<close>); and, from the
  device's report tables, the size in bits of each report and the usages of
  each of its fields (\<open>field->usage[i].hid\<close>), keyed by report type (0 input, 1 output, 2 feature) and id.
\<close>

record hid_parser =
  global :: hid_global
  global_stack :: "hid_global list"
  collection_stack :: "nat list"
  usages :: "(u32 \<times> nat) list"
  usage_minimum :: u32
  delimiter_depth :: nat
  delimiter_branch :: nat
  report_bits :: "((nat \<times> nat) \<times> nat) list"
  report_fields :: "((nat \<times> nat) \<times> u32 list list) list"

definition hid_parser_init :: hid_parser where
  "hid_parser_init =
     \<lparr>global = \<lparr>usage_page = 0, logical_minimum = 0, logical_maximum = 0, report_size = 0,
                report_count = 0, report_id = 0\<rparr>,
      global_stack = [], collection_stack = [], usages = [], usage_minimum = 0,
      delimiter_depth = 0, delimiter_branch = 0, report_bits = [], report_fields = []\<rparr>"

text \<open>The size of a report not yet registered is 0.\<close>

definition report_bits_of :: "((nat \<times> nat) \<times> nat) list \<Rightarrow> nat \<times> nat \<Rightarrow> nat" where
  "report_bits_of rs k = (case map_of rs k of None \<Rightarrow> 0 | Some n \<Rightarrow> n)"

definition HID_GLOBAL_STACK_SIZE :: nat where "HID_GLOBAL_STACK_SIZE = 4"
definition HID_MAX_USAGES :: nat where "HID_MAX_USAGES = 12288"
definition HID_MAX_IDS :: nat where "HID_MAX_IDS = 256"
definition HID_MAX_BUFFER_SIZE :: nat where "HID_MAX_BUFFER_SIZE = 16384"
definition HID_MAX_FIELDS :: nat where "HID_MAX_FIELDS = 256"

named_theorems hid_parser_consts "limits of the host parser"
declare HID_GLOBAL_STACK_SIZE_def [hid_parser_consts] HID_MAX_USAGES_def [hid_parser_consts]
  HID_MAX_IDS_def [hid_parser_consts] HID_ITEM_TAG_LONG_def [hid_parser_consts]
  HID_MAX_BUFFER_SIZE_def [hid_parser_consts] HID_MAX_FIELDS_def [hid_parser_consts]

text \<open>
  The item handlers return \<open>None\<close> where the C handler returns \<open>-1\<close>.
  \<open>hid_parser_global\<close>: tag 0 sets the usage page; tags 1 to 6 (logical and
  physical extent, unit exponent, unit) store a value, of which the logical extent
  is read later; 7 report size, 8 report id, 9 report count
  are range-checked; 10 push and 11 pop use the stack of \<open>HID_GLOBAL_STACK_SIZE\<close>
  entries; any other tag is an error. A logical maximum is read signed when the
  logical minimum is negative and unsigned otherwise; the unsigned value is stored
  in the \<open>__s32\<close> field, so one of \<open>2^31\<close> or more wraps to a negative value.
\<close>

definition hid_parser_global :: "hid_parser \<Rightarrow> hid_item \<Rightarrow> hid_parser option" where
  "hid_parser_global p it =
     (let g = global p; tag = item_tag it in
      if tag = 10 then
        (if length (global_stack p) = HID_GLOBAL_STACK_SIZE then None
         else Some (p\<lparr>global_stack := g # global_stack p\<rparr>))
      else if tag = 11 then
        (case global_stack p of
           [] \<Rightarrow> None
         | g' # gs \<Rightarrow> Some (p\<lparr>global := g', global_stack := gs\<rparr>))
      else if tag = 0 then
        Some (p\<lparr>global := g\<lparr>usage_page := of_nat (item_udata it)\<rparr>\<rparr>)
      else if tag = 1 then
        Some (p\<lparr>global := g\<lparr>logical_minimum := item_sdata it\<rparr>\<rparr>)
      else if tag = 2 then
        Some (p\<lparr>global := g\<lparr>logical_maximum :=
          (if logical_minimum g < 0 then item_sdata it
           else sint (of_nat (item_udata it) :: 32 word))\<rparr>\<rparr>)
      else if tag = 7 then
        (if 256 < item_udata it then None
         else Some (p\<lparr>global := g\<lparr>report_size := item_udata it\<rparr>\<rparr>))
      else if tag = 9 then
        (if HID_MAX_USAGES < item_udata it then None
         else Some (p\<lparr>global := g\<lparr>report_count := item_udata it\<rparr>\<rparr>))
      else if tag = 8 then
        (if item_udata it = 0 \<or> HID_MAX_IDS \<le> item_udata it then None
         else Some (p\<lparr>global := g\<lparr>report_id := item_udata it\<rparr>\<rparr>))
      else if tag \<le> 6 then Some p
      else None)"

text \<open>
  \<open>complete_usage\<close>: keep the usage id (the low 16 bits) and put the low 16 bits of
  the usage page above it.
\<close>

definition complete_usage :: "u32 \<Rightarrow> u32 \<Rightarrow> u32" where
  "complete_usage page u = (u AND 0xFFFF) OR push_bit 16 (page AND 0xFFFF)"

text \<open>
  \<open>hid_add_usage\<close>: append a usage, with the size of the item that declared it, to
  the local list, an error once the list holds \<open>HID_MAX_USAGES\<close> usages. A usage
  of one or two bytes is only a usage id and is joined to the current usage page.
\<close>

definition hid_add_usage :: "hid_parser \<Rightarrow> u32 \<Rightarrow> nat \<Rightarrow> hid_parser option" where
  "hid_add_usage p u sz =
     (if HID_MAX_USAGES \<le> length (usages p) then None
      else Some (p\<lparr>usages := usages p @
        [(if sz \<le> 2 then complete_usage (usage_page (global p)) u else u, sz)]\<rparr>))"

text \<open>
  The loop \<open>for (n = usage_minimum; n <= data; n++) if (hid_add_usage(...)) return -1;\<close>
  with \<open>n\<close> and \<open>data\<close> of type \<open>unsigned\<close>: \<open>n++\<close> wraps, so with
  \<open>data = 0xffffffff\<close> the condition never fails and only \<open>hid_add_usage\<close> ends the
  loop. It ends because every iteration that goes on adds a usage, which
  \<open>HID_MAX_USAGES\<close> bounds.
\<close>

function hid_add_usage_range :: "hid_parser \<Rightarrow> u32 \<Rightarrow> u32 \<Rightarrow> nat \<Rightarrow> hid_parser option" where
  "hid_add_usage_range p n data sz =
     (if n \<le> data then
        (case hid_add_usage p n sz of
           None \<Rightarrow> None
         | Some p' \<Rightarrow> hid_add_usage_range p' (n + 1) data sz)
      else Some p)"
  by pat_completeness auto
termination
  by (relation "measure (\<lambda>(p, n, data, sz). HID_MAX_USAGES - length (usages p))")
    (auto simp: hid_add_usage_def split: if_splits)

declare hid_add_usage_range.simps [simp del]

text \<open>
  \<open>hid_parser_local\<close>: a local item must carry data. Tag 10 opens (data non-zero)
  or closes a delimiter set, which may not nest; every set opened counts a branch.
  Tags 0 (Usage), 1 (Usage Minimum) and 2 (Usage Maximum) are ignored from the
  second branch on. A Usage adds its data. A Usage Maximum adds the usages from
  the minimum to its data (each with the size of the Usage Maximum item), all arithmetic on \<open>__u32\<close>: when
  \<open>data - usage_minimum + usage_index\<close> reaches \<open>HID_MAX_USAGES\<close> the range is cut
  to end at \<open>HID_MAX_USAGES - usage_index + usage_minimum - 1\<close>, an error if that is
  0. Other tags are ignored.
\<close>

definition hid_parser_local :: "hid_parser \<Rightarrow> hid_item \<Rightarrow> hid_parser option" where
  "hid_parser_local p it =
     (let data = (of_nat (item_udata it) :: u32) in
      if item_size it = 0 then None
      else if item_tag it = 10 then
        (if item_udata it \<noteq> 0 then
           (if delimiter_depth p \<noteq> 0 then None
            else Some (p\<lparr>delimiter_depth := Suc (delimiter_depth p),
                         delimiter_branch := Suc (delimiter_branch p)\<rparr>))
         else if delimiter_depth p < 1 then None
         else Some (p\<lparr>delimiter_depth := delimiter_depth p - 1\<rparr>))
      else if item_tag it \<in> {0, 1, 2} \<and> 1 < delimiter_branch p then Some p
      else if item_tag it = 0 then hid_add_usage p data (item_size it)
      else if item_tag it = 1 then Some (p\<lparr>usage_minimum := data\<rparr>)
      else if item_tag it = 2 then
        (let count = data - usage_minimum p;
             idx = (of_nat (length (usages p)) :: u32)
         in if of_nat HID_MAX_USAGES \<le> count + idx then
              (let data' = of_nat HID_MAX_USAGES - idx + usage_minimum p - 1
               in if data' = 0 then None else hid_add_usage_range p (usage_minimum p) data' (item_size it))
            else hid_add_usage_range p (usage_minimum p) data (item_size it))
      else Some p)"

text \<open>
  The logical-range check of \<open>hid_add_field\<close>, run for every Input, Output and
  Feature item: with a non-negative minimum both bounds are compared as
  \<open>__u32\<close>.
\<close>

definition logical_range_ok :: "hid_global \<Rightarrow> bool" where
  "logical_range_ok g =
     (\<not> ((logical_minimum g < 0 \<and> logical_maximum g < logical_minimum g) \<or>
         (0 \<le> logical_minimum g \<and> logical_maximum g mod 2 ^ 32 < logical_minimum g)))"

text \<open>
  \<open>hid_add_field\<close>: the field joins the report of its type and the current report
  id, which grows by \<open>report_size * report_count\<close> bits; a report longer than
  \<open>(HID_MAX_BUFFER_SIZE - 1) << 3\<close> bits is an error. A field without usages is
  padding and ends there; otherwise \<open>hid_register_field\<close> adds a field of
  \<open>max(usage_index, report_count)\<close> usages, the local usages in order and the
  last one repeated for the excess values. When the report already has
  \<open>HID_MAX_FIELDS\<close> fields \<open>hid_register_field\<close> returns \<open>NULL\<close> and
  \<open>hid_add_field\<close> returns 0: the field is dropped and the parse goes on.
\<close>

definition field_usages :: "u32 list \<Rightarrow> nat \<Rightarrow> u32 list" where
  "field_usages us n = us @ replicate (n - length us) (last us)"

definition report_fields_of :: "((nat \<times> nat) \<times> u32 list list) list \<Rightarrow> nat \<times> nat \<Rightarrow> u32 list list" where
  "report_fields_of rs k = (case map_of rs k of None \<Rightarrow> [] | Some fs \<Rightarrow> fs)"

definition hid_add_field :: "hid_parser \<Rightarrow> nat \<Rightarrow> hid_parser option" where
  "hid_add_field p report_type =
     (let g = global p; k = (report_type, report_id g);
          sz = report_bits_of (report_bits p) k + report_size g * report_count g;
          fs = report_fields_of (report_fields p) k
      in if \<not> logical_range_ok g then None
         else if (HID_MAX_BUFFER_SIZE - 1) * 8 < sz then None
         else if usages p = [] then Some (p\<lparr>report_bits := AList.update k sz (report_bits p)\<rparr>)
         else if length fs = HID_MAX_FIELDS then Some (p\<lparr>report_bits := AList.update k sz (report_bits p)\<rparr>)
         else Some (p\<lparr>report_bits := AList.update k sz (report_bits p),
                      report_fields := AList.update k (fs @ [field_usages (map fst (usages p)) (report_count g)])
                                         (report_fields p)\<rparr>))"

text \<open>
  \<open>hid_concatenate_last_usage_page\<close>, run at every main item: from the last usage
  back, every usage of at most two bytes is joined to the current usage page, until
  one is met whose page (its upper 16 bits) already is the current page; usages of
  more than two bytes are skipped. \<open>hid_concat_page\<close> is that loop on the usages
  in reverse order.
\<close>

fun hid_concat_page :: "u32 \<Rightarrow> (u32 \<times> nat) list \<Rightarrow> (u32 \<times> nat) list" where
  "hid_concat_page page [] = []"
| "hid_concat_page page ((u, sz) # us) =
     (if 2 < sz then (u, sz) # hid_concat_page page us
      else if drop_bit 16 u = page then (u, sz) # us
      else (complete_usage page u, sz) # hid_concat_page page us)"

definition hid_concatenate_last_usage_page :: "hid_parser \<Rightarrow> hid_parser" where
  "hid_concatenate_last_usage_page p =
     (if usages p = [] then p
      else p\<lparr>usages := rev (hid_concat_page (usage_page (global p)) (rev (usages p)))\<rparr>)"

text \<open>
  \<open>hid_parser_main\<close>: tag 10 opens a collection, 12 closes one (an error on an
  empty stack), 8, 9 and 11 (Input, Output, Feature) add a field to a report of
  type 0, 1 or 2; other tags are warned about and ignored. The last usage page is
  joined to the local usages first, and the local state (usages, usage minimum,
  delimiters) is cleared after every main item.
\<close>

definition hid_parser_main :: "hid_parser \<Rightarrow> hid_item \<Rightarrow> hid_parser option" where
  "hid_parser_main p it =
     (let q = hid_concatenate_last_usage_page p in
      map_option (\<lambda>p'. p'\<lparr>usages := [], usage_minimum := 0, delimiter_depth := 0, delimiter_branch := 0\<rparr>)
        (if item_tag it = 10 then
           Some (q\<lparr>collection_stack := item_udata it mod 256 # collection_stack q\<rparr>)
         else if item_tag it = 12 then
           (case collection_stack q of
              [] \<Rightarrow> None
            | _ # cs \<Rightarrow> Some (q\<lparr>collection_stack := cs\<rparr>))
         else if item_tag it = 8 then hid_add_field q 0
         else if item_tag it = 9 then hid_add_field q 1
         else if item_tag it = 11 then hid_add_field q 2
         else Some q))"

text \<open>\<open>dispatch_type[item.type]\<close>; type 3 is reserved and ignored.\<close>

definition hid_dispatch :: "hid_parser \<Rightarrow> hid_item \<Rightarrow> hid_parser option" where
  "hid_dispatch p it =
     (if item_type it = 0 then hid_parser_main p it
      else if item_type it = 1 then hid_parser_global p it
      else if item_type it = 2 then hid_parser_local p it
      else Some p)"

section \<open>The item loop of hid_open_report\<close>

text \<open>
  The C loop returns \<open>ret\<close>; the model also returns the parser state it ends in.
  \<^verbatim>\<open>
  while ((next = fetch_item(start, end, &item)) != NULL) {
      start = next;
      if (item.format != HID_ITEM_FORMAT_SHORT) goto err;
      if (dispatch_type[item.type](parser, &item)) goto err;
      if (start == end) {
          if (parser->collection_stack_ptr) goto err;
          if (parser->local.delimiter_depth) goto err;
          ...; return 0;
      }
  }
  err: return -EINVAL;
  \<close>
  An empty descriptor fails at the first fetch. The loop ends because every
  fetched item is at least one byte long.
\<close>

function (domintros) hid_parse_items :: "hid_parser \<Rightarrow> u8 list \<Rightarrow> int \<times> hid_parser" where
  "hid_parse_items p buf =
     (case fetch_item buf of
        None \<Rightarrow> (- EINVAL, p)
      | Some (it, next) \<Rightarrow>
          (if item_format it \<noteq> HID_ITEM_FORMAT_SHORT then (- EINVAL, p)
           else
             (case hid_dispatch p it of
                None \<Rightarrow> (- EINVAL, p)
              | Some p' \<Rightarrow>
                  (if next = [] then
                     (if collection_stack p' \<noteq> [] then (- EINVAL, p')
                      else if delimiter_depth p' \<noteq> 0 then (- EINVAL, p')
                      else (0, p'))
                   else hid_parse_items p' next))))"
  by pat_completeness auto
termination
  by (relation "measure (\<lambda>(p, buf). length buf)") (auto dest: fetch_item_shorter)

declare hid_parse_items.simps [simp del]

text \<open>The generic parser run by \<open>hid_open_report\<close> on a descriptor: its return value.\<close>

definition hid_report_parse :: "u8 list \<Rightarrow> int" where
  "hid_report_parse buf = fst (hid_parse_items hid_parser_init buf)"

text \<open>The report sizes a successful parse leaves in the device.\<close>

definition hid_report_layout :: "u8 list \<Rightarrow> (nat \<times> nat \<Rightarrow> nat) option" where
  "hid_report_layout buf =
     (let (ret, p) = hid_parse_items hid_parser_init buf
      in if ret = 0 then Some (report_bits_of (report_bits p)) else None)"

text \<open>The fields a successful parse registers: for each report, the usages of each field.\<close>

definition hid_report_usages :: "u8 list \<Rightarrow> ((nat \<times> nat) \<times> u32 list list) list option" where
  "hid_report_usages buf =
     (let (ret, p) = hid_parse_items hid_parser_init buf
      in if ret = 0 then Some (report_fields p) else None)"

text \<open>For each report, the usage count (\<open>maxusage\<close>) of each field.\<close>

definition hid_report_fields :: "u8 list \<Rightarrow> ((nat \<times> nat) \<times> nat list) list option" where
  "hid_report_fields buf = map_option (map (\<lambda>(k, fs). (k, map length fs))) (hid_report_usages buf)"

text \<open>
  The bounds hid-core's arrays put on the parser state: at most \<open>HID_MAX_USAGES\<close>
  usages, delimiters not nested, at most \<open>HID_GLOBAL_STACK_SIZE\<close> pushed global
  states, at most \<open>HID_MAX_FIELDS\<close> fields per report.
\<close>

definition parser_wf :: "hid_parser \<Rightarrow> bool" where
  "parser_wf p =
     (length (usages p) \<le> HID_MAX_USAGES \<and> delimiter_depth p \<le> 1 \<and>
      length (global_stack p) \<le> HID_GLOBAL_STACK_SIZE \<and>
      list_all (\<lambda>(k, fs). length fs \<le> HID_MAX_FIELDS) (report_fields p))"

section \<open>Properties of the item loop\<close>


lemma hid_parse_items_dom_all: "hid_parse_items_dom (p, buf)"
proof (induction buf arbitrary: p rule: length_induct)
  case (1 buf)
  show ?case
    by (rule hid_parse_items.domintros) (use 1 fetch_item_shorter in blast)
qed

lemma hid_parse_items_ret: "fst (hid_parse_items p buf) \<in> {0, - EINVAL}"
proof (induction p buf rule: hid_parse_items.induct)
  case (1 p buf)
  then show ?case
    by (subst hid_parse_items.simps) (auto split: option.split prod.split)
qed

text \<open>
  The item loop of \<open>hid_open_report\<close> and the tokenizer end on every
  descriptor from every parser state (their domain predicates hold everywhere,
  proved by induction on the length of the bytes left, which every fetched item
  shortens), and the loop returns either 0 or \<open>-EINVAL\<close>.
\<close>

lemma item_loop_terminates:
  "hid_parse_items_dom (p, buf) \<and> fetch_items_dom buf \<and> hid_report_parse buf \<in> {0, - EINVAL}"
  using hid_parse_items_dom_all fetch_items_dom_all hid_parse_items_ret
  by (simp add: hid_report_parse_def)

text \<open>
  A Logical Maximum of \<open>0xFFFFFFFF\<close> after a non-negative minimum is stored in
  the \<open>__s32\<close> field as -1.
\<close>

lemma logical_maximum_wraps:
  "map_option (\<lambda>p. logical_maximum (global p))
     (hid_parser_global hid_parser_init \<lparr>item_format = HID_ITEM_FORMAT_SHORT, item_size = 4, item_type = 1,
        item_tag = 2, item_data = [0xFF, 0xFF, 0xFF, 0xFF]\<rparr>) = Some (- 1)"
  by code_simp

section \<open>Joining the usage page\<close>

lemma length_hid_concat_page [simp]: "length (hid_concat_page page us) = length us"
  by (induction page us rule: hid_concat_page.induct) auto

text \<open>
  The usage id survives \<open>complete_usage\<close> and the page above it is the low half
  of the usage page; joining twice changes nothing more.
\<close>

lemma u32_low_mask: "(0xFFFF :: u32) = mask 16"
  by (simp add: mask_eq_exp_minus_1)

lemma complete_usage_bits:
  "complete_usage page u AND 0xFFFF = u AND 0xFFFF \<and> drop_bit 16 (complete_usage page u) = page AND 0xFFFF"
proof
  show "complete_usage page u AND 0xFFFF = u AND 0xFFFF"
    unfolding complete_usage_def u32_low_mask by (rule bit_word_eqI) (auto simp: bit_simps)
  show "drop_bit 16 (complete_usage page u) = page AND 0xFFFF"
    unfolding complete_usage_def u32_low_mask by (rule bit_word_eqI) (auto simp: bit_simps)
qed

lemma complete_usage_idem: "complete_usage page (complete_usage page u) = complete_usage page u"
  unfolding complete_usage_def u32_low_mask by (rule bit_word_eqI) (auto simp: bit_simps)

text \<open>
  The usage id and the page occupy disjoint bits, so joining them is an
  addition; evaluation uses that arithmetic form.
\<close>

lemma complete_usage_plus: "complete_usage page u = take_bit 16 u + push_bit 16 (take_bit 16 page)"
  unfolding complete_usage_def u32_low_mask take_bit_eq_mask
  by (subst disjunctive_add) (auto simp: bit_simps)
lemma complete_usage_arith [code]: "complete_usage page u = word_of_nat (unat u mod 65536 + 65536 * (unat page mod 65536))"
proof -
  have a: "unat (take_bit 16 u) = unat u mod 65536" by (simp add: take_bit_eq_mod unat_mod)
  have x: "unat (take_bit 16 page) = unat page mod 65536" by (simp add: take_bit_eq_mod unat_mod)
  have y: "unat (take_bit 16 page) * unat (65536 :: u32) < 2 ^ LENGTH(32)"
    unfolding x using mod_less_divisor [of 65536 "unat page"] by simp
  have b: "unat (push_bit 16 (take_bit 16 page)) = 65536 * (unat page mod 65536)"
    unfolding push_bit_eq_mult using unat_mult_lem [THEN iffD1, OF y] x by simp
  have c: "unat u mod 65536 + 65536 * (unat page mod 65536) < 2 ^ LENGTH(32)" by simp
  have "unat (take_bit 16 u + push_bit 16 (take_bit 16 page)) = unat u mod 65536 + 65536 * (unat page mod 65536)"
    using a b c by (simp add: unat_add_lem [THEN iffD1])
  then show ?thesis unfolding word_unat_eq_iff complete_usage_plus unat_of_nat mod_less [OF c] .
qed

text \<open>
  The loop with its \<open>break\<close> is the reference: join every short usage of the
  longest run at the end of the list that holds no short usage already on the
  current page, and keep the rest.
\<close>

lemma hid_concat_page_eq:
  "hid_concat_page page us =
     map (\<lambda>(u, sz). (if sz \<le> 2 then complete_usage page u else u, sz))
       (takeWhile (\<lambda>(u, sz). 2 < sz \<or> drop_bit 16 u \<noteq> page) us) @
     dropWhile (\<lambda>(u, sz). 2 < sz \<or> drop_bit 16 u \<noteq> page) us"
  by (induction page us rule: hid_concat_page.induct) auto

lemma hid_concat_page_sizes [simp]: "map snd (hid_concat_page page us) = map snd us"
  by (induction page us rule: hid_concat_page.induct) auto

text \<open>
  A field holds the local usages in order, then the last of them once for each
  value beyond them: \<open>max(usage_index, report_count)\<close> usages in all.
\<close>

lemma field_usages_shape:
  "length (field_usages us n) = max (length us) n \<and> take (length us) (field_usages us n) = us \<and>
   set (drop (length us) (field_usages us n)) \<subseteq> {last us}"
  by (auto simp: field_usages_def)

section \<open>The parser state stays within hid-core's bounds\<close>

lemma parser_wf_init: "parser_wf hid_parser_init"
  by (simp add: parser_wf_def hid_parser_init_def)

lemma hid_add_usage_wf: "parser_wf p \<Longrightarrow> hid_add_usage p u sz = Some p' \<Longrightarrow> parser_wf p'"
  by (auto simp: hid_add_usage_def parser_wf_def split: if_splits)

lemma hid_add_usage_range_wf:
  "parser_wf p \<Longrightarrow> hid_add_usage_range p n data sz = Some p' \<Longrightarrow> parser_wf p'"
proof (induction p n data sz rule: hid_add_usage_range.induct)
  case (1 p n data sz)
  show ?case
    using "1.prems" "1.IH" hid_add_usage_wf [OF "1.prems"(1)]
    by (subst (asm) hid_add_usage_range.simps) (auto split: if_splits option.splits)
qed

lemma hid_parser_local_wf:
  assumes wf: "parser_wf p" and a: "hid_parser_local p it = Some p'"
  shows "parser_wf p'"
proof (cases "item_size it = 0 \<or> item_tag it = 10 \<or> (item_tag it \<in> {0, 1, 2} \<and> 1 < delimiter_branch p)")
  case True
  then show ?thesis
    using wf a by (auto simp: hid_parser_local_def Let_def parser_wf_def split: if_splits)
next
  case False
  let ?data = "of_nat (item_udata it) :: u32"
  let ?idx = "of_nat (length (usages p)) :: u32"
  have e: "hid_parser_local p it =
     (if item_tag it = 0 then hid_add_usage p ?data (item_size it)
      else if item_tag it = 1 then Some (p\<lparr>usage_minimum := ?data\<rparr>)
      else if item_tag it = 2 then
        (if of_nat HID_MAX_USAGES \<le> ?data - usage_minimum p + ?idx then
           (if of_nat HID_MAX_USAGES - ?idx + usage_minimum p - 1 = 0 then None
            else hid_add_usage_range p (usage_minimum p) (of_nat HID_MAX_USAGES - ?idx + usage_minimum p - 1)
              (item_size it))
         else hid_add_usage_range p (usage_minimum p) ?data (item_size it))
      else Some p)"
  proof -
    have c: "item_size it \<noteq> 0" "item_tag it \<noteq> 10" "\<not> (item_tag it \<in> {0, 1, 2} \<and> 1 < delimiter_branch p)"
      using False by simp_all
    show ?thesis
      unfolding hid_parser_local_def Let_def if_not_P [OF c(1)] if_not_P [OF c(2)] if_not_P [OF c(3)] ..
  qed
  have "p' = p \<or> p' = p\<lparr>usage_minimum := ?data\<rparr> \<or> hid_add_usage p ?data (item_size it) = Some p' \<or>
      (\<exists>n d sz. hid_add_usage_range p n d sz = Some p')"
    using a unfolding e by (simp only: split: if_split_asm) blast+
  then show ?thesis
    using wf hid_add_usage_wf [OF wf] hid_add_usage_range_wf [OF wf] by (auto simp: parser_wf_def)
qed

lemma hid_parser_global_wf: "parser_wf p \<Longrightarrow> hid_parser_global p it = Some p' \<Longrightarrow> parser_wf p'"
  by (auto simp: hid_parser_global_def Let_def parser_wf_def split: if_splits list.splits)

lemma hid_add_field_wf: "parser_wf p \<Longrightarrow> hid_add_field p t = Some p' \<Longrightarrow> parser_wf p'"
proof -
  assume wf: "parser_wf p" and a: "hid_add_field p t = Some p'"
  let ?k = "(t, report_id (global p))"
  have "length (report_fields_of (report_fields p) ?k) \<le> HID_MAX_FIELDS"
    using wf by (auto simp: parser_wf_def report_fields_of_def list_all_iff split: option.splits
        dest!: map_of_SomeD)
  then show "parser_wf p'"
    using wf a by (auto simp: hid_add_field_def Let_def parser_wf_def intro!: list_all_update
        split: if_splits)
qed

lemma hid_parser_main_wf:
  assumes wf: "parser_wf p" and a: "hid_parser_main p it = Some p'"
  shows "parser_wf p'"
proof -
  let ?c = "hid_concatenate_last_usage_page p"
  have wc: "parser_wf ?c"
    using wf by (simp add: parser_wf_def hid_concatenate_last_usage_page_def)
  obtain q where q: "(if item_tag it = 10 then
          Some (?c\<lparr>collection_stack := item_udata it mod 256 # collection_stack ?c\<rparr>)
        else if item_tag it = 12 then
          (case collection_stack ?c of
             [] \<Rightarrow> None
           | _ # cs \<Rightarrow> Some (?c\<lparr>collection_stack := cs\<rparr>))
        else if item_tag it = 8 then hid_add_field ?c 0
        else if item_tag it = 9 then hid_add_field ?c 1
        else if item_tag it = 11 then hid_add_field ?c 2
        else Some ?c) = Some q"
    and p': "p' = q\<lparr>usages := [], usage_minimum := 0, delimiter_depth := 0, delimiter_branch := 0\<rparr>"
    using a unfolding hid_parser_main_def Let_def by blast
  have "q = ?c\<lparr>collection_stack := item_udata it mod 256 # collection_stack ?c\<rparr> \<or>
      (\<exists>cs. q = ?c\<lparr>collection_stack := cs\<rparr>) \<or> (\<exists>t. hid_add_field ?c t = Some q) \<or> q = ?c"
    using q by (simp only: split: if_split_asm list.split_asm) blast+
  then have "parser_wf q" using wc hid_add_field_wf [OF wc] by (auto simp: parser_wf_def)
  then show ?thesis using p' by (simp add: parser_wf_def)
qed

lemma hid_dispatch_wf:
  assumes wf: "parser_wf p" and a: "hid_dispatch p it = Some p'"
  shows "parser_wf p'"
proof -
  have "hid_parser_main p it = Some p' \<or> hid_parser_global p it = Some p' \<or>
      hid_parser_local p it = Some p' \<or> p' = p"
    using a unfolding hid_dispatch_def by (simp only: split: if_split_asm) simp_all
  then show ?thesis using wf hid_parser_main_wf hid_parser_global_wf hid_parser_local_wf by blast
qed

lemma hid_parse_items_wf: "parser_wf p \<Longrightarrow> parser_wf (snd (hid_parse_items p buf))"
proof (induction p buf rule: hid_parse_items.induct)
  case (1 p buf)
  then show ?case
    using hid_dispatch_wf
    by (subst hid_parse_items.simps) (auto split: option.split prod.split)
qed

end
