(* ===== verification/Hid_Core.thy ===== *)
theory Hid_Core
  imports Hid_Prelude Hid_Parser
begin

text \<open>
  The host side of the driver interface (\<open>drivers/hid/hid-core.c\<close>,
  \<open>include/linux/hid.h\<close>), which the drivers under \<open>src/\<close> plug into:
  \<^item> \<open>struct hid_driver\<close> with its match table and the two callbacks the drivers
    fill, \<open>report_fixup\<close> and \<open>probe\<close>;
  \<^item> the operations a probe callback calls back into (\<open>hid_parse\<close>,
    \<open>hid_hw_start\<close>), passed as a record \<open>hid_ops\<close>: the drivers' lemmas hold for
    any host operations, and the bus below supplies the real ones;
  \<^item> \<open>hid_match_one_id\<close> and \<open>hid_match_id\<close>, the table lookup that binds a
    driver to a device;
  \<^item> \<open>hid_open_report\<close> (what \<open>hid_parse\<close> runs): the driver's
    \<open>report_fixup\<close> hook is applied to the raw descriptor, the result copied to
    \<open>rdesc\<close>/\<open>rsize\<close> and parsed;
  \<^item> \<open>__hid_device_probe\<close>: match, then the driver's \<open>probe\<close> (or the
    default parse-and-start), and \<open>hid_close_report\<close> on failure.
  Memory allocation failures (\<open>-ENOMEM\<close>) are not modelled.
\<close>

unbundle bit_operations_syntax

section \<open>The driver structure\<close>

text \<open>\<open>report_fixup(hdev, rdesc, &rsize)\<close> returns the descriptor to use and writes its size.\<close>

type_synonym fixup_fn = "hid_device \<Rightarrow> rdesc_bytes \<Rightarrow> u32 \<Rightarrow> rdesc_bytes \<times> u32 \<times> hid_device"

text \<open>The host calls a probe callback may make.\<close>

record hid_ops =
  op_parse :: "hid_device \<Rightarrow> int \<times> hid_device"
  op_hw_start :: "hid_device \<Rightarrow> u32 \<Rightarrow> int \<times> hid_device"

type_synonym probe_fn = "hid_ops \<Rightarrow> hid_device \<Rightarrow> hid_device_id \<Rightarrow> int \<times> hid_device"

text \<open>
  The match tables of the drivers registered on the bus, by driver name: what a
  driver's \<open>match\<close> callback reads when it walks the bus with \<open>bus_for_each_drv\<close>.
\<close>

type_synonym driver_tables = "(string \<times> hid_device_id list) list"

text \<open>
  \<open>struct hid_driver\<close>: name, match table, and the callbacks the modelled
  drivers set or leave \<open>NULL\<close> (\<open>None\<close>): \<open>report_fixup\<close>, \<open>probe\<close> and
  \<open>match\<close>. The quirk drivers set no \<open>match\<close>; hid-generic's decides from the
  other drivers' tables.
\<close>

record hid_driver =
  name :: string
  id_table :: "hid_device_id list"
  report_fixup :: "fixup_fn option"
  probe :: "probe_fn option"
  match :: "(driver_tables \<Rightarrow> hid_device \<Rightarrow> bool) option"

section \<open>Matching a device against a table\<close>

definition hid_match_one_id :: "hid_device \<Rightarrow> hid_device_id \<Rightarrow> bool" where
  "hid_match_one_id hdev hid_id =
     ((id_bus hid_id = HID_BUS_ANY \<or> id_bus hid_id = bus hdev) \<and>
      (id_group hid_id = HID_GROUP_ANY \<or> id_group hid_id = group hdev) \<and>
      (id_vendor hid_id = HID_ANY_ID \<or> id_vendor hid_id = vendor hdev) \<and>
      (id_product hid_id = HID_ANY_ID \<or> id_product hid_id = product hdev))"

text \<open>
  \<open>for (; id->bus; id++) if (hid_match_one_id(hdev, id)) return id;\<close>:
  the scan stops at the sentinel (bus 0). A table without a sentinel would be read
  past its end in C; the model stops at the end of the list.
\<close>

fun hid_match_id :: "hid_device \<Rightarrow> hid_device_id list \<Rightarrow> hid_device_id option" where
  "hid_match_id hdev [] = None"
| "hid_match_id hdev (hid_id # ids) =
     (if id_bus hid_id = 0 then None
      else if hid_match_one_id hdev hid_id then Some hid_id
      else hid_match_id hdev ids)"

text \<open>
  A well-formed table, as the scan above needs it: terminated by the sentinel,
  which is its only entry with bus 0.
\<close>

definition id_table_wf :: "hid_device_id list \<Rightarrow> bool" where
  "id_table_wf t = (t \<noteq> [] \<and> last t = hid_id_sentinel \<and> list_all (\<lambda>e. id_bus e \<noteq> 0) (butlast t))"

section \<open>Opening the report descriptor\<close>

definition hid_close_report :: "hid_device \<Rightarrow> hid_device" where
  "hid_close_report hdev =
     hdev\<lparr>rdesc := [], rsize := 0, status := status hdev AND NOT HID_STAT_PARSED\<rparr>"

text \<open>
  \<open>hid_open_report\<close>, parameterised by the generic parser \<open>engine\<close>
  (\<open>Hid_Items.hid_report_parse\<close> for hid-core's): refuse a second parse, let the
  driver's hook replace the raw descriptor, keep the copy of \<open>size\<close> bytes in
  \<open>rdesc\<close>, parse it, and on failure close the report again.
\<close>

definition hid_open_report ::
  "(rdesc_bytes \<Rightarrow> int) \<Rightarrow> fixup_fn option \<Rightarrow> hid_device \<Rightarrow> int \<times> hid_device" where
  "hid_open_report engine fx hdev =
     (if status hdev AND HID_STAT_PARSED \<noteq> 0 then (- EBUSY, hdev)
      else
        (let (start, size, hdev1) =
               (case fx of
                  None \<Rightarrow> (dev_rdesc hdev, dev_rsize hdev, hdev)
                | Some f \<Rightarrow> f hdev (dev_rdesc hdev) (dev_rsize hdev));
             buf = take (unat size) start;
             hdev2 = hdev1\<lparr>rdesc := buf, rsize := size\<rparr>;
             ret = engine buf
         in if ret = 0 then (0, hdev2\<lparr>status := status hdev2 OR HID_STAT_PARSED\<rparr>)
            else (ret, hid_close_report hdev2)))"

text \<open>The host operations handed to a driver bound with hook \<open>fx\<close>.\<close>

definition hid_host_ops ::
  "(rdesc_bytes \<Rightarrow> int) \<Rightarrow> (hid_device \<Rightarrow> u32 \<Rightarrow> int \<times> hid_device) \<Rightarrow> fixup_fn option \<Rightarrow> hid_ops"
  where
  "hid_host_ops engine hw_start fx =
     \<lparr>op_parse = hid_open_report engine fx, op_hw_start = hw_start\<rparr>"

section \<open>Probing a device\<close>

text \<open>
  \<open>__hid_device_probe\<close>: a device the table does not match, or that the driver's
  \<open>match\<close> callback declines (given the tables of the drivers on the bus), is
  refused with \<open>-ENODEV\<close> before any callback runs; a driver without \<open>probe\<close>
  gets the default parse and start; a failed probe closes the report.
\<close>

definition hid_device_probe ::
  "(rdesc_bytes \<Rightarrow> int) \<Rightarrow> (hid_device \<Rightarrow> u32 \<Rightarrow> int \<times> hid_device) \<Rightarrow> driver_tables \<Rightarrow>
   hid_driver \<Rightarrow> hid_device \<Rightarrow> int \<times> hid_device" where
  "hid_device_probe engine hw_start tables drv hdev =
     (case hid_match_id hdev (id_table drv) of
        None \<Rightarrow> (- ENODEV, hdev)
      | Some hid_id \<Rightarrow>
          (if (case match drv of None \<Rightarrow> False | Some m \<Rightarrow> \<not> m tables hdev)
           then (- ENODEV, hdev)
           else
             (let ops = hid_host_ops engine hw_start (report_fixup drv);
                  (ret, hdev') =
                    (case probe drv of
                       Some p \<Rightarrow> p ops hdev hid_id
                     | None \<Rightarrow>
                         (let (r, h) = op_parse ops hdev
                          in if r = 0 then hw_start h HID_CONNECT_DEFAULT else (r, h)))
              in if ret \<noteq> 0 then (ret, hid_close_report hdev') else (ret, hdev'))))"

section \<open>Lemmas on matching and opening\<close>

lemma hid_match_id_Some_mem:
  "hid_match_id hdev ids = Some hid_id \<Longrightarrow> hid_id \<in> set ids \<and> hid_match_one_id hdev hid_id"
  by (induction ids) (auto split: if_splits)

lemma hid_match_id_Some_bus:
  "hid_match_id hdev ids = Some hid_id \<Longrightarrow> id_bus hid_id \<noteq> 0"
  by (induction ids) (auto split: if_splits)

text \<open>Entries after the sentinel are never consulted.\<close>

lemma hid_match_id_append_sentinel:
  "id_bus s = 0 \<Longrightarrow> hid_match_id hdev (ids @ s # rest) = hid_match_id hdev (ids @ [s])"
  by (induction ids) auto

text \<open>A one-entry USB table selects exactly the devices of its identity.\<close>

lemma hid_match_usb_table:
  "v \<noteq> HID_ANY_ID \<Longrightarrow> p \<noteq> HID_ANY_ID \<Longrightarrow>
   hid_match_id hdev [HID_USB_DEVICE v p, hid_id_sentinel] =
     (if bus hdev = BUS_USB \<and> vendor hdev = v \<and> product hdev = p
      then Some (HID_USB_DEVICE v p) else None)"
  by (auto simp: HID_USB_DEVICE_def hid_id_sentinel_def hid_match_one_id_def hid_const_defs)

lemma hid_open_report_parsed:
  "status hdev AND HID_STAT_PARSED \<noteq> 0 \<Longrightarrow> hid_open_report engine fx hdev = (- EBUSY, hdev)"
  by (simp add: hid_open_report_def)

lemma hid_close_report_not_parsed:
  "status (hid_close_report h) AND HID_STAT_PARSED = 0"
  by (simp add: hid_close_report_def and.assoc)

lemma hid_match_id_wf:
  "id_table_wf t \<Longrightarrow> hid_match_id hdev t = find (hid_match_one_id hdev) (butlast t)"
proof (induction t)
  case (Cons e t)
  show ?case
  proof (cases t)
    case Nil
    then show ?thesis using Cons.prems by (simp add: id_table_wf_def hid_id_sentinel_def)
  next
    case (Cons e' t')
    then have "id_table_wf t" using Cons.prems by (simp add: id_table_wf_def)
    then show ?thesis using Cons.IH Cons.prems \<open>t = e' # t'\<close> by (simp add: id_table_wf_def)
  qed
qed (simp add: id_table_wf_def)

text \<open>\<open>hid_open_report\<close> returns 0, \<open>-EBUSY\<close> or what the parser returns; hid-core's parser returns 0 or \<open>-EINVAL\<close>.\<close>

lemma hid_open_report_ret: "fst (hid_open_report engine fx h) \<in> {0, - EBUSY} \<union> range engine"
  by (auto simp: hid_open_report_def Let_def split: prod.split option.split)

lemma hid_core_parse_ret: "fst (hid_open_report hid_report_parse fx h) \<in> {0, - EINVAL, - EBUSY}"
proof -
  have "range hid_report_parse \<subseteq> {0, - EINVAL}" using item_loop_terminates by blast
  then show ?thesis using hid_open_report_ret [of hid_report_parse fx h] by blast
qed

end
