(* ===== verification/Hid_Bus.thy ===== *)
theory Hid_Bus
  imports Hid_Core
begin

text \<open>
  The HID bus the drivers are registered on (\<open>drivers/hid/hid-core.c\<close>,
  \<open>drivers/hid/hid-generic.c\<close>, and the parts of \<open>drivers/base/dd.c\<close> and
  \<open>drivers/base/driver.c\<close> the HID bus goes through). The bus holds its
  registered drivers in registration order and its devices in the order they
  were added, each device with the name of the driver bound to it, if any.
  \<^item> \<open>hid_hw_start\<close> over a transport whose start and \<open>hid_connect\<close> outcomes
    are given by an environment \<open>hid_env\<close>; stopping clears \<open>hw_started\<close>;
  \<^item> \<open>hid_device_remove\<close> (default remove: \<open>hid_hw_stop\<close>, then close the report);
  \<^item> \<open>hid_bus_probe\<close> (the bus probe \<open>hid_device_probe\<close> of hid-core, which runs
    \<open>__hid_device_probe\<close> with hid-core's parser and the transport's start);
  \<^item> \<open>device_attach_drivers\<close> (\<open>__device_attach\<close>: the drivers in order, the first
    whose probe returns 0 is bound, a failing probe lets the next one try),
    \<open>driver_attach\<close> (\<open>__driver_attach\<close> for every unbound matching device);
  \<^item> \<open>hid_bus_reprobe\<close> (\<open>__hid_bus_driver_added\<close> and
    \<open>__hid_bus_reprobe_drivers\<close>: a device bound to a driver with a \<open>match\<close>
    callback that now declines it is released and attached again);
  \<^item> \<open>bus_rescan_devices\<close> (attach every device without a driver);
  \<^item> \<open>hid_register_driver\<close>, \<open>hid_unregister_driver\<close> (which rescans the bus once
    per remaining driver), \<open>hid_add_device\<close>,
    \<open>hid_destroy_device\<close>, and the sysfs \<open>bind\<close> and \<open>unbind\<close> files;
  \<^item> hid-generic, the driver with a match-all table whose \<open>match\<close> callback
    declines every device another registered driver's table matches.
  Not modelled: dynamic ids (\<open>new_id\<close>), the static quirk tables of
  \<open>hid-quirks.c\<close> (the modelled devices are in none of them, so their quirks are 0),
  the \<open>hid_ignore_special_drivers\<close> parameter (false), asynchronous and deferred
  probing, and a driver's own \<open>remove\<close> callback (none of the modelled drivers has
  one).
\<close>

unbundle bit_operations_syntax

section \<open>Transport and hardware start\<close>

text \<open>
  What the environment decides: the transport's \<open>parse\<close> (reading the raw
  descriptor) and \<open>start\<close> callbacks of \<open>struct hid_ll_driver\<close>, and whether
  \<open>hid_connect\<close> finds a consumer for the device. The raw descriptor itself is
  the device's \<open>dev_rdesc\<close>.
\<close>

record hid_env =
  ll_parse :: "hid_device \<Rightarrow> int"
  ll_start :: "hid_device \<Rightarrow> int"
  ll_connect :: "hid_device \<Rightarrow> u32 \<Rightarrow> int"

text \<open>
  \<open>hid_hw_start\<close>: start the transport, then connect; a failed connect stops
  the transport again.
\<close>

definition hid_hw_start :: "hid_env \<Rightarrow> hid_device \<Rightarrow> u32 \<Rightarrow> int \<times> hid_device" where
  "hid_hw_start env hdev connect_mask =
     (let error = ll_start env hdev in
      if error \<noteq> 0 then (error, hdev)
      else
        (let hdev1 = hdev\<lparr>hw_started := True\<rparr> in
         if connect_mask \<noteq> 0 then
           (let error = ll_connect env hdev1 connect_mask in
            if error \<noteq> 0 then (error, hdev1\<lparr>hw_started := False\<rparr>) else (0, hdev1))
         else (0, hdev1)))"

text \<open>
  \<open>hid_device_remove\<close> for a driver without \<open>remove\<close> (none of the modelled
  drivers has one): \<open>hid_hw_stop\<close> (disconnect, stop the transport), then
  \<open>hid_close_report\<close>.
\<close>

definition hid_device_remove :: "hid_device \<Rightarrow> hid_device" where
  "hid_device_remove hdev = hid_close_report (hdev\<lparr>hw_started := False\<rparr>)"

section \<open>The bus\<close>

text \<open>A device on the bus with the name of its bound driver (\<open>hdev->driver\<close>).\<close>

type_synonym bus_slot = "hid_device \<times> string option"

record hid_bus_state =
  bus_drivers :: "hid_driver list"
  bus_devices :: "bus_slot list"

definition driver_tables_of :: "hid_driver list \<Rightarrow> driver_tables" where
  "driver_tables_of drvs = map (\<lambda>d. (name d, id_table d)) drvs"

text \<open>
  \<open>HID_STAT_ADDED\<close> is \<open>BIT(0)\<close>. The reprobe flag is tested and set with
  \<open>test_and_set_bit(ffs(HID_STAT_REPROBED), ...)\<close>: \<open>ffs(BIT(3))\<close> is 4, so the
  bit used is bit 4 (value 16), not \<open>HID_STAT_REPROBED\<close> itself.
\<close>

definition HID_STAT_ADDED :: u32 where "HID_STAT_ADDED = 1"
definition HID_STAT_REPROBED_BIT :: u32 where "HID_STAT_REPROBED_BIT = 16"

text \<open>
  The bus probe \<open>hid_device_probe\<close>: clear the reprobe bit, then
  \<open>__hid_device_probe\<close> with hid-core's parser, the transport's start and the
  tables of the drivers on the bus.
\<close>

definition hid_bus_probe ::
  "hid_env \<Rightarrow> hid_driver list \<Rightarrow> hid_driver \<Rightarrow> hid_device \<Rightarrow> int \<times> hid_device" where
  "hid_bus_probe env drvs drv hdev =
     hid_device_probe hid_report_parse (hid_hw_start env) (driver_tables_of drvs) drv
       (hdev\<lparr>status := status hdev AND NOT HID_STAT_REPROBED_BIT\<rparr>)"

text \<open>
  \<open>__device_attach\<close>: \<open>bus_for_each_drv\<close> over the drivers in order; a driver
  whose table (\<open>hid_bus_match\<close>) does not match is skipped, the first whose
  probe returns 0 is bound, and a failing probe lets the next driver try with the
  device as the failed probe left it.
\<close>

fun device_attach_drivers ::
  "hid_env \<Rightarrow> hid_driver list \<Rightarrow> hid_driver list \<Rightarrow> hid_device \<Rightarrow> bus_slot" where
  "device_attach_drivers env drvs [] hdev = (hdev, None)"
| "device_attach_drivers env drvs (d # ds) hdev =
     (if hid_match_id hdev (id_table d) = None then device_attach_drivers env drvs ds hdev
      else
        (let (ret, hdev') = hid_bus_probe env drvs d hdev
         in if ret = 0 then (hdev', Some (name d)) else device_attach_drivers env drvs ds hdev'))"

text \<open>
  \<open>driver_attach\<close>: \<open>__driver_attach\<close> on every device of the bus: a device the
  new driver's table matches and that has no driver is probed; errors are ignored.
\<close>

definition driver_attach ::
  "hid_env \<Rightarrow> hid_driver list \<Rightarrow> hid_driver \<Rightarrow> bus_slot list \<Rightarrow> bus_slot list" where
  "driver_attach env drvs drv devs =
     map (\<lambda>(hdev, b).
            if b = None \<and> hid_match_id hdev (id_table drv) \<noteq> None then
              (let (ret, hdev') = hid_bus_probe env drvs drv hdev
               in (hdev', if ret = 0 then Some (name drv) else None))
            else (hdev, b)) devs"

text \<open>
  \<open>bus_for_each_drv(__hid_bus_driver_added)\<close>: for every driver with a \<open>match\<close> callback,
  \<open>__hid_bus_reprobe_drivers\<close> on every device: a device bound to that driver
  which its \<open>match\<close> now declines, and whose reprobe bit was clear, gets the bit
  set and is reprobed (\<open>device_reprobe\<close>: release the driver, attach again).
\<close>

fun hid_bus_reprobe ::
  "hid_env \<Rightarrow> hid_driver list \<Rightarrow> hid_driver list \<Rightarrow> bus_slot list \<Rightarrow> bus_slot list" where
  "hid_bus_reprobe env drvs [] devs = devs"
| "hid_bus_reprobe env drvs (gd # gds) devs =
     hid_bus_reprobe env drvs gds
       (case match gd of
          None \<Rightarrow> devs
        | Some m \<Rightarrow>
            map (\<lambda>(hdev, b).
                   if b = Some (name gd) \<and> \<not> m (driver_tables_of drvs) hdev \<and>
                      status hdev AND HID_STAT_REPROBED_BIT = 0
                   then device_attach_drivers env drvs drvs
                          (hid_device_remove
                             (hdev\<lparr>status := status hdev OR HID_STAT_REPROBED_BIT\<rparr>))
                   else (hdev, b)) devs)"

text \<open>
  \<open>__hid_register_driver\<close>: \<open>driver_register\<close> refuses a name already on the bus
  with \<open>-EBUSY\<close>; otherwise the driver is appended (\<open>bus_add_driver\<close>), attached
  to the devices (\<open>driver_attach\<close>), and the devices of drivers with a
  \<open>match\<close> callback are reprobed.
\<close>

definition hid_register_driver ::
  "hid_env \<Rightarrow> hid_bus_state \<Rightarrow> hid_driver \<Rightarrow> int \<times> hid_bus_state" where
  "hid_register_driver env st drv =
     (if name drv \<in> set (map name (bus_drivers st)) then (- EBUSY, st)
      else
        (let drvs = bus_drivers st @ [drv];
             devs = driver_attach env drvs drv (bus_devices st)
         in (0, \<lparr>bus_drivers = drvs, bus_devices = hid_bus_reprobe env drvs drvs devs\<rparr>)))"

text \<open>
  \<open>bus_rescan_devices\<close>: \<open>bus_rescan_devices_helper\<close> on every device of the
  bus: a device without a driver is attached (\<open>device_attach\<close>), a bound one is
  left alone; attach errors are ignored.
\<close>

definition bus_rescan_devices :: "hid_env \<Rightarrow> hid_driver list \<Rightarrow> bus_slot list \<Rightarrow> bus_slot list" where
  "bus_rescan_devices env drvs devs =
     map (\<lambda>(hdev, b). if b = None then device_attach_drivers env drvs drvs hdev else (hdev, b)) devs"

text \<open>
  \<open>hid_unregister_driver\<close>: \<open>driver_unregister\<close> releases every device bound to
  the driver (\<open>hid_device_remove\<close>) and removes it from the bus; then
  \<open>bus_for_each_drv(&hid_bus_type, NULL, hdrv, __bus_removed_driver)\<close> runs
  \<open>__bus_removed_driver\<close>, that is \<open>bus_rescan_devices\<close>, once for each driver
  still registered, so that the released devices find another driver.
\<close>

definition hid_unregister_driver ::
  "hid_env \<Rightarrow> hid_bus_state \<Rightarrow> hid_driver \<Rightarrow> hid_bus_state" where
  "hid_unregister_driver env st drv =
     (let devs = map (\<lambda>(hdev, b). if b = Some (name drv) then (hid_device_remove hdev, None)
                                   else (hdev, b)) (bus_devices st);
          drvs = filter (\<lambda>d. name d \<noteq> name drv) (bus_drivers st)
      in \<lparr>bus_drivers = drvs, bus_devices = fold (\<lambda>d. bus_rescan_devices env drvs) drvs devs\<rparr>)"

text \<open>
  \<open>hid_add_device\<close>: a device already added is refused with \<open>-EBUSY\<close>; the
  transport reads the raw descriptor and a failure is returned; \<open>device_add\<close>
  then attaches the device to the first driver that takes it and the device joins
  the bus, bound or not, marked \<open>HID_STAT_ADDED\<close>.
\<close>

definition hid_add_device ::
  "hid_env \<Rightarrow> hid_bus_state \<Rightarrow> hid_device \<Rightarrow> int \<times> hid_bus_state" where
  "hid_add_device env st hdev =
     (if status hdev AND HID_STAT_ADDED \<noteq> 0 then (- EBUSY, st)
      else
        (let ret = ll_parse env hdev in
         if ret \<noteq> 0 then (ret, st)
         else
           (let (hdev', b) = device_attach_drivers env (bus_drivers st) (bus_drivers st) hdev
            in (0, st\<lparr>bus_devices := bus_devices st @
                        [(hdev'\<lparr>status := status hdev' OR HID_STAT_ADDED\<rparr>, b)]\<rparr>))))"

text \<open>
  \<open>hid_destroy_device\<close>, called by the transport when the device goes away:
  \<open>hid_remove_device\<close> runs \<open>device_del\<close> only for a device that was added,
  which releases its driver (\<open>hid_device_remove\<close>) if it has one, and clears
  \<open>HID_STAT_ADDED\<close>; then the raw descriptor is freed and the device leaves the
  bus. The removed device is returned so that its final state can be stated;
  an index past the end names no device and changes nothing.
\<close>

definition hid_destroy_device :: "hid_bus_state \<Rightarrow> nat \<Rightarrow> hid_bus_state \<times> hid_device option" where
  "hid_destroy_device st i =
     (if i < length (bus_devices st) then
        (let (hdev, b) = bus_devices st ! i;
             hdev1 = (if status hdev AND HID_STAT_ADDED \<noteq> 0 then
                        (let h = (if b = None then hdev else hid_device_remove hdev)
                         in h\<lparr>status := status h AND NOT HID_STAT_ADDED\<rparr>)
                      else hdev)
         in (st\<lparr>bus_devices := take i (bus_devices st) @ drop (Suc i) (bus_devices st)\<rparr>,
             Some (hdev1\<lparr>dev_rdesc := [], dev_rsize := 0\<rparr>)))
      else (st, None))"

text \<open>
  The \<open>bind\<close> and \<open>unbind\<close> files of a registered driver
  (\<open>/sys/bus/hid/drivers/<name>/\<close>, \<open>bind_store\<close> and \<open>unbind_store\<close> of
  \<open>drivers/base/bus.c\<close>), with the device named by its index on the bus; a
  successful write returns the byte count, modelled as 0.
  \<^item> \<open>bind\<close>: a device whose table entry the driver has (\<open>driver_match_device\<close>,
    that is \<open>hid_bus_match\<close>, which does not run the \<open>match\<close> callback) is
    attached with \<open>device_driver_attach\<close>: \<open>-EBUSY\<close> if it has a driver,
    otherwise the bus probe, whose error is returned; any other device is
    \<open>-ENODEV\<close>.
  \<^item> \<open>unbind\<close>: a device bound to the driver is released
    (\<open>device_driver_detach\<close>, which runs \<open>hid_device_remove\<close>); any other device
    is \<open>-ENODEV\<close>.
  Neither triggers a reprobe of other devices.
\<close>

definition hid_sysfs_bind :: "hid_env \<Rightarrow> hid_bus_state \<Rightarrow> hid_driver \<Rightarrow> nat \<Rightarrow> int \<times> hid_bus_state" where
  "hid_sysfs_bind env st drv i =
     (if i < length (bus_devices st) \<and> hid_match_id (fst (bus_devices st ! i)) (id_table drv) \<noteq> None then
        (let (hdev, b) = bus_devices st ! i in
         if b \<noteq> None then (- EBUSY, st)
         else
           (let (ret, hdev') = hid_bus_probe env (bus_drivers st) drv hdev
            in (ret, st\<lparr>bus_devices := (bus_devices st)[i := (hdev', if ret = 0 then Some (name drv) else None)]\<rparr>)))
      else (- ENODEV, st))"

definition hid_sysfs_unbind :: "hid_bus_state \<Rightarrow> hid_driver \<Rightarrow> nat \<Rightarrow> int \<times> hid_bus_state" where
  "hid_sysfs_unbind st drv i =
     (if i < length (bus_devices st) \<and> snd (bus_devices st ! i) = Some (name drv) then
        (0, st\<lparr>bus_devices := (bus_devices st)[i := (hid_device_remove (fst (bus_devices st ! i)), None)]\<rparr>)
      else (- ENODEV, st))"

section \<open>hid-generic\<close>

text \<open>
  \<open>hid_generic_match\<close>: with no quirk and \<open>hid_ignore_special_drivers\<close> unset,
  hid-generic declines a device as soon as another registered driver's table
  matches it (\<open>__check_hid_generic\<close>).
\<close>

definition hid_generic_match :: "driver_tables \<Rightarrow> hid_device \<Rightarrow> bool" where
  "hid_generic_match tables hdev =
     (\<not> list_ex (\<lambda>(n, t). n \<noteq> ''hid-generic'' \<and> hid_match_id hdev t \<noteq> None) tables)"

text \<open>
  \<open>hid_generic\<close>: the table \<open>HID_DEVICE(HID_BUS_ANY, HID_GROUP_ANY, HID_ANY_ID,
  HID_ANY_ID)\<close>, no fixup, and \<open>hid_generic_probe\<close>: parse, and start with
  \<open>HID_CONNECT_DEFAULT\<close> (the \<open>HID_QUIRK_INPUT_PER_APP\<close> quirk it sets is not
  modelled).
\<close>

definition hid_generic :: hid_driver where
  "hid_generic =
     \<lparr>name = ''hid-generic'',
      id_table = [\<lparr>id_bus = HID_BUS_ANY, id_group = HID_GROUP_ANY,
                   id_vendor = HID_ANY_ID, id_product = HID_ANY_ID\<rparr>, hid_id_sentinel],
      report_fixup = None,
      probe = Some (\<lambda>ops hdev hid_id.
                 (let (ret, hdev1) = op_parse ops hdev
                  in if ret \<noteq> 0 then (ret, hdev1) else op_hw_start ops hdev1 HID_CONNECT_DEFAULT)),
      match = Some hid_generic_match\<rparr>"

section \<open>What the bus keeps true of its devices\<close>

text \<open>
  The identity and raw descriptor of a device, which nothing on the bus changes; a
  device is \<open>closed\<close> when its report is not parsed and its hardware not started,
  and \<open>running\<close> when both hold and its reprobe bit is clear.
\<close>

definition dev_ident :: "hid_device \<Rightarrow> u16 \<times> u16 \<times> u32 \<times> u32 \<times> rdesc_bytes \<times> u32" where
  "dev_ident h = (bus h, group h, vendor h, product h, dev_rdesc h, dev_rsize h)"

definition dev_closed :: "hid_device \<Rightarrow> bool" where
  "dev_closed h = (status h AND HID_STAT_PARSED = 0 \<and> \<not> hw_started h)"

definition dev_running :: "hid_device \<Rightarrow> bool" where
  "dev_running h =
     (status h AND HID_STAT_PARSED \<noteq> 0 \<and> hw_started h \<and> status h AND HID_STAT_REPROBED_BIT = 0)"

text \<open>
  The contract of a driver's bus probe on a bus with drivers \<open>drvs\<close>: from a
  closed device it keeps the identity, and either fails leaving the device closed,
  or succeeds leaving it running and satisfying \<open>post\<close>.
\<close>

definition probe_contract ::
  "(hid_device \<Rightarrow> bool) \<Rightarrow> hid_env \<Rightarrow> hid_driver list \<Rightarrow> hid_driver \<Rightarrow> bool" where
  "probe_contract post env drvs drv =
     (\<forall>hdev r h. dev_closed hdev \<longrightarrow> hid_bus_probe env drvs drv hdev = (r, h) \<longrightarrow>
        dev_ident h = dev_ident hdev \<and> (if r = 0 then dev_running h \<and> post h else dev_closed h))"

text \<open>
  A device slot is consistent with the drivers \<open>drvs\<close> and the promise \<open>P\<close> of
  each driver: unbound and closed, or running, bound to a registered driver whose
  table matches it, and satisfying that driver's promise.
\<close>

definition slot_ok ::
  "(hid_driver list \<Rightarrow> string \<Rightarrow> hid_device \<Rightarrow> bool) \<Rightarrow> hid_driver list \<Rightarrow> bus_slot \<Rightarrow> bool" where
  "slot_ok P drvs s =
     (case s of
        (h, None) \<Rightarrow> dev_closed h
      | (h, Some n) \<Rightarrow>
          dev_running h \<and> list_ex (\<lambda>d. name d = n \<and> hid_match_id h (id_table d) \<noteq> None) drvs \<and>
          P drvs n h)"

section \<open>Facts about the bus\<close>

subsection \<open>Status bits and device frames\<close>

lemma status_bits [simp]:
  "(s AND NOT HID_STAT_REPROBED_BIT) AND HID_STAT_PARSED = s AND HID_STAT_PARSED"
  "(s OR HID_STAT_PARSED) AND HID_STAT_REPROBED_BIT = s AND HID_STAT_REPROBED_BIT"
  "(s AND NOT HID_STAT_PARSED) AND HID_STAT_REPROBED_BIT = s AND HID_STAT_REPROBED_BIT"
  "(s AND NOT HID_STAT_REPROBED_BIT) AND HID_STAT_REPROBED_BIT = 0"
  "(s OR HID_STAT_PARSED) AND HID_STAT_PARSED = HID_STAT_PARSED"
  "(s OR HID_STAT_ADDED) AND HID_STAT_PARSED = s AND HID_STAT_PARSED"
  "(s OR HID_STAT_ADDED) AND HID_STAT_REPROBED_BIT = s AND HID_STAT_REPROBED_BIT"
  "(s OR HID_STAT_REPROBED_BIT) AND HID_STAT_PARSED = s AND HID_STAT_PARSED"
  "(s AND NOT HID_STAT_REPROBED_BIT) AND HID_STAT_ADDED = s AND HID_STAT_ADDED"
  "(s OR HID_STAT_REPROBED_BIT) AND HID_STAT_ADDED = s AND HID_STAT_ADDED"
  "(s OR HID_STAT_PARSED) AND HID_STAT_ADDED = s AND HID_STAT_ADDED"
  "(s AND NOT HID_STAT_PARSED) AND HID_STAT_ADDED = s AND HID_STAT_ADDED"
  "(s OR HID_STAT_ADDED) AND HID_STAT_ADDED = HID_STAT_ADDED"
  "(s AND NOT HID_STAT_ADDED) AND HID_STAT_ADDED = 0"
  "(s AND NOT HID_STAT_ADDED) AND HID_STAT_PARSED = s AND HID_STAT_PARSED"
  by (rule bit_word_eqI;
      auto simp: bit_simps HID_STAT_PARSED_def HID_STAT_REPROBED_BIT_def HID_STAT_ADDED_def)+

lemma HID_STAT_PARSED_nonzero [simp]: "HID_STAT_PARSED \<noteq> 0"
  by (simp add: HID_STAT_PARSED_def)

lemma dev_ident_upd [simp]:
  "dev_ident (h\<lparr>status := s\<rparr>) = dev_ident h" "dev_ident (h\<lparr>hw_started := b\<rparr>) = dev_ident h"
  "dev_ident (h\<lparr>rdesc := x, rsize := n\<rparr>) = dev_ident h"
  "dev_ident (h\<lparr>rdesc := x, rsize := n, status := s\<rparr>) = dev_ident h"
  "dev_ident (hid_info h m) = dev_ident h" "dev_ident (hid_err h m) = dev_ident h"
  by (simp_all add: dev_ident_def)

lemma hid_close_report_frame [simp]:
  "dev_ident (hid_close_report h) = dev_ident h" "hw_started (hid_close_report h) = hw_started h"
  "rdesc (hid_close_report h) = []"
  "status (hid_close_report h) AND HID_STAT_REPROBED_BIT = status h AND HID_STAT_REPROBED_BIT"
  by (simp_all add: hid_close_report_def dev_ident_def)

lemma hid_match_id_ident:
  "dev_ident h = dev_ident h' \<Longrightarrow> hid_match_id h t = hid_match_id h' t"
  by (induction t) (simp_all add: dev_ident_def hid_match_one_id_def)

lemma hid_match_id_upd [simp]:
  "hid_match_id (h\<lparr>status := s\<rparr>) t = hid_match_id h t"
  "hid_match_id (h\<lparr>hw_started := b\<rparr>) t = hid_match_id h t"
  "hid_match_id (h\<lparr>rdesc := x, rsize := n\<rparr>) t = hid_match_id h t"
  "hid_match_id (h\<lparr>rdesc := x, rsize := n, status := s\<rparr>) t = hid_match_id h t"
  "hid_match_id (hid_info h m) t = hid_match_id h t" "hid_match_id (hid_err h m) t = hid_match_id h t"
  "hid_match_id (hid_close_report h) t = hid_match_id h t"
  by (rule hid_match_id_ident; simp)+

lemma hid_hw_start_frame:
  "hid_hw_start env h m = (r, h') \<Longrightarrow>
   h' = h\<lparr>hw_started := hw_started h'\<rparr> \<and> (r = 0 \<longrightarrow> hw_started h') \<and>
   (r \<noteq> 0 \<longrightarrow> hw_started h' \<longrightarrow> hw_started h)"
  by (auto simp: hid_hw_start_def Let_def split: if_splits)

lemma hid_close_report_added [simp]:
  "status (hid_close_report h) AND HID_STAT_ADDED = status h AND HID_STAT_ADDED"
  by (simp add: hid_close_report_def)

lemma hid_device_remove_closed:
  "dev_closed (hid_device_remove h) \<and> dev_ident (hid_device_remove h) = dev_ident h \<and>
   status (hid_device_remove h) AND HID_STAT_REPROBED_BIT = status h AND HID_STAT_REPROBED_BIT"
  by (simp add: hid_device_remove_def dev_closed_def dev_ident_def hid_close_report_not_parsed)
    (simp add: hid_close_report_def)

subsection \<open>What each operation changes\<close>

lemma hid_add_device_drivers [simp]: "bus_drivers (snd (hid_add_device env st hdev)) = bus_drivers st"
  by (simp add: hid_add_device_def Let_def split: prod.split)

lemma hid_register_driver_drivers [simp]:
  "bus_drivers (snd (hid_register_driver env st drv)) =
     (if name drv \<in> set (map name (bus_drivers st)) then bus_drivers st else bus_drivers st @ [drv])"
  by (simp add: hid_register_driver_def Let_def)

lemma hid_bus_reprobe_length [simp]: "length (hid_bus_reprobe env drvs gds devs) = length devs"
  by (induction gds arbitrary: devs) (simp_all split: option.split)

text \<open>Reprobing leaves every unbound device where and as it is.\<close>

lemma hid_bus_reprobe_unbound:
  "i < length devs \<Longrightarrow> snd (devs ! i) = None \<Longrightarrow> hid_bus_reprobe env drvs gds devs ! i = devs ! i"
proof (induction gds arbitrary: devs)
  case (Cons gd gds)
  obtain h where hi: "devs ! i = (h, None)" using Cons.prems(2) by (metis prod.collapse)
  then show ?case using Cons.prems(1) by (cases "match gd") (simp_all add: Cons.IH)
qed simp

lemma bus_rescan_devices_length [simp]: "length (bus_rescan_devices env drvs devs) = length devs"
  by (simp add: bus_rescan_devices_def)

lemma fold_rescan_length [simp]: "length (fold (\<lambda>d. bus_rescan_devices env drvs) ds devs) = length devs"
  by (induction ds arbitrary: devs) simp_all

lemma generic_table_matches: "hid_match_id hdev (id_table hid_generic) \<noteq> None"
  by (simp add: hid_generic_def hid_match_one_id_def HID_BUS_ANY_def HID_GROUP_ANY_def HID_ANY_ID_def)

lemma hid_sysfs_bind_unchanged:
  "\<not> (i < length (bus_devices st) \<and> hid_match_id (fst (bus_devices st ! i)) (id_table drv) \<noteq> None \<and>
      snd (bus_devices st ! i) = None) \<Longrightarrow> snd (hid_sysfs_bind env st drv i) = st"
  by (cases "bus_devices st ! i") (auto simp: hid_sysfs_bind_def)

subsection \<open>Attaching and reprobing keep every device consistent\<close>

text \<open>
  Attaching a closed device over drivers that keep their contracts gives an
  unbound closed device, or a running one bound to a driver whose table matches it
  and whose promise it satisfies.
\<close>

lemma device_attach_drivers_ok:
  assumes "\<forall>d \<in> set ds. probe_contract (P (name d)) env drvs d" "dev_closed hdev"
    "device_attach_drivers env drvs ds hdev = (h, b)"
  shows "dev_ident h = dev_ident hdev \<and>
    (case b of
       None \<Rightarrow> dev_closed h
     | Some n \<Rightarrow> dev_running h \<and>
         (\<exists>d \<in> set ds. name d = n \<and> hid_match_id h (id_table d) \<noteq> None \<and> P n h))"
  using assms
proof (induction ds arbitrary: hdev)
  case Nil
  then show ?case by simp
next
  case (Cons d ds)
  show ?case
  proof (cases "hid_match_id hdev (id_table d) = None")
    case True
    then have "device_attach_drivers env drvs ds hdev = (h, b)" using Cons.prems(3) by simp
    then show ?thesis using Cons.IH Cons.prems(1,2) by (cases b) auto
  next
    case False
    obtain r h' where pr: "hid_bus_probe env drvs d hdev = (r, h')" by fastforce
    have c: "dev_ident h' = dev_ident hdev \<and>
        (if r = 0 then dev_running h' \<and> P (name d) h' else dev_closed h')"
      using Cons.prems(1,2) pr unfolding probe_contract_def by auto
    show ?thesis
    proof (cases "r = 0")
      case True
      have m: "hid_match_id h' (id_table d) \<noteq> None"
        using False c hid_match_id_ident [of h' hdev] by simp
      have "device_attach_drivers env drvs (d # ds) hdev = (h', Some (name d))"
        using pr True by (simp add: False)
      then show ?thesis using Cons.prems(3) c m True by auto
    next
      case r: False
      then have "device_attach_drivers env drvs ds h' = (h, b)"
        using pr Cons.prems(3) r by (simp add: False)
      then show ?thesis using Cons.IH [of h'] Cons.prems(1) c r by (cases b) auto
    qed
  qed
qed

text \<open>
  Reprobing keeps a slot property \<open>R\<close> that every attach of a closed device
  establishes: a slot either has it already, or is bound to a driver with a
  \<open>match\<close> callback that declines it and is reattached.
\<close>

lemma hid_bus_reprobe_ok:
  assumes att: "\<And>hdev h b. dev_closed hdev \<Longrightarrow> device_attach_drivers env drvs drvs hdev = (h, b) \<Longrightarrow> R (h, b)"
    and devs: "\<forall>s \<in> set devs. R s \<or> (\<exists>gd \<in> set gds. \<exists>m. match gd = Some m \<and> snd s = Some (name gd) \<and>
                 \<not> m (driver_tables_of drvs) (fst s) \<and> status (fst s) AND HID_STAT_REPROBED_BIT = 0)"
  shows "\<forall>s \<in> set (hid_bus_reprobe env drvs gds devs). R s"
  using devs
proof (induction gds arbitrary: devs)
  case Nil
  then show ?case by simp
next
  case (Cons gd gds)
  let ?stale = "\<lambda>gds s. \<exists>gd \<in> set gds. \<exists>m. match gd = Some m \<and> snd s = Some (name gd) \<and>
                 \<not> m (driver_tables_of drvs) (fst s) \<and> status (fst s) AND HID_STAT_REPROBED_BIT = 0"
  have step: "\<forall>s \<in> set (case match gd of None \<Rightarrow> devs | Some m \<Rightarrow>
            map (\<lambda>(hdev, b).
                   if b = Some (name gd) \<and> \<not> m (driver_tables_of drvs) hdev \<and>
                      status hdev AND HID_STAT_REPROBED_BIT = 0
                   then device_attach_drivers env drvs drvs
                          (hid_device_remove
                             (hdev\<lparr>status := status hdev OR HID_STAT_REPROBED_BIT\<rparr>))
                   else (hdev, b)) devs). R s \<or> ?stale gds s"
  proof (cases "match gd")
    case None
    then show ?thesis using Cons.prems by fastforce
  next
    case (Some m)
    show ?thesis
    proof
      fix s' assume "s' \<in> set (case match gd of None \<Rightarrow> devs | Some m \<Rightarrow>
            map (\<lambda>(hdev, b).
                   if b = Some (name gd) \<and> \<not> m (driver_tables_of drvs) hdev \<and>
                      status hdev AND HID_STAT_REPROBED_BIT = 0
                   then device_attach_drivers env drvs drvs
                          (hid_device_remove
                             (hdev\<lparr>status := status hdev OR HID_STAT_REPROBED_BIT\<rparr>))
                   else (hdev, b)) devs)"
      then obtain h b where hb: "(h, b) \<in> set devs" and s': "s' =
            (if b = Some (name gd) \<and> \<not> m (driver_tables_of drvs) h \<and>
                      status h AND HID_STAT_REPROBED_BIT = 0
                   then device_attach_drivers env drvs drvs
                          (hid_device_remove
                             (h\<lparr>status := status h OR HID_STAT_REPROBED_BIT\<rparr>))
                   else (h, b))"
        using Some by auto
      show "R s' \<or> ?stale gds s'"
      proof (cases "b = Some (name gd) \<and> \<not> m (driver_tables_of drvs) h \<and>
                      status h AND HID_STAT_REPROBED_BIT = 0")
        case True
        then show ?thesis
          using s' att hid_device_remove_closed
          by (metis (no_types, lifting) surj_pair)
      next
        case False
        then have "R (h, b) \<or> ?stale gds (h, b)"
          using Cons.prems hb Some by fastforce
        then show ?thesis using s' False by simp
      qed
    qed
  qed
  then show ?case using Cons.IH by simp
qed

text \<open>
  Rescanning keeps a slot property \<open>R\<close> that every attach of a closed device
  establishes, when the unbound slots with \<open>R\<close> are closed; so does any number
  of rescans.
\<close>

lemma bus_rescan_devices_ok:
  assumes att: "\<And>hdev h b. dev_closed hdev \<Longrightarrow> device_attach_drivers env drvs drvs hdev = (h, b) \<Longrightarrow> R (h, b)"
    and cl: "\<And>h. R (h, None) \<Longrightarrow> dev_closed h"
    and devs: "\<forall>s \<in> set devs. R s"
  shows "\<forall>s \<in> set (fold (\<lambda>d. bus_rescan_devices env drvs) ds devs). R s"
  using devs
proof (induction ds arbitrary: devs)
  case (Cons d ds)
  have "\<forall>s \<in> set (bus_rescan_devices env drvs devs). R s"
  proof
    fix s' assume "s' \<in> set (bus_rescan_devices env drvs devs)"
    then obtain h b where hb: "(h, b) \<in> set devs"
      and s': "s' = (if b = None then device_attach_drivers env drvs drvs h else (h, b))"
      by (auto simp: bus_rescan_devices_def)
    show "R s'"
    proof (cases b)
      case None
      then have "dev_closed h" using cl Cons.prems hb by blast
      then show ?thesis using att s' None by (metis surj_pair)
    next
      case (Some n)
      then show ?thesis using s' Cons.prems hb by auto
    qed
  qed
  then show ?case using Cons.IH by simp
qed simp


subsection \<open>Contracts\<close>

lemma probe_contractI:
  "(\<And>hdev r h. dev_closed hdev \<Longrightarrow> hid_bus_probe env drvs drv hdev = (r, h) \<Longrightarrow>
      dev_ident h = dev_ident hdev \<and> (if r = 0 then dev_running h \<and> P h else dev_closed h)) \<Longrightarrow>
   probe_contract P env drvs drv"
  unfolding probe_contract_def by blast

text \<open>What unfolding a bus probe down to the transport takes.\<close>

lemmas bus_probe_defs = hid_bus_probe_def hid_device_probe_def hid_host_ops_def hid_open_report_def
  hid_hw_start_def dev_closed_def dev_running_def Let_def hid_close_report_not_parsed errno_defs
  HID_CONNECT_DEFAULT_def

lemma probe_contract_mono:
  "probe_contract P env drvs drv \<Longrightarrow> (\<And>h. P h \<Longrightarrow> Q h) \<Longrightarrow> probe_contract Q env drvs drv"
  unfolding probe_contract_def by (metis (no_types, lifting))

text \<open>hid-generic's bus probe on a device another registered driver's table matches.\<close>

lemma hid_generic_declines:
  "\<not> hid_generic_match (driver_tables_of drvs) hdev \<Longrightarrow>
   hid_bus_probe env drvs hid_generic hdev =
     (- ENODEV, hdev\<lparr>status := status hdev AND NOT HID_STAT_REPROBED_BIT\<rparr>)"
  by (simp add: hid_bus_probe_def hid_device_probe_def hid_generic_def hid_generic_match_def
      hid_match_one_id_def hid_id_sentinel_def HID_BUS_ANY_def HID_GROUP_ANY_def HID_ANY_ID_def)

text \<open>
  hid-generic binds only a device no other registered driver's table matches,
  and only when its raw descriptor parses.
\<close>

lemma hid_generic_contract:
  "probe_contract (\<lambda>h. hid_report_parse (rdesc h) = 0 \<and> hid_generic_match (driver_tables_of drvs) h)
     env drvs hid_generic"
  by (rule probe_contractI)
    (auto simp: bus_probe_defs hid_generic_def hid_generic_match_def HID_BUS_ANY_def
      HID_GROUP_ANY_def HID_ANY_ID_def hid_match_one_id_def hid_id_sentinel_def
      split: option.splits if_splits prod.splits)

text \<open>
  hid-generic takes a closed device no other registered driver's table matches,
  over a working transport, when the device's raw descriptor parses: it runs on
  that descriptor.
\<close>

lemma hid_generic_attaches:
  assumes "hid_generic_match (driver_tables_of drvs) hdev" "dev_closed hdev"
    "hid_report_parse (take (unat (dev_rsize hdev)) (dev_rdesc hdev)) = 0"
    "\<forall>h. ll_start env h = 0" "\<forall>h m. ll_connect env h m = 0"
  shows "\<exists>h'. hid_bus_probe env drvs hid_generic hdev = (0, h') \<and> dev_ident h' = dev_ident hdev \<and>
           rdesc h' = take (unat (dev_rsize hdev)) (dev_rdesc hdev) \<and> dev_running h'"
  using assms
  by (simp add: bus_probe_defs hid_generic_def hid_generic_match_def HID_BUS_ANY_def
      HID_GROUP_ANY_def HID_ANY_ID_def hid_match_one_id_def hid_id_sentinel_def dev_ident_def)

end
