(* ===== verification/Hid_Module.thy ===== *)
theory Hid_Module
  imports Hid_Core
begin

text \<open>
  What a driver module declares besides its driver: \<open>MODULE_DEVICE_TABLE(hid,
  table)\<close> makes modpost (\<open>scripts/mod/file2alias.c\<close>, \<open>do_hid_entry\<close>) write
  one \<open>alias=hid:b<bus>g<group>v<vendor>p<product>\<close> line per table entry but the
  terminating one, with \<open>*\<close> for a field that matches anything; the bus announces
  each device with \<open>MODALIAS=hid:b%04Xg%04Xv%08Xp%08X\<close> (\<open>hid_uevent\<close>), and
  modprobe loads every module one of whose aliases matches it as a shell pattern.
  The patterns file2alias writes contain no \<open>?\<close> or \<open>[\<close>, so matching is
  modelled for \<open>*\<close> alone. The \<open>MODULE_AUTHOR\<close>, \<open>MODULE_DESCRIPTION\<close> and
  \<open>MODULE_LICENSE\<close> lines become \<open>tag=value\<close> strings of \<open>.modinfo\<close>.
  The main lemma: an alias matches a device's modalias iff \<open>hid_match_one_id\<close>
  accepts the device for that entry, so module autoloading and driver binding
  agree.
\<close>

section \<open>Hexadecimal fields and shell patterns\<close>

text \<open>\<open>%0<w>X\<close>: \<open>w\<close> upper-case hexadecimal digits, most significant first.\<close>

definition hex_digit :: "nat \<Rightarrow> char" where
  "hex_digit n = char_of (if n < 10 then 48 + n else 55 + n)"

fun hex_pad :: "nat \<Rightarrow> nat \<Rightarrow> string" where
  "hex_pad 0 n = []"
| "hex_pad (Suc w) n = hex_pad w (n div 16) @ [hex_digit (n mod 16)]"

text \<open>\<open>fnmatch(pattern, string, 0)\<close> for patterns whose only wildcard is \<open>*\<close>.\<close>

fun glob_match :: "string \<Rightarrow> string \<Rightarrow> bool" where
  "glob_match [] s = (s = [])"
| "glob_match (p # ps) [] = (p = CHR ''*'' \<and> glob_match ps [])"
| "glob_match (p # ps) (c # s) =
     (if p = CHR ''*'' then glob_match ps (c # s) \<or> glob_match (p # ps) s
      else p = c \<and> glob_match ps s)"

section \<open>Aliases and modaliases\<close>

text \<open>
  \<open>do_hid_entry\<close>: \<open>ADD(alias, "b", bus != HID_BUS_ANY, bus)\<close> and so on, each
  field printed with the width of its type (\<open>%04X\<close> for the two \<open>__u16\<close>,
  \<open>%08X\<close> for the two \<open>__u32\<close>) or as \<open>*\<close>.
\<close>

definition hid_modalias_entry :: "hid_device_id \<Rightarrow> string" where
  "hid_modalias_entry e =
     ''hid:'' @
     ''b'' @ (if id_bus e \<noteq> HID_BUS_ANY then hex_pad 4 (unat (id_bus e)) else ''*'') @
     ''g'' @ (if id_group e \<noteq> HID_GROUP_ANY then hex_pad 4 (unat (id_group e)) else ''*'') @
     ''v'' @ (if id_vendor e \<noteq> HID_ANY_ID then hex_pad 8 (unat (id_vendor e)) else ''*'') @
     ''p'' @ (if id_product e \<noteq> HID_ANY_ID then hex_pad 8 (unat (id_product e)) else ''*'')"

text \<open>\<open>hid_uevent\<close>: the \<open>MODALIAS\<close> variable of a device.\<close>

definition hid_uevent_modalias :: "hid_device \<Rightarrow> string" where
  "hid_uevent_modalias hdev =
     ''hid:b'' @ hex_pad 4 (unat (bus hdev)) @ ''g'' @ hex_pad 4 (unat (group hdev)) @
     ''v'' @ hex_pad 8 (unat (vendor hdev)) @ ''p'' @ hex_pad 8 (unat (product hdev))"

text \<open>Whether modprobe loads a module with aliases \<open>as\<close> for a device.\<close>

definition alias_loads :: "string list \<Rightarrow> hid_device \<Rightarrow> bool" where
  "alias_loads as hdev = list_ex (\<lambda>a. glob_match a (hid_uevent_modalias hdev)) as"

section \<open>Facts about hexadecimal fields and patterns\<close>

lemma hex_digit_code: "n < 16 \<Longrightarrow> (of_char (hex_digit n) :: nat) = (if n < 10 then 48 + n else 55 + n)"
  by (simp add: hex_digit_def)

lemma hex_digit_inj: "a < 16 \<Longrightarrow> b < 16 \<Longrightarrow> hex_digit a = hex_digit b \<Longrightarrow> a = b"
proof -
  assume a: "a < 16" and b: "b < 16" and eq: "hex_digit a = hex_digit b"
  then have "(of_char (hex_digit a) :: nat) = of_char (hex_digit b)" by simp
  then show "a = b" using a b by (simp add: hex_digit_code split: if_splits)
qed

lemma hex_digit_not_sep:
  "n < 16 \<Longrightarrow> hex_digit n \<notin> {CHR ''*'', CHR ''b'', CHR ''g'', CHR ''v'', CHR ''p''}"
proof
  assume n: "n < 16" and "hex_digit n \<in> {CHR ''*'', CHR ''b'', CHR ''g'', CHR ''v'', CHR ''p''}"
  then have "(of_char (hex_digit n) :: nat) \<in> {42, 98, 103, 118, 112}" by auto
  then show False using n by (simp add: hex_digit_code split: if_splits)
qed

lemma length_hex_pad [simp]: "length (hex_pad w n) = w"
  by (induction w arbitrary: n) simp_all

lemma hex_pad_digits: "c \<in> set (hex_pad w n) \<Longrightarrow> \<exists>k < 16. c = hex_digit k"
  by (induction w arbitrary: n) force+

lemma hex_pad_not_sep:
  "c \<in> {CHR ''*'', CHR ''b'', CHR ''g'', CHR ''v'', CHR ''p''} \<Longrightarrow> c \<notin> set (hex_pad w n)"
  by (metis hex_pad_digits hex_digit_not_sep)

lemma hex_pad_inj: "n < 16 ^ w \<Longrightarrow> m < 16 ^ w \<Longrightarrow> hex_pad w n = hex_pad w m \<longleftrightarrow> n = m"
proof (induction w arbitrary: n m)
  case 0
  then show ?case by simp
next
  case (Suc w)
  have lt: "n div 16 < 16 ^ w" "m div 16 < 16 ^ w"
    using Suc.prems by (simp_all add: less_mult_imp_div_less mult.commute)
  show ?case
  proof
    assume "hex_pad (Suc w) n = hex_pad (Suc w) m"
    then have "hex_pad w (n div 16) = hex_pad w (m div 16)" "hex_digit (n mod 16) = hex_digit (m mod 16)"
      by simp_all
    then have "n div 16 = m div 16" "n mod 16 = m mod 16"
      using Suc.IH [OF lt] hex_digit_inj [of "n mod 16" "m mod 16"] by simp_all
    then show "n = m" by (metis div_mult_mod_eq)
  qed simp
qed

lemma glob_match_lit:
  "length xs = length ys \<Longrightarrow> CHR ''*'' \<notin> set xs \<Longrightarrow>
   glob_match (xs @ p) (ys @ s) = (xs = ys \<and> glob_match p s)"
  by (induction xs ys rule: list_induct2) auto

lemma glob_match_star_all: "glob_match [CHR ''*''] s"
  by (induction s) simp_all

lemma glob_match_star_miss:
  "c \<noteq> CHR ''*'' \<Longrightarrow> c \<notin> set t \<Longrightarrow> \<not> glob_match (CHR ''*'' # c # p) t"
  by (induction t) auto

lemma glob_match_star_sep:
  "c \<noteq> CHR ''*'' \<Longrightarrow> c \<notin> set s \<Longrightarrow> c \<notin> set t \<Longrightarrow>
   glob_match (CHR ''*'' # c # p) (s @ c # t) = glob_match p t"
  by (induction s) (auto simp: glob_match_star_miss)

lemma unat_hex_bounds [simp]:
  "unat (x :: u16) < 65536" "unat (y :: u32) < 4294967296"
proof -
  have "unat x < 2 ^ LENGTH(16)" "unat y < 2 ^ LENGTH(32)" by (rule unsigned_less)+
  then show "unat x < 65536" "unat y < 4294967296" by simp_all
qed

lemma unat_inj_iff: "unat (a :: 'a::len word) = unat b \<longleftrightarrow> a = b"
  by (metis word_unat_eq_iff)

subsection \<open>Matching field by field\<close>

lemma alias_field:
  assumes "c \<in> {CHR ''g'', CHR ''v'', CHR ''p''}" "c \<notin> set t" "x < 16 ^ w" "y < 16 ^ w"
  shows "glob_match ((if cond then hex_pad w x else ''*'') @ c # p) (hex_pad w y @ c # t) =
           ((\<not> cond \<or> x = y) \<and> glob_match p t)"
proof (cases cond)
  case True
  have "CHR ''*'' \<notin> set (hex_pad w x)" by (rule hex_pad_not_sep) simp
  moreover have "c \<noteq> CHR ''*''" using assms(1) by auto
  ultimately show ?thesis
    using True assms(3,4) glob_match_lit [of "hex_pad w x" "hex_pad w y" "c # p" "c # t"]
    by (simp add: hex_pad_inj)
next
  case False
  have "c \<notin> set (hex_pad w y)" by (rule hex_pad_not_sep) (use assms(1) in auto)
  then show ?thesis
    using False assms(1,2) glob_match_star_sep [of c "hex_pad w y" t p] by auto
qed

lemma alias_last_field:
  "x < 16 ^ w \<Longrightarrow> y < 16 ^ w \<Longrightarrow>
   glob_match (if cond then hex_pad w x else ''*'') (hex_pad w y) = (\<not> cond \<or> x = y)"
  using glob_match_lit [of "hex_pad w x" "hex_pad w y" "[]" "[]"] hex_pad_not_sep [of "CHR ''*''" w x]
  by (auto simp: hex_pad_inj glob_match_star_all)

lemmas alias_simps = hid_modalias_entry_def hid_uevent_modalias_def alias_field alias_last_field
  hex_pad_not_sep hid_match_one_id_def unat_inj_iff

text \<open>
  The alias modpost writes for a match-table entry matches the modalias of
  a device exactly when \<open>hid_match_one_id\<close> accepts the device for that entry:
  a field printed as \<open>*\<close> is a field the entry leaves as \<open>HID_*_ANY\<close>, and a
  printed field must be equal.
\<close>

lemma modalias_match:
  "glob_match (hid_modalias_entry e) (hid_uevent_modalias hdev) = hid_match_one_id hdev e"
  by (simp add: alias_simps split del: if_split)

text \<open>
  The aliases of a match table (every entry before the sentinel, each with a
  non-zero bus) load the module for a device iff the table matches it.
\<close>

lemma alias_loads_table:
  "list_all (\<lambda>e. id_bus e \<noteq> 0) ids \<Longrightarrow> id_bus s = 0 \<Longrightarrow>
   alias_loads (map hid_modalias_entry ids) hdev \<longleftrightarrow> hid_match_id hdev (ids @ [s]) \<noteq> None"
proof (induction ids)
  case (Cons e ids)
  have "hid_match_id hdev ((e # ids) @ [s]) \<noteq> None \<longleftrightarrow>
        hid_match_one_id hdev e \<or> hid_match_id hdev (ids @ [s]) \<noteq> None"
    using Cons.prems(1) by simp
  then show ?case
    using Cons by (simp add: alias_loads_def alias_simps split del: if_split)
qed (simp add: alias_loads_def)

end
