(* ===== verification/Probe_Lifecycle.thy ===== *)
theory Probe_Lifecycle
  imports Hid_Core
begin

text \<open>
  The abstract specification of one probe call (spec \<section>4.3, \<section>4.4, \<section>7): a quirk
  entry decides by its rejected raw size whether the interface is processed
  (\<open>should_process\<close>), and the call moves through the states
  \<open>Unevaluated \<rightarrow> Rejected | Evaluated \<rightarrow> ParseFailed | Parsed \<rightarrow> StartFailed | Ready\<close>
  as the host's parse and start report. The steps are an inductive relation over
  the outcomes of the collaborators (\<open>probe_env\<close>); \<open>lifecycle_run\<close> computes the
  terminal state, and the lemmas show that the machine is deterministic and that
  every run from \<open>Unevaluated\<close> ends in exactly that terminal state. The drivers'
  \<open>probe\<close> callbacks are shown to refine this machine in their own theories.
\<close>

section \<open>Quirk entries and the disambiguation rule\<close>

text \<open>\<open>QuirkEntry\<close> of spec \<section>3: identity, fixed descriptor, rejected raw size, label.\<close>

record quirk_entry =
  q_vendor :: u32
  q_product :: u32
  q_fixed :: rdesc_bytes
  q_rejected_raw_size :: "u32 option"
  q_label :: string

text \<open>\<open>shouldProcess(entry, rawSize)\<close>: the known-bad exclusion rule of \<section>4.3.\<close>

definition should_process :: "quirk_entry \<Rightarrow> u32 \<Rightarrow> bool" where
  "should_process q raw = (case q_rejected_raw_size q of None \<Rightarrow> True | Some r \<Rightarrow> raw \<noteq> r)"

section \<open>The state machine\<close>

datatype probe_state =
  Unevaluated | Rejected | Evaluated | ParseFailed | Parsed | StartFailed | Ready

text \<open>What the environment of one probe call decides: acceptance and the two host results.\<close>

record probe_env =
  env_accept :: bool
  env_parse_ret :: int
  env_start_ret :: int

inductive lifecycle_step :: "probe_env \<Rightarrow> probe_state \<Rightarrow> probe_state \<Rightarrow> bool" for e where
  reject: "\<not> env_accept e \<Longrightarrow> lifecycle_step e Unevaluated Rejected"
| accept: "env_accept e \<Longrightarrow> lifecycle_step e Unevaluated Evaluated"
| parse_failed: "env_parse_ret e \<noteq> 0 \<Longrightarrow> lifecycle_step e Evaluated ParseFailed"
| parsed: "env_parse_ret e = 0 \<Longrightarrow> lifecycle_step e Evaluated Parsed"
| start_failed: "env_start_ret e \<noteq> 0 \<Longrightarrow> lifecycle_step e Parsed StartFailed"
| started: "env_start_ret e = 0 \<Longrightarrow> lifecycle_step e Parsed Ready"

code_pred lifecycle_step .

inductive_cases lifecycle_step_from_Unevaluated: "lifecycle_step e Unevaluated t"
inductive_cases lifecycle_step_from_Evaluated: "lifecycle_step e Evaluated t"
inductive_cases lifecycle_step_from_Parsed: "lifecycle_step e Parsed t"

inductive_simps lifecycle_step_simps: "lifecycle_step e s t"

fun terminal :: "probe_state \<Rightarrow> bool" where
  "terminal Rejected = True"
| "terminal ParseFailed = True"
| "terminal StartFailed = True"
| "terminal Ready = True"
| "terminal _ = False"

text \<open>The value the host sees for a terminal state (\<section>7); \<open>None\<close> before the end.\<close>

fun probe_errno :: "probe_env \<Rightarrow> probe_state \<Rightarrow> int option" where
  "probe_errno e Rejected = Some (- ENODEV)"
| "probe_errno e ParseFailed = Some (env_parse_ret e)"
| "probe_errno e StartFailed = Some (env_start_ret e)"
| "probe_errno e Ready = Some 0"
| "probe_errno e _ = None"

fun stage_rank :: "probe_state \<Rightarrow> nat" where
  "stage_rank Unevaluated = 3"
| "stage_rank Evaluated = 2"
| "stage_rank Parsed = 1"
| "stage_rank _ = 0"

function lifecycle_run :: "probe_env \<Rightarrow> probe_state \<Rightarrow> probe_state" where
  "lifecycle_run e Unevaluated = (if env_accept e then lifecycle_run e Evaluated else Rejected)"
| "lifecycle_run e Evaluated = (if env_parse_ret e \<noteq> 0 then ParseFailed else lifecycle_run e Parsed)"
| "lifecycle_run e Parsed = (if env_start_ret e \<noteq> 0 then StartFailed else Ready)"
| "lifecycle_run e Rejected = Rejected"
| "lifecycle_run e ParseFailed = ParseFailed"
| "lifecycle_run e StartFailed = StartFailed"
| "lifecycle_run e Ready = Ready"
  by pat_completeness auto
termination
  by (relation "measure (\<lambda>(e, s). stage_rank s)") auto

section \<open>Facts about the machine\<close>

lemma lifecycle_step_rank:
  "lifecycle_step e s t \<Longrightarrow> stage_rank t < stage_rank s"
  by (induction rule: lifecycle_step.induct) auto

lemma lifecycle_step_deterministic:
  "lifecycle_step e s t \<Longrightarrow> lifecycle_step e s u \<Longrightarrow> t = u"
  by (induction rule: lifecycle_step.induct) (auto simp: lifecycle_step_simps)

lemma terminal_no_step: "terminal s \<Longrightarrow> \<not> lifecycle_step e s t"
  by (cases s) (auto simp: lifecycle_step_simps)

lemma lifecycle_progress: "\<not> terminal s \<Longrightarrow> \<exists>t. lifecycle_step e s t"
  by (cases s) (auto intro: lifecycle_step.intros)

lemma lifecycle_run_terminal: "terminal (lifecycle_run e s)"
  by (induction e s rule: lifecycle_run.induct) auto

lemma lifecycle_run_reaches: "(lifecycle_step e)\<^sup>*\<^sup>* s (lifecycle_run e s)"
proof (induction e s rule: lifecycle_run.induct)
  case (1 e)
  then show ?case
    by (auto intro: converse_rtranclp_into_rtranclp lifecycle_step.intros)
next
  case (2 e)
  then show ?case
    by (auto intro: converse_rtranclp_into_rtranclp lifecycle_step.intros)
next
  case (3 e)
  then show ?case
    by (auto intro: r_into_rtranclp lifecycle_step.intros)
qed auto

text \<open>A terminal state reached from \<open>s\<close> is the one \<open>lifecycle_run\<close> computes.\<close>

lemma lifecycle_terminal_unique:
  assumes "(lifecycle_step e)\<^sup>*\<^sup>* s t" and "terminal t"
  shows "t = lifecycle_run e s"
  using assms
proof (induction rule: converse_rtranclp_induct)
  case base
  then show ?case by (cases t) auto
next
  case (step s s')
  have "(lifecycle_step e)\<^sup>*\<^sup>* s (lifecycle_run e s)"
    by (rule lifecycle_run_reaches)
  moreover from step.hyps(1) have "\<not> terminal s"
    using terminal_no_step by blast
  moreover have "lifecycle_run e s = lifecycle_run e s'"
    using step.hyps(1)
    by (induction rule: lifecycle_step.induct) auto
  ultimately show ?case using step.IH step.prems by simp
qed

lemma lifecycle_run_Unevaluated:
  "lifecycle_run e Unevaluated =
     (if \<not> env_accept e then Rejected
      else if env_parse_ret e \<noteq> 0 then ParseFailed
      else if env_start_ret e \<noteq> 0 then StartFailed
      else Ready)"
  by simp

section \<open>The environment a probe call sees\<close>

text \<open>
  For a quirk entry, host operations and a device: accepted by the entry's rule on
  the raw size, parse run on the device, start run on the parsed device with
  \<open>HID_CONNECT_DEFAULT\<close>.
\<close>

definition probe_env_of :: "quirk_entry \<Rightarrow> hid_ops \<Rightarrow> hid_device \<Rightarrow> probe_env" where
  "probe_env_of q ops hdev =
     \<lparr>env_accept = should_process q (dev_rsize hdev),
      env_parse_ret = fst (op_parse ops hdev),
      env_start_ret = fst (op_hw_start ops (snd (op_parse ops hdev)) HID_CONNECT_DEFAULT)\<rparr>"

text \<open>
  The refinement obligation of a probe callback: its return value is the value of
  the terminal state the machine reaches from \<open>Unevaluated\<close>.
\<close>

definition refines_lifecycle :: "quirk_entry \<Rightarrow> probe_fn \<Rightarrow> bool" where
  "refines_lifecycle q p =
     (\<forall>ops hdev d. \<exists>s. (lifecycle_step (probe_env_of q ops hdev))\<^sup>*\<^sup>* Unevaluated s \<and> terminal s \<and>
        probe_errno (probe_env_of q ops hdev) s = Some (fst (p ops hdev d)))"

text \<open>It suffices that the callback returns the value of \<open>lifecycle_run\<close>.\<close>

lemma refines_lifecycleI:
  assumes "\<And>ops hdev d. probe_errno (probe_env_of q ops hdev)
             (lifecycle_run (probe_env_of q ops hdev) Unevaluated) = Some (fst (p ops hdev d))"
  shows "refines_lifecycle q p"
  unfolding refines_lifecycle_def
  using assms lifecycle_run_reaches lifecycle_run_terminal by blast

section \<open>Every probe call ends\<close>

lemma lifecycle_steps_rank:
  "(lifecycle_step e ^^ n) s t \<Longrightarrow> n + stage_rank t \<le> stage_rank s"
proof (induction n arbitrary: t)
  case (Suc n)
  then obtain u where "(lifecycle_step e ^^ n) s u" "lifecycle_step e u t" by auto
  then show ?case using Suc.IH lifecycle_step_rank by fastforce
qed simp

lemma terminal_errno: "terminal t \<Longrightarrow> probe_errno e t \<noteq> None"
  by (cases t) simp_all

text \<open>
  Whatever the host's answers, a probe call reaches a terminal state within
  as many steps as the stages left (at most three from \<open>Unevaluated\<close>), and the
  state it reaches gives the host a return value.
\<close>

lemma lifecycle_terminates:
  "\<exists>t n. n \<le> stage_rank s \<and> (lifecycle_step e ^^ n) s t \<and> terminal t \<and> probe_errno e t \<noteq> None"
proof -
  obtain n where n: "(lifecycle_step e ^^ n) s (lifecycle_run e s)"
    using lifecycle_run_reaches rtranclp_power by metis
  then have "n \<le> stage_rank s" using lifecycle_steps_rank by fastforce
  then show ?thesis
    using n lifecycle_run_terminal terminal_errno by blast
qed

end
