(* ===== verification/Hid_F74n.thy ===== *)
theory Hid_F74n
  imports Hid_Bus Hid_Module Probe_Lifecycle
begin

text \<open>
  \<open>src/hid-f74n.c\<close>: the quirk driver of the Polsimer F74N Formula Wheel. It
  consists of a replacement report descriptor \<open>f74n_rdesc_fixed\<close>, the
  \<open>report_fixup\<close> hook that hands it to the host, the \<open>probe\<close> callback that
  skips the interface whose raw descriptor is 23 bytes long and otherwise parses
  and starts the device, the match table and the \<open>struct hid_driver\<close>. The lemmas
  give the behaviour of each callback on every branch, the refinement of the probe
  callback to the lifecycle machine of \<open>Probe_Lifecycle\<close>, and the facts about the
  table: its length and how the host parser treats it.
\<close>

section \<open>Identity and replacement descriptor\<close>

text \<open>The \<open>#define\<close>s of the vendor and device id.\<close>

definition POLSIMER_VENDOR_ID :: u32 where "POLSIMER_VENDOR_ID = 0x16c0"
definition POLSIMER_F74N_DEVICE_ID :: u32 where "POLSIMER_F74N_DEVICE_ID = 0x0486"

text \<open>
  \<open>static __u8 f74n_rdesc_fixed[]\<close>, one line of the source per line; the
  commented-out Pointer collection of the source is not part of the array.
\<close>

definition f74n_rdesc_fixed :: rdesc_bytes where
  "f74n_rdesc_fixed =
     [0x05, 0x01,
      0x09, 0x05,
      0xA1, 0x01,
      0x15, 0x00,
      0x25, 0x01,
      0x75, 0x01,
      0x95, 0x20,
      0x05, 0x09,
      0x19, 0x01,
      0x29, 0x20,
      0x81, 0x02,
      0x15, 0x00,
      0x25, 0x07,
      0x35, 0x00,
      0x46, 0x3B, 0x01,
      0x75, 0x04,
      0x95, 0x01,
      0x65, 0x14,
      0x05, 0x01,
      0x09, 0x39,
      0x81, 0x42,
      0xC0,
      0x15, 0x00,
      0x26, 0xFF, 0x03,
      0x75, 0x0A,
      0x95, 0x02,
      0x09, 0x36,
      0x09, 0x36,
      0x81, 0x02,
      0xC0]"

section \<open>Callbacks\<close>

text \<open>
  \<open>f74n_report_fixup\<close>: logs, stores \<open>sizeof(f74n_rdesc_fixed)\<close> through
  \<open>rsize\<close> and returns the static table; the raw descriptor is not read.
\<close>

definition f74n_report_fixup :: fixup_fn where
  "f74n_report_fixup hdev rdesc_in rsize_in =
     (let hdev' = hid_info hdev ''fixing up Polsimer F74N Formula Wheel report descriptor''
      in (f74n_rdesc_fixed, of_nat (length f74n_rdesc_fixed), hdev'))"

text \<open>\<open>f74n_probe\<close>: the early return on \<open>dev_rsize == 23\<close>, then parse and start.\<close>

definition f74n_probe :: probe_fn where
  "f74n_probe ops hdev dev_id =
     (if dev_rsize hdev = 23 then (- ENODEV, hdev)
      else
        (let (ret, hdev1) = op_parse ops hdev
         in if ret \<noteq> 0 then (ret, hid_err hdev1 ''parse failed'')
            else
              (let (ret, hdev2) = op_hw_start ops hdev1 HID_CONNECT_DEFAULT
               in if ret \<noteq> 0 then (ret, hid_err hdev2 ''hw start failed'')
                  else (0, hdev2))))"

section \<open>Registration\<close>

text \<open>
  \<open>f74n_devices[]\<close>. The source names \<open>USB_VENDOR_ID_f74n\<close> and
  \<open>USB_DEVICE_ID_f74n\<close>, which no header defines; the table is modelled with the
  ids the file does define.
\<close>

definition f74n_devices :: "hid_device_id list" where
  "f74n_devices = [HID_USB_DEVICE POLSIMER_VENDOR_ID POLSIMER_F74N_DEVICE_ID, hid_id_sentinel]"

text \<open>
  \<open>MODULE_DEVICE_TABLE(hid, f74n_devices)\<close>: the aliases modpost writes into the
  module for the table, one per entry but the terminating one.
\<close>

definition f74n_mod_aliases :: "string list" where
  "f74n_mod_aliases = map hid_modalias_entry (butlast f74n_devices)"

definition f74n_driver :: hid_driver where
  "f74n_driver =
     \<lparr>name = ''f74n'', id_table = f74n_devices,
      report_fixup = Some f74n_report_fixup, probe = Some f74n_probe, match = None\<rparr>"

text \<open>
  \<open>module_hid_driver(f74n_driver)\<close> expands to the module's init, which
  registers the driver on the bus and returns the result, and its exit, which
  unregisters it.
\<close>

definition f74n_driver_init :: "hid_env \<Rightarrow> hid_bus_state \<Rightarrow> int \<times> hid_bus_state" where
  "f74n_driver_init env st = hid_register_driver env st f74n_driver"

definition f74n_driver_exit :: "hid_env \<Rightarrow> hid_bus_state \<Rightarrow> hid_bus_state" where
  "f74n_driver_exit env st = hid_unregister_driver env st f74n_driver"

text \<open>\<open>MODULE_AUTHOR\<close>, \<open>MODULE_DESCRIPTION\<close>, \<open>MODULE_LICENSE\<close>: the \<open>.modinfo\<close> strings.\<close>

definition f74n_modinfo :: "string list" where
  "f74n_modinfo =
     [''author=Henrik Vestin <henrikvestin@gmail.com>'',
      ''description=HID driver for Polsimer F74N Formula Wheel'',
      ''license=GPL'']"

text \<open>The quirk entry of spec \<section>6 that this driver implements.\<close>

definition f74n_quirk :: quirk_entry where
  "f74n_quirk =
     \<lparr>q_vendor = POLSIMER_VENDOR_ID, q_product = POLSIMER_F74N_DEVICE_ID,
      q_fixed = f74n_rdesc_fixed, q_rejected_raw_size = Some 23,
      q_label = ''Polsimer F74N Formula Wheel''\<rparr>"

section \<open>The replacement descriptor\<close>

lemma f74n_rdesc_fixed_length: "length f74n_rdesc_fixed = 60"
  by (simp add: f74n_rdesc_fixed_def)

text \<open>
  C4: the table does not parse: hid-core's item loop rejects it with
  \<open>-EINVAL\<close>, and the table without its final byte, an End Collection, parses
  and declares one input report of 56 bits (32 buttons, a 4-bit hat, two 10-bit
  sliders). The table closes two collections but opens one: the Physical
  collection whose opening lines are commented out in the source kept its End
  Collection.
\<close>

lemma f74n_rdesc_unbalanced:
  "hid_report_parse f74n_rdesc_fixed = - EINVAL \<and> last f74n_rdesc_fixed = 0xC0 \<and>
   hid_parse_items hid_parser_init (butlast f74n_rdesc_fixed) =
     (0, snd (hid_parse_items hid_parser_init (butlast f74n_rdesc_fixed))) \<and>
   report_bits (snd (hid_parse_items hid_parser_init (butlast f74n_rdesc_fixed))) = [((0, 0), 56)]"
  by code_simp

section \<open>The callbacks, branch by branch\<close>

text \<open>
  C5: the fixup hook ignores the raw descriptor and its size, returns the static
  60-byte table with size 60 and logs one info line.
\<close>

lemma f74n_report_fixup_result:
  "f74n_report_fixup hdev rdesc_in rsize_in =
     (f74n_rdesc_fixed, 60,
      hid_info hdev ''fixing up Polsimer F74N Formula Wheel report descriptor'')"
  by (simp add: f74n_report_fixup_def f74n_rdesc_fixed_length)

text \<open>
  C1: an interface whose raw descriptor is 23 bytes long is refused with
  \<open>-ENODEV\<close>; the device is left as it was and neither host operation is used.
\<close>

lemma f74n_probe_rejects:
  "dev_rsize hdev = 23 \<Longrightarrow> f74n_probe ops hdev dev_id = (- ENODEV, hdev)"
  by (simp add: f74n_probe_def)

text \<open>
  C6: on any other interface a failing parse is returned as it is, after an error
  line; the hardware start is not attempted.
\<close>

lemma f74n_probe_parse_fails:
  "dev_rsize hdev \<noteq> 23 \<Longrightarrow> op_parse ops hdev = (ret, hdev1) \<Longrightarrow> ret \<noteq> 0 \<Longrightarrow>
   f74n_probe ops hdev dev_id = (ret, hid_err hdev1 ''parse failed'')"
  by (simp add: f74n_probe_def)

text \<open>C7: after a successful parse a failing start is returned, after an error line.\<close>

lemma f74n_probe_start_fails:
  "dev_rsize hdev \<noteq> 23 \<Longrightarrow> op_parse ops hdev = (0, hdev1) \<Longrightarrow>
   op_hw_start ops hdev1 HID_CONNECT_DEFAULT = (ret, hdev2) \<Longrightarrow> ret \<noteq> 0 \<Longrightarrow>
   f74n_probe ops hdev dev_id = (ret, hid_err hdev2 ''hw start failed'')"
  by (simp add: f74n_probe_def)

text \<open>C8: when parse and start succeed the probe returns 0 with the started device.\<close>

lemma f74n_probe_succeeds:
  "dev_rsize hdev \<noteq> 23 \<Longrightarrow> op_parse ops hdev = (0, hdev1) \<Longrightarrow>
   op_hw_start ops hdev1 HID_CONNECT_DEFAULT = (0, hdev2) \<Longrightarrow>
   f74n_probe ops hdev dev_id = (0, hdev2)"
  by (simp add: f74n_probe_def)

text \<open>
  C2: the probe callback refines the lifecycle machine of the quirk entry
  (rejected raw size 23): for all host operations and devices, its return value is
  the value of a terminal state the machine reaches from \<open>Unevaluated\<close>.
\<close>

theorem f74n_probe_refines: "refines_lifecycle f74n_quirk f74n_probe"
  by (rule refines_lifecycleI)
    (simp add: f74n_probe_def probe_env_of_def should_process_def f74n_quirk_def split: prod.split)

section \<open>The driver on the bus\<close>

lemma f74n_devices_match:
  "hid_match_id hdev f74n_devices =
     (if bus hdev = BUS_USB \<and> vendor hdev = POLSIMER_VENDOR_ID \<and> product hdev = POLSIMER_F74N_DEVICE_ID
      then Some (HID_USB_DEVICE POLSIMER_VENDOR_ID POLSIMER_F74N_DEVICE_ID) else None)"
  unfolding f74n_devices_def
  by (rule hid_match_usb_table) (simp_all add: POLSIMER_VENDOR_ID_def POLSIMER_F74N_DEVICE_ID_def HID_ANY_ID_def)

lemma f74n_match:
  "bus hdev = BUS_USB \<Longrightarrow> vendor hdev = POLSIMER_VENDOR_ID \<Longrightarrow> product hdev = POLSIMER_F74N_DEVICE_ID \<Longrightarrow>
   hid_match_id hdev f74n_devices = Some (HID_USB_DEVICE POLSIMER_VENDOR_ID POLSIMER_F74N_DEVICE_ID)"
  by (simp add: f74n_devices_match)

lemma f74n_rdesc_parse: "hid_report_parse f74n_rdesc_fixed = - EINVAL"
  by code_simp

text \<open>
  C3: under hid-core's parser no interface of the wheel attaches. On every
  interface the probe accepts, the hook installs the table, the parse fails with
  \<open>-EINVAL\<close>, the report is closed, \<open>hid_hw_start\<close> is never called (the result
  does not depend on it), and the log holds the fixup line and \<open>parse failed\<close>.
\<close>

theorem f74n_accepted_interface_fails:
  assumes "bus hdev = BUS_USB" "vendor hdev = POLSIMER_VENDOR_ID"
    "product hdev = POLSIMER_F74N_DEVICE_ID" "dev_rsize hdev \<noteq> 23"
    "status hdev AND HID_STAT_PARSED = 0"
  shows "hid_device_probe hid_report_parse hw_start tables f74n_driver hdev =
     (- EINVAL,
      hid_close_report (hid_err (hid_close_report
        ((hid_info hdev ''fixing up Polsimer F74N Formula Wheel report descriptor'')
           \<lparr>rdesc := f74n_rdesc_fixed, rsize := 60\<rparr>)) ''parse failed''))"
proof -
  have p: "hid_open_report hid_report_parse (Some f74n_report_fixup) hdev =
     (- EINVAL, hid_close_report
        ((hid_info hdev ''fixing up Polsimer F74N Formula Wheel report descriptor'')
           \<lparr>rdesc := f74n_rdesc_fixed, rsize := 60\<rparr>))"
    using assms(5)
    by (simp add: hid_open_report_def f74n_report_fixup_def f74n_rdesc_fixed_length
        f74n_rdesc_parse EINVAL_def)
  have "f74n_probe (hid_host_ops hid_report_parse hw_start (Some f74n_report_fixup)) hdev
          (HID_USB_DEVICE POLSIMER_VENDOR_ID POLSIMER_F74N_DEVICE_ID) =
        (- EINVAL, hid_err (hid_close_report
          ((hid_info hdev ''fixing up Polsimer F74N Formula Wheel report descriptor'')
             \<lparr>rdesc := f74n_rdesc_fixed, rsize := 60\<rparr>)) ''parse failed'')"
    using p assms(4) by (simp add: f74n_probe_def hid_host_ops_def EINVAL_def)
  then show ?thesis
    using f74n_match [OF assms(1-3)]
    by (simp add: hid_device_probe_def f74n_driver_def EINVAL_def)
qed

text \<open>
  On the bus the driver never binds: from a closed device its bus probe fails,
  whatever the transport does, and leaves the device closed.
\<close>

lemma f74n_probe_contract: "probe_contract (\<lambda>h. False) env drvs f74n_driver"
  by (rule probe_contractI)
    (auto simp: bus_probe_defs f74n_driver_def f74n_probe_def f74n_report_fixup_def
      f74n_rdesc_fixed_length f74n_rdesc_parse f74n_devices_match split: option.splits if_splits prod.splits)

section \<open>Witnesses\<close>

text \<open>Spec \<section>8, scenario 1: the 23-byte interface of the wheel is refused.\<close>

lemma f74n_probe_rejects_witness:
  "f74n_probe \<lparr>op_parse = (\<lambda>h. (0, h)), op_hw_start = (\<lambda>h c. (0, h))\<rparr>
     (\<lparr>bus = BUS_USB, group = 0, vendor = POLSIMER_VENDOR_ID, product = POLSIMER_F74N_DEVICE_ID, dev_rdesc = replicate 23 0, dev_rsize = 23, rdesc = [], rsize = 0, status = 0, hw_started = False, dmesg = []\<rparr>) (HID_USB_DEVICE POLSIMER_VENDOR_ID POLSIMER_F74N_DEVICE_ID) = (- ENODEV, \<lparr>bus = BUS_USB, group = 0, vendor = POLSIMER_VENDOR_ID, product = POLSIMER_F74N_DEVICE_ID, dev_rdesc = replicate 23 0, dev_rsize = 23, rdesc = [], rsize = 0, status = 0, hw_started = False, dmesg = []\<rparr>)"
  by (rule f74n_probe_rejects) simp

lemma f74n_probe_parse_fails_witness:
  "f74n_probe \<lparr>op_parse = (\<lambda>h. (- 22, h)), op_hw_start = (\<lambda>h c. (0, h))\<rparr>
     (\<lparr>bus = BUS_USB, group = 0, vendor = POLSIMER_VENDOR_ID, product = POLSIMER_F74N_DEVICE_ID, dev_rdesc = replicate 64 0, dev_rsize = 64, rdesc = [], rsize = 0, status = 0, hw_started = False, dmesg = []\<rparr>) (HID_USB_DEVICE POLSIMER_VENDOR_ID POLSIMER_F74N_DEVICE_ID) =
   (- 22, hid_err (\<lparr>bus = BUS_USB, group = 0, vendor = POLSIMER_VENDOR_ID, product = POLSIMER_F74N_DEVICE_ID, dev_rdesc = replicate 64 0, dev_rsize = 64, rdesc = [], rsize = 0, status = 0, hw_started = False, dmesg = []\<rparr>) ''parse failed'')"
  by (rule f74n_probe_parse_fails) simp_all

lemma f74n_probe_start_fails_witness:
  "f74n_probe \<lparr>op_parse = (\<lambda>h. (0, h)), op_hw_start = (\<lambda>h c. (- 5, h))\<rparr>
     (\<lparr>bus = BUS_USB, group = 0, vendor = POLSIMER_VENDOR_ID, product = POLSIMER_F74N_DEVICE_ID, dev_rdesc = replicate 64 0, dev_rsize = 64, rdesc = [], rsize = 0, status = 0, hw_started = False, dmesg = []\<rparr>) (HID_USB_DEVICE POLSIMER_VENDOR_ID POLSIMER_F74N_DEVICE_ID) =
   (- 5, hid_err (\<lparr>bus = BUS_USB, group = 0, vendor = POLSIMER_VENDOR_ID, product = POLSIMER_F74N_DEVICE_ID, dev_rdesc = replicate 64 0, dev_rsize = 64, rdesc = [], rsize = 0, status = 0, hw_started = False, dmesg = []\<rparr>) ''hw start failed'')"
  by (rule f74n_probe_start_fails) simp_all

lemma f74n_probe_succeeds_witness:
  "f74n_probe \<lparr>op_parse = (\<lambda>h. (0, h)), op_hw_start = (\<lambda>h c. (0, h))\<rparr>
     (\<lparr>bus = BUS_USB, group = 0, vendor = POLSIMER_VENDOR_ID, product = POLSIMER_F74N_DEVICE_ID, dev_rdesc = replicate 64 0, dev_rsize = 64, rdesc = [], rsize = 0, status = 0, hw_started = False, dmesg = []\<rparr>) (HID_USB_DEVICE POLSIMER_VENDOR_ID POLSIMER_F74N_DEVICE_ID) = (0, \<lparr>bus = BUS_USB, group = 0, vendor = POLSIMER_VENDOR_ID, product = POLSIMER_F74N_DEVICE_ID, dev_rdesc = replicate 64 0, dev_rsize = 64, rdesc = [], rsize = 0, status = 0, hw_started = False, dmesg = []\<rparr>)"
  by (rule f74n_probe_succeeds) simp_all

text \<open>
  Spec \<section>8, scenario 2: the 64-byte interface is accepted and the table installed,
  and the parse then fails.
\<close>

lemma f74n_accepted_interface_fails_witness:
  "fst (hid_device_probe hid_report_parse (\<lambda>h c. (0, h\<lparr>hw_started := True\<rparr>)) [] f74n_driver
     (\<lparr>bus = BUS_USB, group = 0, vendor = POLSIMER_VENDOR_ID, product = POLSIMER_F74N_DEVICE_ID, dev_rdesc = replicate 64 0, dev_rsize = 64, rdesc = [], rsize = 0, status = 0, hw_started = False, dmesg = []\<rparr>)) = - EINVAL \<and>
   \<not> hw_started (snd (hid_device_probe hid_report_parse (\<lambda>h c. (0, h\<lparr>hw_started := True\<rparr>)) []
     f74n_driver (\<lparr>bus = BUS_USB, group = 0, vendor = POLSIMER_VENDOR_ID, product = POLSIMER_F74N_DEVICE_ID, dev_rdesc = replicate 64 0, dev_rsize = 64, rdesc = [], rsize = 0, status = 0, hw_started = False, dmesg = []\<rparr>)))"
  using f74n_accepted_interface_fails
    [of "\<lparr>bus = BUS_USB, group = 0, vendor = POLSIMER_VENDOR_ID, product = POLSIMER_F74N_DEVICE_ID, dev_rdesc = replicate 64 0, dev_rsize = 64, rdesc = [], rsize = 0, status = 0, hw_started = False, dmesg = []\<rparr>" "\<lambda>h c. (0, h\<lparr>hw_started := True\<rparr>)"]
  by (simp add: hid_close_report_def)

end
