(* ===== verification/Hid_Sfp.thy ===== *)
theory Hid_Sfp
  imports Hid_Bus Hid_Module Probe_Lifecycle
begin

text \<open>
  \<open>src/hid-sfp.c\<close>: the quirk driver of the SimFeel Pedals.
  It has the same parts as \<open>src/hid-f74n.c\<close>: a replacement report descriptor
  \<open>sfp_rdesc_fixed\<close>, the \<open>report_fixup\<close> hook returning it, the \<open>probe\<close>
  callback that skips the interface whose raw descriptor is 23 bytes long, the match
  table and the \<open>struct hid_driver\<close>.
\<close>

section \<open>Identity and replacement descriptor\<close>

definition USB_VENDOR_ID_SIMFEEL_PEDALS :: u32 where "USB_VENDOR_ID_SIMFEEL_PEDALS = 0x10c4"
definition USB_DEVICE_ID_SIMFEEL_PEDALS :: u32 where "USB_DEVICE_ID_SIMFEEL_PEDALS = 0x8ccc"

text \<open>\<open>static __u8 sfp_rdesc_fixed[]\<close>, one line of the source per line.\<close>

definition sfp_rdesc_fixed :: rdesc_bytes where
  "sfp_rdesc_fixed =
     [0x05, 0x01,
      0x09, 0x04,
      0xA1, 0x01,
      0x09, 0x01,
      0xA1, 0x00,
      0x05, 0x01,
      0x09, 0x30,
      0x09, 0x31,
      0x09, 0x32,
      0x15, 0x00,
      0x26, 0xFF, 0x0F,
      0x95, 0x03,
      0x75, 0x10,
      0x81, 0x02,
      0x05, 0x09,
      0x19, 0x01,
      0x29, 0x01,
      0x15, 0x00,
      0x25, 0x01,
      0x75, 0x01,
      0x96, 0x80, 0x00,
      0x81, 0x02,
      0xC0,
      0xC0]"

section \<open>Callbacks\<close>

text \<open>
  \<open>sfp_report_fixup\<close>. The source ends its \<open>return\<close> with a stray \<open>w\<close>
  (line 55), which does not compile; the model is the function without it.
\<close>

definition sfp_report_fixup :: fixup_fn where
  "sfp_report_fixup hdev rdesc_in rsize_in =
     (let hdev' = hid_info hdev ''fixing up SimFeel Pedal report descriptor''
      in (sfp_rdesc_fixed, of_nat (length sfp_rdesc_fixed), hdev'))"

definition sfp_probe :: probe_fn where
  "sfp_probe ops hdev dev_id =
     (if dev_rsize hdev = 23 then (- ENODEV, hdev)
      else
        (let (ret, hdev1) = op_parse ops hdev
         in if ret \<noteq> 0 then (ret, hid_err hdev1 ''parse failed'')
            else
              (let (ret, hdev2) = op_hw_start ops hdev1 HID_CONNECT_DEFAULT
               in if ret \<noteq> 0 then (ret, hid_err hdev2 ''hw start failed'')
                  else (0, hdev2))))"

section \<open>Registration\<close>

text \<open>\<open>sfp_devices[]\<close>.\<close>

definition sfp_devices :: "hid_device_id list" where
  "sfp_devices = [HID_USB_DEVICE USB_VENDOR_ID_SIMFEEL_PEDALS USB_DEVICE_ID_SIMFEEL_PEDALS, hid_id_sentinel]"

text \<open>
  \<open>MODULE_DEVICE_TABLE(hid, sfp_devices)\<close>: the aliases modpost writes into the
  module for the table, one per entry but the terminating one.
\<close>

definition sfp_mod_aliases :: "string list" where
  "sfp_mod_aliases = map hid_modalias_entry (butlast sfp_devices)"

definition sfp_driver :: hid_driver where
  "sfp_driver =
     \<lparr>name = ''sfp'', id_table = sfp_devices,
      report_fixup = Some sfp_report_fixup, probe = Some sfp_probe, match = None\<rparr>"

text \<open>
  \<open>module_hid_driver(sfp_driver)\<close> expands to the module's init, which
  registers the driver on the bus and returns the result, and its exit, which
  unregisters it.
\<close>

definition sfp_driver_init :: "hid_env \<Rightarrow> hid_bus_state \<Rightarrow> int \<times> hid_bus_state" where
  "sfp_driver_init env st = hid_register_driver env st sfp_driver"

definition sfp_driver_exit :: "hid_env \<Rightarrow> hid_bus_state \<Rightarrow> hid_bus_state" where
  "sfp_driver_exit env st = hid_unregister_driver env st sfp_driver"

text \<open>\<open>MODULE_AUTHOR\<close>, \<open>MODULE_DESCRIPTION\<close>, \<open>MODULE_LICENSE\<close>: the \<open>.modinfo\<close> strings.\<close>

definition sfp_modinfo :: "string list" where
  "sfp_modinfo =
     [''author=Henrik Vestin <henrikvestin@gmail.com>'',
      ''description=HID driver for SimFeel Pedals'',
      ''license=GPL'']"

text \<open>The quirk entry of spec \<section>6 that this driver implements.\<close>

definition sfp_quirk :: quirk_entry where
  "sfp_quirk =
     \<lparr>q_vendor = USB_VENDOR_ID_SIMFEEL_PEDALS, q_product = USB_DEVICE_ID_SIMFEEL_PEDALS,
      q_fixed = sfp_rdesc_fixed, q_rejected_raw_size = Some 23,
      q_label = ''SimFeel Pedals''\<rparr>"

section \<open>The replacement descriptor\<close>

lemma sfp_rdesc_fixed_length: "length sfp_rdesc_fixed = 48"
  by (simp add: sfp_rdesc_fixed_def)

lemma sfp_rdesc_parse: "hid_report_parse sfp_rdesc_fixed = 0"
  by code_simp

text \<open>
  C14: the fixup hook ignores the raw descriptor and its size and returns the static
  table with its size, 48 bytes, where spec \<section>6 and the source comment say 31, logging one info line.
\<close>

lemma sfp_report_fixup_result:
  "sfp_report_fixup hdev rdesc_in rsize_in =
     (sfp_rdesc_fixed, 48, hid_info hdev ''fixing up SimFeel Pedal report descriptor'')"
  by (simp add: sfp_report_fixup_def sfp_rdesc_fixed_length)

text \<open>
  C18: the button field of the pedals' report: the Usage Minimum and Usage Maximum
  items (items 16 and 17, source lines 37 and 38) both read 1, and the Report Count
  item (item 21, source line 42, \<open>0x96, 0x80, 0x00\<close>) reads 128, where the source
  comment says \<open>Report Count (1)\<close>. The parser makes of it one field of 128
  values that all carry the one usage Button 1 (\<open>0x00090001\<close>), after a field
  with the axes X, Y and Z of the Generic Desktop page.
\<close>

lemma sfp_button_field:
  "map_option (\<lambda>its. map (\<lambda>it. (item_type it, item_tag it, item_udata it)) [its ! 15, its ! 16, its ! 20])
     (fetch_items sfp_rdesc_fixed) = Some [(2, 1, 1), (2, 2, 1), (1, 9, 128)] \<and>
   hid_report_usages sfp_rdesc_fixed =
     Some [((0, 0), [[0x00010030, 0x00010031, 0x00010032], replicate 128 0x00090001])]"
proof
  show "map_option (\<lambda>its. map (\<lambda>it. (item_type it, item_tag it, item_udata it)) [its ! 15, its ! 16, its ! 20])
     (fetch_items sfp_rdesc_fixed) = Some [(2, 1, 1), (2, 2, 1), (1, 9, 128)]"
    by code_simp
  show "hid_report_usages sfp_rdesc_fixed =
     Some [((0, 0), [[0x00010030, 0x00010031, 0x00010032], replicate 128 0x00090001])]"
    by code_simp
qed

text \<open>
  C21: the parsed descriptor declares one report, input report 0 of 176 bits
  (22 bytes): three 16-bit axes and the 128 one-bit button fields.
\<close>

lemma sfp_report_layout:
  "fst (hid_parse_items hid_parser_init sfp_rdesc_fixed) = 0 \<and>
   report_bits (snd (hid_parse_items hid_parser_init sfp_rdesc_fixed)) = [((0, 0), 176)]"
  by code_simp

section \<open>The probe callback\<close>

text \<open>
  C12: the probe callback refines the lifecycle machine of its quirk entry
  (rejected raw size 23).
\<close>

theorem sfp_probe_refines: "refines_lifecycle sfp_quirk sfp_probe"
  by (rule refines_lifecycleI)
    (simp add: sfp_probe_def probe_env_of_def should_process_def sfp_quirk_def split: prod.split)

section \<open>The driver on the bus\<close>

lemma sfp_devices_match:
  "hid_match_id hdev sfp_devices =
     (if bus hdev = BUS_USB \<and> vendor hdev = USB_VENDOR_ID_SIMFEEL_PEDALS \<and> product hdev = USB_DEVICE_ID_SIMFEEL_PEDALS
      then Some (HID_USB_DEVICE USB_VENDOR_ID_SIMFEEL_PEDALS USB_DEVICE_ID_SIMFEEL_PEDALS) else None)"
  unfolding sfp_devices_def
  by (rule hid_match_usb_table) (simp_all add: USB_VENDOR_ID_SIMFEEL_PEDALS_def USB_DEVICE_ID_SIMFEEL_PEDALS_def HID_ANY_ID_def)

lemma sfp_match:
  "bus hdev = BUS_USB \<Longrightarrow> vendor hdev = USB_VENDOR_ID_SIMFEEL_PEDALS \<Longrightarrow> product hdev = USB_DEVICE_ID_SIMFEEL_PEDALS \<Longrightarrow>
   hid_match_id hdev sfp_devices = Some (HID_USB_DEVICE USB_VENDOR_ID_SIMFEEL_PEDALS USB_DEVICE_ID_SIMFEEL_PEDALS)"
  by (simp add: sfp_devices_match)

text \<open>
  C13: under hid-core's parser an accepted interface of the device attaches: the
  hook installs the table, the parse succeeds and marks the report parsed, and
  the probe returns what \<open>hid_hw_start\<close> returns on the parsed device when
  that start succeeds.
\<close>

theorem sfp_accepted_interface_attaches:
  assumes "bus hdev = BUS_USB" "vendor hdev = USB_VENDOR_ID_SIMFEEL_PEDALS" "product hdev = USB_DEVICE_ID_SIMFEEL_PEDALS"
    "dev_rsize hdev \<noteq> 23" "status hdev AND HID_STAT_PARSED = 0"
    "hw_start ((hid_info hdev ''fixing up SimFeel Pedal report descriptor'')
        \<lparr>rdesc := sfp_rdesc_fixed, rsize := 48,
         status := status hdev OR HID_STAT_PARSED\<rparr>) HID_CONNECT_DEFAULT = (0, hdev')"
  shows "hid_device_probe hid_report_parse hw_start tables sfp_driver hdev = (0, hdev')"
proof -
  have "hid_open_report hid_report_parse (Some sfp_report_fixup) hdev =
     (0, (hid_info hdev ''fixing up SimFeel Pedal report descriptor'')
        \<lparr>rdesc := sfp_rdesc_fixed, rsize := 48, status := status hdev OR HID_STAT_PARSED\<rparr>)"
    using assms(5)
    by (simp add: hid_open_report_def sfp_report_fixup_def sfp_rdesc_fixed_length sfp_rdesc_parse)
  then have "sfp_probe (hid_host_ops hid_report_parse hw_start (Some sfp_report_fixup)) hdev
          (HID_USB_DEVICE USB_VENDOR_ID_SIMFEEL_PEDALS USB_DEVICE_ID_SIMFEEL_PEDALS) = (0, hdev')"
    using assms(4,6) by (simp add: sfp_probe_def hid_host_ops_def)
  then show ?thesis
    using sfp_match [OF assms(1-3)]
    by (simp add: hid_device_probe_def sfp_driver_def)
qed

text \<open>
  On the bus the driver binds only an interface whose raw descriptor is not
  23 bytes long, and leaves it running on the replacement table.
\<close>

lemma sfp_probe_contract: "probe_contract (\<lambda>h. hid_report_parse (rdesc h) = 0 \<and> dev_rsize h \<noteq> 23 \<and> rdesc h = sfp_rdesc_fixed) env drvs sfp_driver"
  by (rule probe_contractI)
    (auto simp: bus_probe_defs sfp_driver_def sfp_probe_def sfp_report_fixup_def
      sfp_rdesc_fixed_length sfp_rdesc_parse sfp_devices_match split: option.splits if_splits prod.splits)

text \<open>With a working transport, the bus probe attaches an accepted interface of the pedals.\<close>

lemma sfp_bus_probe_attaches:
  assumes "dev_closed hdev" "bus hdev = BUS_USB" "vendor hdev = USB_VENDOR_ID_SIMFEEL_PEDALS"
    "product hdev = USB_DEVICE_ID_SIMFEEL_PEDALS" "dev_rsize hdev \<noteq> 23"
    "\<forall>h. ll_start env h = 0" "\<forall>h m. ll_connect env h m = 0"
  shows "\<exists>h'. hid_bus_probe env drvs sfp_driver hdev = (0, h') \<and> dev_ident h' = dev_ident hdev \<and>
           rdesc h' = sfp_rdesc_fixed \<and> dev_running h'"
  using assms
  by (simp add: bus_probe_defs sfp_driver_def sfp_probe_def sfp_report_fixup_def
      sfp_rdesc_fixed_length sfp_rdesc_parse sfp_devices_match)

section \<open>Witnesses\<close>

text \<open>An accepted 64-byte interface of the pedals attaches.\<close>

lemma sfp_accepted_interface_attaches_witness:
  "hid_device_probe hid_report_parse (\<lambda>h c. (0, h\<lparr>hw_started := True\<rparr>)) [] sfp_driver
     (\<lparr>bus = BUS_USB, group = 0, vendor = USB_VENDOR_ID_SIMFEEL_PEDALS, product = USB_DEVICE_ID_SIMFEEL_PEDALS, dev_rdesc = replicate 64 0, dev_rsize = 64, rdesc = [], rsize = 0, status = 0, hw_started = False, dmesg = []\<rparr>) =
   (0, (hid_info (\<lparr>bus = BUS_USB, group = 0, vendor = USB_VENDOR_ID_SIMFEEL_PEDALS, product = USB_DEVICE_ID_SIMFEEL_PEDALS, dev_rdesc = replicate 64 0, dev_rsize = 64, rdesc = [], rsize = 0, status = 0, hw_started = False, dmesg = []\<rparr>) ''fixing up SimFeel Pedal report descriptor'')
         \<lparr>rdesc := sfp_rdesc_fixed, rsize := 48, status := 0 OR HID_STAT_PARSED,
          hw_started := True\<rparr>)"
  by (rule sfp_accepted_interface_attaches) (simp_all add: hid_const_defs)

end
