(* ===== verification/Hid_Vkbsim_Gsc.thy ===== *)
theory Hid_Vkbsim_Gsc
  imports Hid_Bus Hid_Module Probe_Lifecycle
begin

text \<open>
  \<open>src/hid-vkbsim-gsc.c\<close>: the quirk driver of the VKB-Sim Gladiator NXT EVO SC Premium Right. 
  It has the same parts as \<open>src/hid-f74n.c\<close>: a replacement report descriptor
  \<open>gnescpr_rdesc_fixed\<close>, the \<open>report_fixup\<close> hook returning it, the \<open>probe\<close>
  callback that skips the interface whose raw descriptor is 23 bytes long, the match
  table and the \<open>struct hid_driver\<close>.
\<close>

section \<open>Identity and replacement descriptor\<close>

definition VKBSIM_VENDOR_ID :: u32 where "VKBSIM_VENDOR_ID = 0x231d"
definition VKBSIM_GLADIATOR_ESC_PR_DEVICE_ID :: u32 where "VKBSIM_GLADIATOR_ESC_PR_DEVICE_ID = 0x0200"

text \<open>\<open>static __u8 gnescpr_rdesc_fixed[]\<close>, one line of the source per line.\<close>

definition gnescpr_rdesc_fixed :: rdesc_bytes where
  "gnescpr_rdesc_fixed =
     [0x05, 0x01,
      0x09, 0x04,
      0xA1, 0x01,
      0x05, 0x01,
      0x85, 0x01,
      0x05, 0x01,
      0x09, 0x30,
      0x75, 0x10,
      0x95, 0x01,
      0x15, 0x00,
      0x26, 0xFF, 0x0F,
      0x46, 0xFF, 0x0F,
      0x81, 0x02,
      0x05, 0x01,
      0x09, 0x31,
      0x75, 0x10,
      0x95, 0x01,
      0x15, 0x00,
      0x26, 0xFF, 0x0F,
      0x46, 0xFF, 0x0F,
      0x81, 0x02,
      0x05, 0x01,
      0x09, 0x35,
      0x75, 0x10,
      0x95, 0x01,
      0x15, 0x00,
      0x26, 0xFF, 0x07,
      0x46, 0xFF, 0x07,
      0x81, 0x02,
      0x05, 0x01,
      0x09, 0x32,
      0x75, 0x10,
      0x95, 0x01,
      0x15, 0x00,
      0x26, 0xFF, 0x07,
      0x46, 0xFF, 0x07,
      0x81, 0x02,
      0x05, 0x01,
      0x09, 0x33,
      0x75, 0x10,
      0x95, 0x01,
      0x15, 0x00,
      0x26, 0xFF, 0x03,
      0x46, 0xFF, 0x03,
      0x81, 0x02,
      0x05, 0x01,
      0x09, 0x34,
      0x75, 0x10,
      0x95, 0x01,
      0x15, 0x00,
      0x26, 0xFF, 0x03,
      0x46, 0xFF, 0x03,
      0x81, 0x02,
      0x05, 0x00,
      0x09, 0x00,
      0x75, 0x10,
      0x95, 0x01,
      0x15, 0x00,
      0x26, 0xFF, 0x07,
      0x46, 0xFF, 0x07,
      0x81, 0x02,
      0x05, 0x00,
      0x09, 0x00,
      0x75, 0x10,
      0x95, 0x01,
      0x15, 0x00,
      0x26, 0xFF, 0x07,
      0x46, 0xFF, 0x07,
      0x81, 0x02,
      0x05, 0x09,
      0x19, 0x01,
      0x2A, 0x80, 0x00,
      0x15, 0x00,
      0x25, 0x01,
      0x75, 0x01,
      0x96, 0x80, 0x00,
      0x81, 0x02,
      0x05, 0x01,
      0x09, 0x39,
      0x15, 0x00,
      0x26, 0x07, 0x00,
      0x35, 0x00,
      0x46, 0x68, 0x01,
      0x65, 0x14,
      0x55, 0x01,
      0x75, 0x04,
      0x95, 0x01,
      0x81, 0x42,
      0x09, 0x00,
      0x65, 0x00,
      0x55, 0x00,
      0x75, 0x04,
      0x95, 0x03,
      0x81, 0x01,
      0x05, 0x01,
      0x09, 0x00,
      0x75, 0x10,
      0x95, 0x01,
      0x81, 0x01,
      0x05, 0x01,
      0x09, 0x00,
      0x75, 0x10,
      0x95, 0x01,
      0x81, 0x01,
      0x05, 0x01,
      0x09, 0x00,
      0x75, 0x10,
      0x95, 0x01,
      0x81, 0x01,
      0x05, 0x01,
      0x09, 0x00,
      0x75, 0x08,
      0x95, 0x17,
      0x81, 0x01,
      0x85, 0x0B,
      0x05, 0x01,
      0x09, 0x00,
      0x75, 0x08,
      0x95, 0x3F,
      0x81, 0x01,
      0x85, 0x0C,
      0x05, 0x01,
      0x09, 0x00,
      0x75, 0x08,
      0x95, 0x3F,
      0x81, 0x01,
      0x85, 0x08,
      0x05, 0x01,
      0x09, 0x00,
      0x75, 0x08,
      0x95, 0x3F,
      0x81, 0x01,
      0x15, 0x00,
      0x26, 0xFF, 0x00,
      0x46, 0xFF, 0x00,
      0x85, 0x58,
      0x75, 0x08,
      0x95, 0x3F,
      0x09, 0x00,
      0x91, 0x02,
      0x85, 0x59,
      0x75, 0x08,
      0x95, 0x80,
      0x09, 0x00,
      0xB1, 0x02,
      0xC0]"

section \<open>Callbacks\<close>

definition gnescpr_report_fixup :: fixup_fn where
  "gnescpr_report_fixup hdev rdesc_in rsize_in =
     (let hdev' = hid_info hdev ''fixing up VKB-Sim Gladiator NXT EVO SC Premium Right report descriptor''
      in (gnescpr_rdesc_fixed, of_nat (length gnescpr_rdesc_fixed), hdev'))"

definition gnescpr_probe :: probe_fn where
  "gnescpr_probe ops hdev dev_id =
     (if dev_rsize hdev = 23 then (- ENODEV, hdev)
      else
        (let (ret, hdev1) = op_parse ops hdev
         in if ret \<noteq> 0 then (ret, hid_err hdev1 ''parse failed'')
            else
              (let (ret, hdev2) = op_hw_start ops hdev1 HID_CONNECT_DEFAULT
               in if ret \<noteq> 0 then (ret, hid_err hdev2 ''hw start failed'')
                  else (0, hdev2))))"

section \<open>Registration\<close>

text \<open>\<open>gnescpr_devices[]\<close>. The source names \<open>USB_VENDOR_ID_gnescpr\<close> and \<open>USB_DEVICE_ID_gnescpr\<close>, which no header defines; the table is modelled with the ids the file does define.\<close>

definition gnescpr_devices :: "hid_device_id list" where
  "gnescpr_devices = [HID_USB_DEVICE VKBSIM_VENDOR_ID VKBSIM_GLADIATOR_ESC_PR_DEVICE_ID, hid_id_sentinel]"

text \<open>
  \<open>MODULE_DEVICE_TABLE(hid, gnescpr_devices)\<close>: the aliases modpost writes into the
  module for the table, one per entry but the terminating one.
\<close>

definition gnescpr_mod_aliases :: "string list" where
  "gnescpr_mod_aliases = map hid_modalias_entry (butlast gnescpr_devices)"

definition gnescpr_driver :: hid_driver where
  "gnescpr_driver =
     \<lparr>name = ''gnescpr'', id_table = gnescpr_devices,
      report_fixup = Some gnescpr_report_fixup, probe = Some gnescpr_probe, match = None\<rparr>"

text \<open>
  \<open>module_hid_driver(gnescpr_driver)\<close> expands to the module's init, which
  registers the driver on the bus and returns the result, and its exit, which
  unregisters it.
\<close>

definition gnescpr_driver_init :: "hid_env \<Rightarrow> hid_bus_state \<Rightarrow> int \<times> hid_bus_state" where
  "gnescpr_driver_init env st = hid_register_driver env st gnescpr_driver"

definition gnescpr_driver_exit :: "hid_env \<Rightarrow> hid_bus_state \<Rightarrow> hid_bus_state" where
  "gnescpr_driver_exit env st = hid_unregister_driver env st gnescpr_driver"

text \<open>\<open>MODULE_AUTHOR\<close>, \<open>MODULE_DESCRIPTION\<close>, \<open>MODULE_LICENSE\<close>: the \<open>.modinfo\<close> strings.\<close>

definition gnescpr_modinfo :: "string list" where
  "gnescpr_modinfo =
     [''author=Henrik Vestin <henrikvestin@gmail.com>'',
      ''description=HID driver for VKB-Sim Gladiator EVO R'',
      ''license=GPL'']"

text \<open>The quirk entry of spec \<section>6 that this driver implements.\<close>

definition gnescpr_quirk :: quirk_entry where
  "gnescpr_quirk =
     \<lparr>q_vendor = VKBSIM_VENDOR_ID, q_product = VKBSIM_GLADIATOR_ESC_PR_DEVICE_ID,
      q_fixed = gnescpr_rdesc_fixed, q_rejected_raw_size = Some 23,
      q_label = ''VKB-Sim Gladiator NXT EVO SC Premium Right''\<rparr>"

section \<open>The replacement descriptor\<close>

lemma gnescpr_rdesc_fixed_length: "length gnescpr_rdesc_fixed = 313"
  by (simp add: gnescpr_rdesc_fixed_def)

lemma gnescpr_rdesc_parse: "hid_report_parse gnescpr_rdesc_fixed = 0"
  by code_simp

text \<open>
  C11: the fixup hook ignores the raw descriptor and its size and returns the static
  table with its size, the 313 bytes of spec \<section>6, logging one info line.
\<close>

lemma gnescpr_report_fixup_result:
  "gnescpr_report_fixup hdev rdesc_in rsize_in =
     (gnescpr_rdesc_fixed, 313, hid_info hdev ''fixing up VKB-Sim Gladiator NXT EVO SC Premium Right report descriptor'')"
  by (simp add: gnescpr_report_fixup_def gnescpr_rdesc_fixed_length)

text \<open>
  C19: the usages hid-core gives the fields of the parsed descriptor, each field
  with its values' usages (page in the upper, id in the lower 16 bits). Input
  report 1 carries the axes X, Y, Rz, Z, Rx and Ry (Generic Desktop
  \<open>0x30 .. 0x35\<close>), then two 16-bit data fields declared with Usage Page
  (Undefined) and Usage (Undefined) (source lines 75 to 90), which carry usage 0,
  then the buttons 1 to 128, the hat switch (\<open>0x39\<close>) and the constant fields;
  reports 11, 12, 8, 88 and 89 carry only the undefined usage of the Generic
  Desktop page.
\<close>

lemma gnescpr_report_usages:
  "hid_report_usages gnescpr_rdesc_fixed =
     Some [((0, 1), [[0x00010030], [0x00010031], [0x00010035], [0x00010032], [0x00010033], [0x00010034],
                     [0], [0], map (\<lambda>n. 0x00090000 + of_nat n) [1..<129], [0x00010039],
                     replicate 3 0x00010000, [0x00010000], [0x00010000], [0x00010000], replicate 23 0x00010000]),
           ((0, 11), [replicate 63 0x00010000]), ((0, 12), [replicate 63 0x00010000]),
           ((0, 8), [replicate 63 0x00010000]), ((1, 88), [replicate 63 0x00010000]),
           ((2, 89), [replicate 128 0x00010000])]"
  by code_simp

text \<open>
  C20: the reports the parsed descriptor declares: input reports 1, 11, 12 and 8
  and output report 88 of 504 bits (63 bytes, 64 with the report id byte), and
  feature report 89 of 1024 bits (128 bytes); no other report.
\<close>

lemma gnescpr_report_layout:
  "fst (hid_parse_items hid_parser_init gnescpr_rdesc_fixed) = 0 \<and>
   report_bits (snd (hid_parse_items hid_parser_init gnescpr_rdesc_fixed)) =
     [((0, 1), 504), ((0, 11), 504), ((0, 12), 504), ((0, 8), 504),
      ((1, 88), 504), ((2, 89), 1024)]"
  by code_simp

section \<open>The probe callback\<close>

text \<open>
  C9: the probe callback refines the lifecycle machine of its quirk entry
  (rejected raw size 23).
\<close>

theorem gnescpr_probe_refines: "refines_lifecycle gnescpr_quirk gnescpr_probe"
  by (rule refines_lifecycleI)
    (simp add: gnescpr_probe_def probe_env_of_def should_process_def gnescpr_quirk_def split: prod.split)

section \<open>The driver on the bus\<close>

lemma gnescpr_devices_match:
  "hid_match_id hdev gnescpr_devices =
     (if bus hdev = BUS_USB \<and> vendor hdev = VKBSIM_VENDOR_ID \<and> product hdev = VKBSIM_GLADIATOR_ESC_PR_DEVICE_ID
      then Some (HID_USB_DEVICE VKBSIM_VENDOR_ID VKBSIM_GLADIATOR_ESC_PR_DEVICE_ID) else None)"
  unfolding gnescpr_devices_def
  by (rule hid_match_usb_table) (simp_all add: VKBSIM_VENDOR_ID_def VKBSIM_GLADIATOR_ESC_PR_DEVICE_ID_def HID_ANY_ID_def)

lemma gnescpr_match:
  "bus hdev = BUS_USB \<Longrightarrow> vendor hdev = VKBSIM_VENDOR_ID \<Longrightarrow> product hdev = VKBSIM_GLADIATOR_ESC_PR_DEVICE_ID \<Longrightarrow>
   hid_match_id hdev gnescpr_devices = Some (HID_USB_DEVICE VKBSIM_VENDOR_ID VKBSIM_GLADIATOR_ESC_PR_DEVICE_ID)"
  by (simp add: gnescpr_devices_match)

text \<open>
  C10: under hid-core's parser an accepted interface of the device attaches: the
  hook installs the table, the parse succeeds and marks the report parsed, and
  the probe returns what \<open>hid_hw_start\<close> returns on the parsed device when
  that start succeeds.
\<close>

theorem gnescpr_accepted_interface_attaches:
  assumes "bus hdev = BUS_USB" "vendor hdev = VKBSIM_VENDOR_ID" "product hdev = VKBSIM_GLADIATOR_ESC_PR_DEVICE_ID"
    "dev_rsize hdev \<noteq> 23" "status hdev AND HID_STAT_PARSED = 0"
    "hw_start ((hid_info hdev ''fixing up VKB-Sim Gladiator NXT EVO SC Premium Right report descriptor'')
        \<lparr>rdesc := gnescpr_rdesc_fixed, rsize := 313,
         status := status hdev OR HID_STAT_PARSED\<rparr>) HID_CONNECT_DEFAULT = (0, hdev')"
  shows "hid_device_probe hid_report_parse hw_start tables gnescpr_driver hdev = (0, hdev')"
proof -
  have "hid_open_report hid_report_parse (Some gnescpr_report_fixup) hdev =
     (0, (hid_info hdev ''fixing up VKB-Sim Gladiator NXT EVO SC Premium Right report descriptor'')
        \<lparr>rdesc := gnescpr_rdesc_fixed, rsize := 313, status := status hdev OR HID_STAT_PARSED\<rparr>)"
    using assms(5)
    by (simp add: hid_open_report_def gnescpr_report_fixup_def gnescpr_rdesc_fixed_length gnescpr_rdesc_parse)
  then have "gnescpr_probe (hid_host_ops hid_report_parse hw_start (Some gnescpr_report_fixup)) hdev
          (HID_USB_DEVICE VKBSIM_VENDOR_ID VKBSIM_GLADIATOR_ESC_PR_DEVICE_ID) = (0, hdev')"
    using assms(4,6) by (simp add: gnescpr_probe_def hid_host_ops_def)
  then show ?thesis
    using gnescpr_match [OF assms(1-3)]
    by (simp add: hid_device_probe_def gnescpr_driver_def)
qed

text \<open>
  C22: on the bus, the 23-byte interface of the device is refused with
  \<open>-ENODEV\<close> whatever the parser and the transport would do: no fixup, parse or
  start runs, and the host only closes the (unopened) report.
\<close>

theorem gnescpr_short_interface_refused:
  assumes "bus hdev = BUS_USB" "vendor hdev = VKBSIM_VENDOR_ID"
    "product hdev = VKBSIM_GLADIATOR_ESC_PR_DEVICE_ID" "dev_rsize hdev = 23"
  shows "hid_device_probe engine hw_start tables gnescpr_driver hdev = (- ENODEV, hid_close_report hdev)"
  using gnescpr_match [OF assms(1-3)] assms(4)
  by (simp add: hid_device_probe_def gnescpr_driver_def gnescpr_probe_def ENODEV_def)

text \<open>
  On the bus the driver binds only an interface whose raw descriptor is not
  23 bytes long, and leaves it running on the replacement table.
\<close>

lemma gnescpr_probe_contract: "probe_contract (\<lambda>h. hid_report_parse (rdesc h) = 0 \<and> dev_rsize h \<noteq> 23 \<and> rdesc h = gnescpr_rdesc_fixed) env drvs gnescpr_driver"
  by (rule probe_contractI)
    (auto simp: bus_probe_defs gnescpr_driver_def gnescpr_probe_def gnescpr_report_fixup_def
      gnescpr_rdesc_fixed_length gnescpr_rdesc_parse gnescpr_devices_match split: option.splits if_splits prod.splits)

section \<open>Witnesses\<close>

text \<open>Spec \<section>8, scenario 3: the 23-byte interface of the Gladiator is refused.\<close>

lemma gnescpr_short_interface_refused_witness:
  "hid_device_probe hid_report_parse (\<lambda>h c. (0, h\<lparr>hw_started := True\<rparr>)) [] gnescpr_driver
     (\<lparr>bus = BUS_USB, group = 0, vendor = VKBSIM_VENDOR_ID, product = VKBSIM_GLADIATOR_ESC_PR_DEVICE_ID,
       dev_rdesc = replicate 23 0, dev_rsize = 23, rdesc = [], rsize = 0, status = 0,
       hw_started = False, dmesg = []\<rparr>) =
   (- ENODEV, hid_close_report
     (\<lparr>bus = BUS_USB, group = 0, vendor = VKBSIM_VENDOR_ID, product = VKBSIM_GLADIATOR_ESC_PR_DEVICE_ID,
       dev_rdesc = replicate 23 0, dev_rsize = 23, rdesc = [], rsize = 0, status = 0,
       hw_started = False, dmesg = []\<rparr>))"
  by (rule gnescpr_short_interface_refused) simp_all

text \<open>Spec \<section>8, scenario 3: the 100-byte interface is accepted and the 313-byte table installed.\<close>

lemma gnescpr_accepted_interface_attaches_witness:
  "hid_device_probe hid_report_parse (\<lambda>h c. (0, h\<lparr>hw_started := True\<rparr>)) [] gnescpr_driver
     (\<lparr>bus = BUS_USB, group = 0, vendor = VKBSIM_VENDOR_ID, product = VKBSIM_GLADIATOR_ESC_PR_DEVICE_ID, dev_rdesc = replicate 100 0, dev_rsize = 100, rdesc = [], rsize = 0, status = 0, hw_started = False, dmesg = []\<rparr>) =
   (0, (hid_info (\<lparr>bus = BUS_USB, group = 0, vendor = VKBSIM_VENDOR_ID, product = VKBSIM_GLADIATOR_ESC_PR_DEVICE_ID, dev_rdesc = replicate 100 0, dev_rsize = 100, rdesc = [], rsize = 0, status = 0, hw_started = False, dmesg = []\<rparr>) ''fixing up VKB-Sim Gladiator NXT EVO SC Premium Right report descriptor'')
         \<lparr>rdesc := gnescpr_rdesc_fixed, rsize := 313, status := 0 OR HID_STAT_PARSED,
          hw_started := True\<rparr>)"
  by (rule gnescpr_accepted_interface_attaches) (simp_all add: hid_const_defs)

end
