(* ===== verification/Hid_Reachable.thy ===== *)
theory Hid_Reachable
  imports Hid_F74n Hid_Sfp Hid_Vkbsim_Gsc
begin

text \<open>
  The three quirk modules and hid-generic on one HID bus, and the states the bus
  can reach. A state is reachable when it is obtained from the empty bus by
  loading a module that is not loaded (its \<open>module_init\<close>), unloading one that
  is (its \<open>module_exit\<close>), adding fresh devices (\<open>hid_add_device\<close>), destroying
  one (\<open>hid_destroy_device\<close>), and writing a device to a registered driver's sysfs
  \<open>bind\<close> or \<open>unbind\<close> file, in any order and with any behaviour of the
  transport at each step. The invariant \<open>bus_inv\<close> says that every device on a
  reachable bus is either unbound with its report closed and its hardware stopped,
  or bound to a registered driver whose table matches it, running, with a
  descriptor that parses, and: bound to hid-generic only when no other registered
  driver's table matches it, bound to a quirk driver only when that driver's
  disambiguation rule accepts the interface and its replacement table is
  installed. Every step keeps it (\<open>bus_reachable_inv\<close>, by rule induction), and
  every device on a reachable bus carries \<open>HID_STAT_ADDED\<close>
  (\<open>bus_reachable_added\<close>). The consequences are drawn in \<open>Hid_System\<close>.
\<close>

section \<open>The modules\<close>

datatype hid_module = HID_GENERIC | F74N | SFP | GNESCPR

fun module_driver :: "hid_module \<Rightarrow> hid_driver" where
  "module_driver HID_GENERIC = hid_generic"
| "module_driver F74N = f74n_driver"
| "module_driver SFP = sfp_driver"
| "module_driver GNESCPR = gnescpr_driver"

text \<open>
  \<open>module_init\<close> and \<open>module_exit\<close> of each module: the ones
  \<open>module_hid_driver\<close> generates in the three sources, and the same pair for
  hid-generic.
\<close>

fun module_init :: "hid_module \<Rightarrow> hid_env \<Rightarrow> hid_bus_state \<Rightarrow> int \<times> hid_bus_state" where
  "module_init HID_GENERIC env st = hid_register_driver env st hid_generic"
| "module_init F74N env st = f74n_driver_init env st"
| "module_init SFP env st = sfp_driver_init env st"
| "module_init GNESCPR env st = gnescpr_driver_init env st"

fun module_exit :: "hid_module \<Rightarrow> hid_env \<Rightarrow> hid_bus_state \<Rightarrow> hid_bus_state" where
  "module_exit HID_GENERIC env st = hid_unregister_driver env st hid_generic"
| "module_exit F74N env st = f74n_driver_exit env st"
| "module_exit SFP env st = sfp_driver_exit env st"
| "module_exit GNESCPR env st = gnescpr_driver_exit env st"

text \<open>
  The aliases \<open>MODULE_DEVICE_TABLE\<close> gives each module (hid-generic's from its
  match-all table in \<open>drivers/hid/hid-generic.c\<close>).
\<close>

fun module_aliases :: "hid_module \<Rightarrow> string list" where
  "module_aliases HID_GENERIC = map hid_modalias_entry (butlast (id_table hid_generic))"
| "module_aliases F74N = f74n_mod_aliases"
| "module_aliases SFP = sfp_mod_aliases"
| "module_aliases GNESCPR = gnescpr_mod_aliases"

text \<open>The drivers the three quirk modules register, with the quirk each implements.\<close>

definition quirk_drivers :: "(hid_driver \<times> quirk_entry) list" where
  "quirk_drivers = [(f74n_driver, f74n_quirk), (sfp_driver, sfp_quirk), (gnescpr_driver, gnescpr_quirk)]"

section \<open>Reachable states\<close>

inductive bus_reachable :: "hid_bus_state \<Rightarrow> bool" where
  boot: "bus_reachable \<lparr>bus_drivers = [], bus_devices = []\<rparr>"
| insmod: "bus_reachable st \<Longrightarrow> name (module_driver m) \<notin> set (map name (bus_drivers st)) \<Longrightarrow>
    bus_reachable (snd (module_init m env st))"
| rmmod: "bus_reachable st \<Longrightarrow> name (module_driver m) \<in> set (map name (bus_drivers st)) \<Longrightarrow>
    bus_reachable (module_exit m env st)"
| plug: "bus_reachable st \<Longrightarrow> dev_closed hdev \<Longrightarrow> status hdev AND HID_STAT_ADDED = 0 \<Longrightarrow>
    bus_reachable (snd (hid_add_device env st hdev))"
| unplug: "bus_reachable st \<Longrightarrow> bus_reachable (fst (hid_destroy_device st i))"
| bind: "bus_reachable st \<Longrightarrow> drv \<in> set (bus_drivers st) \<Longrightarrow>
    bus_reachable (snd (hid_sysfs_bind env st drv i))"
| unbind: "bus_reachable st \<Longrightarrow> bus_reachable (snd (hid_sysfs_unbind st drv i))"

section \<open>The invariant\<close>

text \<open>What a device bound to the driver named \<open>n\<close> on a bus with drivers \<open>drvs\<close> satisfies.\<close>

definition bound_promise :: "hid_driver list \<Rightarrow> string \<Rightarrow> hid_device \<Rightarrow> bool" where
  "bound_promise drvs n h =
     (hid_report_parse (rdesc h) = 0 \<and>
      (n = name hid_generic \<longrightarrow> hid_generic_match (driver_tables_of drvs) h) \<and>
      list_all (\<lambda>(d, q). name d = n \<longrightarrow> should_process q (dev_rsize h) \<and> rdesc h = q_fixed q)
        quirk_drivers)"

definition bus_inv :: "hid_bus_state \<Rightarrow> bool" where
  "bus_inv st =
     (distinct (map name (bus_drivers st)) \<and>
      (\<forall>d \<in> set (bus_drivers st). \<exists>m. d = module_driver m) \<and>
      (\<forall>s \<in> set (bus_devices st). slot_ok bound_promise (bus_drivers st) s))"

section \<open>Scenarios\<close>

text \<open>
  Fixtures for the end-to-end scenarios of spec \<section>8: the empty bus, a transport
  that reads, starts and connects every device, and a fresh USB interface with a
  given identity and raw descriptor.
\<close>

abbreviation empty_bus :: hid_bus_state where
  "empty_bus \<equiv> \<lparr>bus_drivers = [], bus_devices = []\<rparr>"

definition transport_ok :: hid_env where
  "transport_ok = \<lparr>ll_parse = \<lambda>h. 0, ll_start = \<lambda>h. 0, ll_connect = \<lambda>h m. 0\<rparr>"

definition usb_interface :: "u32 \<Rightarrow> u32 \<Rightarrow> rdesc_bytes \<Rightarrow> hid_device" where
  "usb_interface v p raw =
     \<lparr>bus = BUS_USB, group = 0, vendor = v, product = p, dev_rdesc = raw,
      dev_rsize = of_nat (length raw), rdesc = [], rsize = 0, status = 0, hw_started = False,
      dmesg = []\<rparr>"

section \<open>Driver names and contracts\<close>

lemma driver_names [simp]:
  "name hid_generic = ''hid-generic''" "name f74n_driver = ''f74n''" "name sfp_driver = ''sfp''"
  "name gnescpr_driver = ''gnescpr''"
  by (simp_all add: hid_generic_def f74n_driver_def sfp_driver_def gnescpr_driver_def)

lemma module_driver_name_inj: "name (module_driver m) = name (module_driver m') \<Longrightarrow> m = m'"
  by (cases m; cases m') simp_all

lemma module_contract:
  "probe_contract (bound_promise drvs (name (module_driver m))) env drvs (module_driver m)"
proof (cases m)
  case HID_GENERIC
  then show ?thesis
    by (auto intro: probe_contract_mono [OF hid_generic_contract] simp: bound_promise_def quirk_drivers_def)
next
  case F74N
  then show ?thesis by (auto intro: probe_contract_mono [OF f74n_probe_contract])
next
  case SFP
  then show ?thesis
    by (auto intro: probe_contract_mono [OF sfp_probe_contract]
        simp: bound_promise_def quirk_drivers_def should_process_def sfp_quirk_def)
next
  case GNESCPR
  then show ?thesis
    by (auto intro: probe_contract_mono [OF gnescpr_probe_contract]
        simp: bound_promise_def quirk_drivers_def should_process_def gnescpr_quirk_def)
qed

section \<open>Facts about the modules\<close>

lemma module_init_register: "module_init m env st = hid_register_driver env st (module_driver m)"
  by (cases m) (simp_all add: f74n_driver_init_def sfp_driver_init_def gnescpr_driver_init_def)

lemma module_exit_unregister: "module_exit m env st = hid_unregister_driver env st (module_driver m)"
  by (cases m) (simp_all add: f74n_driver_exit_def sfp_driver_exit_def gnescpr_driver_exit_def)

lemma generic_module: "d = module_driver m \<Longrightarrow> name d = ''hid-generic'' \<Longrightarrow> d = hid_generic"
  using module_driver_name_inj [of m HID_GENERIC] by auto

lemmas module_table_defs = hid_generic_def f74n_driver_def sfp_driver_def gnescpr_driver_def
  f74n_devices_def sfp_devices_def gnescpr_devices_def HID_USB_DEVICE_def HID_BUS_ANY_def BUS_USB_def

lemma module_table_shape:
  "id_table (module_driver m) = butlast (id_table (module_driver m)) @ [hid_id_sentinel] \<and>
   list_all (\<lambda>e. id_bus e \<noteq> 0) (butlast (id_table (module_driver m))) \<and>
   module_aliases m = map hid_modalias_entry (butlast (id_table (module_driver m)))"
  by (cases m) (simp_all add: module_table_defs f74n_mod_aliases_def sfp_mod_aliases_def
      gnescpr_mod_aliases_def)

lemma module_match: "match (module_driver m) \<noteq> None \<Longrightarrow> module_driver m = hid_generic"
  by (cases m) (simp_all add: f74n_driver_def sfp_driver_def gnescpr_driver_def)

section \<open>Every operation keeps the invariant\<close>

lemma attach_slot_ok:
  assumes "\<forall>d \<in> set drvs. \<exists>m. d = module_driver m" "set ds \<subseteq> set drvs" "dev_closed hdev"
    "device_attach_drivers env drvs ds hdev = (h, b)"
  shows "slot_ok bound_promise drvs (h, b)"
proof -
  have "\<forall>d \<in> set ds. probe_contract (bound_promise drvs (name d)) env drvs d"
  proof
    fix d assume "d \<in> set ds"
    then obtain m where "d = module_driver m" using assms(1,2) by blast
    then show "probe_contract (bound_promise drvs (name d)) env drvs d" using module_contract by simp
  qed
  then have "dev_ident h = dev_ident hdev \<and>
    (case b of None \<Rightarrow> dev_closed h
     | Some n \<Rightarrow> dev_running h \<and>
         (\<exists>d \<in> set ds. name d = n \<and> hid_match_id h (id_table d) \<noteq> None \<and> bound_promise drvs n h))"
    using device_attach_drivers_ok assms(3,4) by blast
  then show ?thesis using assms(2) by (auto simp: slot_ok_def list_ex_iff split: option.splits)
qed

lemma hid_generic_match_filter:
  "hid_generic_match (driver_tables_of ds) h \<Longrightarrow> hid_generic_match (driver_tables_of (filter P ds)) h"
  by (auto simp: hid_generic_match_def driver_tables_of_def list_ex_iff)

lemma slot_ok_added:
  "slot_ok bound_promise drvs (h, b) \<Longrightarrow>
   slot_ok bound_promise drvs (h\<lparr>status := status h OR HID_STAT_ADDED\<rparr>, b)"
  by (auto simp: slot_ok_def bound_promise_def dev_closed_def dev_running_def hid_generic_match_def
      split: option.splits)


text \<open>
  A slot bound before a new driver arrived stays consistent, except a device of
  hid-generic that the new driver's table matches: that one is stale and is reprobed.
\<close>

lemma slot_ok_extend:
  assumes mods: "\<forall>d \<in> set drvs'. \<exists>m. d = module_driver m" and sub: "set drvs \<subseteq> set drvs'"
    and ok: "slot_ok bound_promise drvs (h, Some n)"
  shows "slot_ok bound_promise drvs' (h, Some n) \<or>
    (\<exists>gd \<in> set drvs'. \<exists>m. match gd = Some m \<and> Some n = Some (name gd) \<and>
       \<not> m (driver_tables_of drvs') h \<and> status h AND HID_STAT_REPROBED_BIT = 0)"
proof -
  obtain d0 where d0: "d0 \<in> set drvs" "name d0 = n" "hid_match_id h (id_table d0) \<noteq> None"
    and run: "dev_running h" and bp: "bound_promise drvs n h"
    using ok by (auto simp: slot_ok_def list_ex_iff)
  show ?thesis
  proof (cases "n = ''hid-generic'' \<and> \<not> hid_generic_match (driver_tables_of drvs') h")
    case True
    obtain m0 where "d0 = module_driver m0" using mods d0(1) sub by blast
    then have "d0 = hid_generic" using generic_module d0(2) True by blast
    then have g: "hid_generic \<in> set drvs'" "name hid_generic = n" using d0 sub by auto
    have "match hid_generic = Some hid_generic_match" by (simp add: hid_generic_def)
    then show ?thesis
      using True g run by (intro disjI2 bexI [of _ hid_generic]) (auto simp: dev_running_def)
  next
    case False
    then have "bound_promise drvs' n h" using bp by (auto simp: bound_promise_def)
    then show ?thesis using d0 run sub by (auto simp: slot_ok_def list_ex_iff)
  qed
qed

lemma driver_attach_slot:
  assumes mods: "\<forall>d \<in> set drvs'. \<exists>m. d = module_driver m" and drv: "drv \<in> set drvs'"
    and sub: "set drvs \<subseteq> set drvs'" and ok: "slot_ok bound_promise drvs s"
    and s': "s' \<in> set (driver_attach env drvs' drv [s])"
  shows "slot_ok bound_promise drvs' s' \<or>
    (\<exists>gd \<in> set drvs'. \<exists>m. match gd = Some m \<and> snd s' = Some (name gd) \<and>
       \<not> m (driver_tables_of drvs') (fst s') \<and> status (fst s') AND HID_STAT_REPROBED_BIT = 0)"
proof -
  obtain h b where s: "s = (h, b)" by fastforce
  show ?thesis
  proof (cases "b = None \<and> hid_match_id h (id_table drv) \<noteq> None")
    case True
    obtain r h' where pr: "hid_bus_probe env drvs' drv h = (r, h')" by fastforce
    obtain m where m: "drv = module_driver m" using mods drv by blast
    have "dev_closed h" using ok s True by (simp add: slot_ok_def)
    then have c: "dev_ident h' = dev_ident h \<and>
        (if r = 0 then dev_running h' \<and> bound_promise drvs' (name drv) h' else dev_closed h')"
      using module_contract [of drvs' m env] pr m unfolding probe_contract_def by blast
    have "hid_match_id h' (id_table drv) \<noteq> None"
      using True c hid_match_id_ident [of h' h] by simp
    then have "slot_ok bound_promise drvs' (h', if r = 0 then Some (name drv) else None)"
      using c drv by (auto simp: slot_ok_def list_ex_iff)
    then show ?thesis using s' s True pr by (simp add: driver_attach_def)
  next
    case False
    then have s'': "s' = (h, b)" using s' s by (auto simp: driver_attach_def)
    show ?thesis
    proof (cases b)
      case None
      then show ?thesis using ok s s'' by (simp add: slot_ok_def)
    next
      case (Some n)
      then show ?thesis using slot_ok_extend [OF mods sub] ok s s'' by auto
    qed
  qed
qed


lemma bus_inv_register:
  assumes inv: "bus_inv st" and fresh: "name drv \<notin> set (map name (bus_drivers st))"
    and m: "drv = module_driver m"
  shows "bus_inv (snd (hid_register_driver env st drv))"
proof -
  let ?drvs = "bus_drivers st @ [drv]"
  let ?devs = "driver_attach env ?drvs drv (bus_devices st)"
  have mods: "\<forall>d \<in> set ?drvs. \<exists>m. d = module_driver m" using inv m by (auto simp: bus_inv_def)
  have "\<forall>s \<in> set ?devs. slot_ok bound_promise ?drvs s \<or>
     (\<exists>gd \<in> set ?drvs. \<exists>m. match gd = Some m \<and> snd s = Some (name gd) \<and>
        \<not> m (driver_tables_of ?drvs) (fst s) \<and> status (fst s) AND HID_STAT_REPROBED_BIT = 0)"
  proof
    fix s' assume "s' \<in> set ?devs"
    then obtain s where s: "s \<in> set (bus_devices st)" and s': "s' \<in> set (driver_attach env ?drvs drv [s])"
      by (auto simp: driver_attach_def)
    have ok: "slot_ok bound_promise (bus_drivers st) s" using inv s by (simp add: bus_inv_def)
    show "slot_ok bound_promise ?drvs s' \<or>
     (\<exists>gd \<in> set ?drvs. \<exists>m. match gd = Some m \<and> snd s' = Some (name gd) \<and>
        \<not> m (driver_tables_of ?drvs) (fst s') \<and> status (fst s') AND HID_STAT_REPROBED_BIT = 0)"
      by (rule driver_attach_slot [OF mods _ _ ok s']) auto
  qed
  moreover have "\<And>hdev h b. dev_closed hdev \<Longrightarrow> device_attach_drivers env ?drvs ?drvs hdev = (h, b) \<Longrightarrow>
      slot_ok bound_promise ?drvs (h, b)"
    using attach_slot_ok [OF mods] by blast
  ultimately have "\<forall>s \<in> set (hid_bus_reprobe env ?drvs ?drvs ?devs). slot_ok bound_promise ?drvs s"
    using hid_bus_reprobe_ok by blast
  then show ?thesis using inv fresh mods by (simp add: bus_inv_def hid_register_driver_def Let_def)
qed

lemma bus_inv_unregister:
  assumes inv: "bus_inv st"
  shows "bus_inv (hid_unregister_driver env st drv)"
proof -
  let ?drvs = "filter (\<lambda>d. name d \<noteq> name drv) (bus_drivers st)"
  let ?devs = "map (\<lambda>(hdev, b). if b = Some (name drv) then (hid_device_remove hdev, None) else (hdev, b))
                 (bus_devices st)"
  have mods: "\<forall>d \<in> set ?drvs. \<exists>m. d = module_driver m" using inv by (auto simp: bus_inv_def)
  have "\<forall>s \<in> set ?devs. slot_ok bound_promise ?drvs s"
  proof
    fix s' assume "s' \<in> set ?devs"
    then obtain h b where hb: "(h, b) \<in> set (bus_devices st)"
      and s': "s' = (if b = Some (name drv) then (hid_device_remove h, None) else (h, b))"
      by auto
    have ok: "slot_ok bound_promise (bus_drivers st) (h, b)" using inv hb by (simp add: bus_inv_def)
    show "slot_ok bound_promise ?drvs s'"
    proof (cases "b = Some (name drv)")
      case True
      then show ?thesis using s' hid_device_remove_closed by (simp add: slot_ok_def)
    next
      case False
      then show ?thesis
        using s' ok hid_generic_match_filter
        by (auto simp: slot_ok_def list_ex_iff bound_promise_def split: option.splits)
    qed
  qed
  moreover have "\<And>hdev h b. dev_closed hdev \<Longrightarrow> device_attach_drivers env ?drvs ?drvs hdev = (h, b) \<Longrightarrow>
      slot_ok bound_promise ?drvs (h, b)"
    using attach_slot_ok [OF mods] by blast
  moreover have "\<And>h. slot_ok bound_promise ?drvs (h, None) \<Longrightarrow> dev_closed h"
    by (simp add: slot_ok_def)
  ultimately have "\<forall>s \<in> set (fold (\<lambda>d. bus_rescan_devices env ?drvs) ?drvs ?devs). slot_ok bound_promise ?drvs s"
    using bus_rescan_devices_ok by blast
  then show ?thesis using inv mods by (simp add: bus_inv_def hid_unregister_driver_def Let_def distinct_map_filter)
qed

lemma bus_inv_add_device:
  assumes inv: "bus_inv st" and cl: "dev_closed hdev"
  shows "bus_inv (snd (hid_add_device env st hdev))"
proof -
  obtain h b where att: "device_attach_drivers env (bus_drivers st) (bus_drivers st) hdev = (h, b)"
    by fastforce
  have "slot_ok bound_promise (bus_drivers st) (h, b)"
    using attach_slot_ok [OF _ _ cl att] inv by (simp add: bus_inv_def)
  then have "slot_ok bound_promise (bus_drivers st) (h\<lparr>status := status h OR HID_STAT_ADDED\<rparr>, b)"
    by (rule slot_ok_added)
  then show ?thesis using inv att by (auto simp: bus_inv_def hid_add_device_def Let_def)
qed

lemma bus_inv_destroy: "bus_inv st \<Longrightarrow> bus_inv (fst (hid_destroy_device st i))"
  by (auto simp: bus_inv_def hid_destroy_device_def Let_def split: prod.split dest: in_set_takeD in_set_dropD)

lemma bus_inv_bind:
  assumes inv: "bus_inv st" and drv: "drv \<in> set (bus_drivers st)"
  shows "bus_inv (snd (hid_sysfs_bind env st drv i))"
proof (cases "i < length (bus_devices st) \<and> hid_match_id (fst (bus_devices st ! i)) (id_table drv) \<noteq> None \<and>
    snd (bus_devices st ! i) = None")
  case True
  obtain h where s: "bus_devices st ! i = (h, None)" using True by (metis prod.collapse)
  obtain m where m: "drv = module_driver m" using inv drv by (auto simp: bus_inv_def)
  obtain r h' where pr: "hid_bus_probe env (bus_drivers st) drv h = (r, h')" by fastforce
  have "dev_closed h" using inv True s nth_mem [of i "bus_devices st"] by (auto simp: bus_inv_def slot_ok_def)
  then have c: "dev_ident h' = dev_ident h \<and>
      (if r = 0 then dev_running h' \<and> bound_promise (bus_drivers st) (name drv) h' else dev_closed h')"
    using module_contract [of "bus_drivers st" m env] pr m unfolding probe_contract_def by blast
  have "hid_match_id h' (id_table drv) \<noteq> None"
    using True s c hid_match_id_ident [of h' h] by simp
  then have "slot_ok bound_promise (bus_drivers st) (h', if r = 0 then Some (name drv) else None)"
    using c drv by (auto simp: slot_ok_def list_ex_iff)
  then have "\<forall>s \<in> set ((bus_devices st)[i := (h', if r = 0 then Some (name drv) else None)]).
      slot_ok bound_promise (bus_drivers st) s"
    using inv by (intro list_update_all) (simp_all add: bus_inv_def)
  moreover have "snd (hid_sysfs_bind env st drv i) =
      st\<lparr>bus_devices := (bus_devices st)[i := (h', if r = 0 then Some (name drv) else None)]\<rparr>"
    using True s pr by (simp add: hid_sysfs_bind_def)
  ultimately show ?thesis using inv by (simp add: bus_inv_def)
next
  case False
  then show ?thesis using inv by (simp add: hid_sysfs_bind_unchanged)
qed

lemma bus_inv_unbind: "bus_inv st \<Longrightarrow> bus_inv (snd (hid_sysfs_unbind st drv i))"
proof -
  assume inv: "bus_inv st"
  have "slot_ok bound_promise (bus_drivers st) (hid_device_remove (fst (bus_devices st ! i)), None)"
    using hid_device_remove_closed by (simp add: slot_ok_def)
  then have "\<forall>s \<in> set ((bus_devices st)[i := (hid_device_remove (fst (bus_devices st ! i)), None)]).
      slot_ok bound_promise (bus_drivers st) s"
    using inv by (intro list_update_all) (simp_all add: bus_inv_def)
  then show ?thesis using inv by (simp add: bus_inv_def hid_sysfs_unbind_def)
qed

lemma bus_reachable_inv: "bus_reachable st \<Longrightarrow> bus_inv st"
proof (induction rule: bus_reachable.induct)
  case boot
  then show ?case by (simp add: bus_inv_def)
next
  case (insmod st m env)
  then show ?case by (simp add: module_init_register bus_inv_register)
next
  case (rmmod st m env)
  then show ?case by (simp add: module_exit_unregister bus_inv_unregister)
next
  case (plug st hdev env)
  then show ?case by (simp add: bus_inv_add_device)
next
  case (unplug st i)
  then show ?case by (simp add: bus_inv_destroy)
next
  case (bind st drv env i)
  then show ?case by (simp add: bus_inv_bind)
next
  case (unbind st drv i)
  then show ?case by (simp add: bus_inv_unbind)
qed


section \<open>Every device on the bus is added\<close>

text \<open>Every operation keeps the \<open>HID_STAT_ADDED\<close> bit of the devices it touches.\<close>

lemma bus_probe_added:
  "status (snd (hid_bus_probe env drvs (module_driver m) h)) AND HID_STAT_ADDED = status h AND HID_STAT_ADDED"
  by (cases m) (auto simp: bus_probe_defs hid_generic_def f74n_driver_def sfp_driver_def gnescpr_driver_def
      f74n_probe_def sfp_probe_def gnescpr_probe_def f74n_report_fixup_def sfp_report_fixup_def
      gnescpr_report_fixup_def hid_info_def hid_err_def split: option.splits prod.splits if_splits)

lemma bus_probe_added':
  "hid_bus_probe env drvs (module_driver m) h = (r, h') \<Longrightarrow>
   status h' AND HID_STAT_ADDED = status h AND HID_STAT_ADDED"
  using bus_probe_added [of env drvs m h] by simp

abbreviation slot_added :: "bus_slot \<Rightarrow> u32" where
  "slot_added s \<equiv> status (fst s) AND HID_STAT_ADDED"

lemma map_eq_nonzero:
  "map f xs = map f ys \<Longrightarrow> \<forall>s \<in> set ys. f s \<noteq> 0 \<Longrightarrow> \<forall>s \<in> set xs. f s \<noteq> (0 :: 'b :: zero)"
  by (metis imageE image_eqI list.set_map)

lemma attach_added:
  "\<forall>d \<in> set ds. \<exists>m. d = module_driver m \<Longrightarrow>
   status (fst (device_attach_drivers env drvs ds h)) AND HID_STAT_ADDED = status h AND HID_STAT_ADDED"
proof (induction ds arbitrary: h)
  case (Cons d ds)
  obtain m where m: "d = module_driver m" using Cons.prems by auto
  show ?case
    using Cons m by (auto dest: bus_probe_added' split: prod.split)
qed simp

lemma driver_attach_added:
  "drv = module_driver m \<Longrightarrow> map slot_added (driver_attach env drvs drv devs) = map slot_added devs"
  by (auto simp: driver_attach_def dest: bus_probe_added' split: prod.split)

lemma reprobe_added:
  "\<forall>d \<in> set drvs. \<exists>m. d = module_driver m \<Longrightarrow>
   map slot_added (hid_bus_reprobe env drvs gds devs) = map slot_added devs"
proof (induction gds arbitrary: devs)
  case (Cons gd gds)
  have "map slot_added (case match gd of None \<Rightarrow> devs
      | Some m \<Rightarrow> map (\<lambda>(hdev, b).
          if b = Some (name gd) \<and> \<not> m (driver_tables_of drvs) hdev \<and> status hdev AND HID_STAT_REPROBED_BIT = 0
          then device_attach_drivers env drvs drvs (hid_device_remove (hdev\<lparr>status := status hdev OR HID_STAT_REPROBED_BIT\<rparr>))
          else (hdev, b)) devs) = map slot_added devs"
    using attach_added [OF Cons.prems] by (auto simp: hid_device_remove_def split: option.split)
  then show ?case using Cons by simp
qed simp

lemma rescan_added:
  "\<forall>d \<in> set drvs. \<exists>m. d = module_driver m \<Longrightarrow>
   map slot_added (fold (\<lambda>d. bus_rescan_devices env drvs) ds devs) = map slot_added devs"
proof (induction ds arbitrary: devs)
  case (Cons d ds)
  have "map slot_added (bus_rescan_devices env drvs devs) = map slot_added devs"
    using attach_added [OF Cons.prems] by (auto simp: bus_rescan_devices_def)
  then show ?case using Cons by simp
qed simp

lemma bus_reachable_added: "bus_reachable st \<Longrightarrow> \<forall>s \<in> set (bus_devices st). slot_added s \<noteq> 0"
proof (induction rule: bus_reachable.induct)
  case boot
  then show ?case by simp
next
  case (insmod st m env)
  let ?drvs = "bus_drivers st @ [module_driver m]"
  have mods: "\<forall>d \<in> set ?drvs. \<exists>m. d = module_driver m"
    using bus_reachable_inv [OF insmod.hyps(1)] by (auto simp: bus_inv_def)
  have "map slot_added (hid_bus_reprobe env ?drvs ?drvs (driver_attach env ?drvs (module_driver m) (bus_devices st))) =
      map slot_added (bus_devices st)"
    by (simp only: reprobe_added [OF mods] driver_attach_added [OF refl])
  from map_eq_nonzero [OF this insmod.IH] show ?case
    using insmod by (simp add: module_init_register hid_register_driver_def Let_def)
next
  case (rmmod st m env)
  let ?drvs = "filter (\<lambda>d. name d \<noteq> name (module_driver m)) (bus_drivers st)"
  let ?devs = "map (\<lambda>(hdev, b). if b = Some (name (module_driver m)) then (hid_device_remove hdev, None)
                 else (hdev, b)) (bus_devices st)"
  have mods: "\<forall>d \<in> set ?drvs. \<exists>m. d = module_driver m"
    using bus_reachable_inv [OF rmmod.hyps(1)] by (auto simp: bus_inv_def)
  have "map slot_added ?devs = map slot_added (bus_devices st)"
    by (auto simp: hid_device_remove_def)
  then have "map slot_added (fold (\<lambda>d. bus_rescan_devices env ?drvs) ?drvs ?devs) = map slot_added (bus_devices st)"
    by (simp only: rescan_added [OF mods])
  from map_eq_nonzero [OF this rmmod.IH] show ?case
    by (simp add: module_exit_unregister hid_unregister_driver_def Let_def)
next
  case (plug st hdev env)
  then show ?case by (auto simp: hid_add_device_def Let_def HID_STAT_ADDED_def split: prod.split)
next
  case (unplug st i)
  then show ?case
    by (auto simp: hid_destroy_device_def Let_def split: prod.split dest: in_set_takeD in_set_dropD)
next
  case (bind st drv env i)
  obtain m where m: "drv = module_driver m"
    using bus_reachable_inv [OF bind.hyps(1)] bind.hyps(2) by (auto simp: bus_inv_def)
  show ?case
  proof (cases "i < length (bus_devices st) \<and> hid_match_id (fst (bus_devices st ! i)) (id_table drv) \<noteq> None \<and>
      snd (bus_devices st ! i) = None")
    case True
    obtain h where s: "bus_devices st ! i = (h, None)" using True by (metis prod.collapse)
    obtain r h' where pr: "hid_bus_probe env (bus_drivers st) drv h = (r, h')" by fastforce
    have "(h, None) \<in> set (bus_devices st)" using True s by (metis nth_mem)
    then have "status h AND HID_STAT_ADDED \<noteq> 0" using bind.IH by fastforce
    moreover have "status h' AND HID_STAT_ADDED = status h AND HID_STAT_ADDED"
      using pr m by (simp add: bus_probe_added')
    ultimately have n: "slot_added (h', if r = 0 then Some (name drv) else None) \<noteq> 0" by simp
    have "snd (hid_sysfs_bind env st drv i) =
        st\<lparr>bus_devices := (bus_devices st)[i := (h', if r = 0 then Some (name drv) else None)]\<rparr>"
      using True s pr by (simp add: hid_sysfs_bind_def)
    then show ?thesis using list_update_all [OF bind.IH n] by simp
  next
    case False
    then show ?thesis using bind.IH by (simp add: hid_sysfs_bind_unchanged)
  qed
next
  case (unbind st drv i)
  show ?case
  proof (cases "i < length (bus_devices st) \<and> snd (bus_devices st ! i) = Some (name drv)")
    case True
    then have "bus_devices st ! i \<in> set (bus_devices st)" by simp
    then have "slot_added (hid_device_remove (fst (bus_devices st ! i)), None) \<noteq> 0"
      using unbind.IH by (auto simp: hid_device_remove_def)
    from list_update_all [OF unbind.IH this] show ?thesis using True by (simp add: hid_sysfs_unbind_def)
  next
    case False
    then have "snd (hid_sysfs_unbind st drv i) = st"
      unfolding hid_sysfs_unbind_def by (simp only: if_not_P [OF False] if_False snd_conv)
    then show ?thesis using unbind.IH by simp
  qed
qed

end
