(* ===== verification/Hid_System.thy ===== *)
theory Hid_System
  imports Hid_Reachable
begin

text \<open>
  What the reachable states of \<open>Hid_Reachable\<close> promise: every bound device is
  consistent with the driver it is bound to, the wheel is never driven once the
  f74n module is loaded, the pedals reach the SimFeel driver whether it is loaded
  before or after they are plugged, unloading it hands them to hid-generic, and
  every module's table is well formed. Library facts about the host sit beside
  them: a module cannot be loaded twice, autoloading by modalias agrees with
  binding, destroying a device releases its driver.
\<close>


text \<open>An interface served by the SimFeel driver: bound to it, running on its table.\<close>

definition sfp_served :: "bus_slot \<Rightarrow> bool" where
  "sfp_served s = (snd s = Some ''sfp'' \<and> rdesc (fst s) = sfp_rdesc_fixed \<and> dev_running (fst s))"

section \<open>Consequences\<close>

lemma bound_slot:
  assumes "bus_reachable st" "(h, Some n) \<in> set (bus_devices st)"
  obtains m where "module_driver m \<in> set (bus_drivers st)" "name (module_driver m) = n"
    "hid_match_id h (id_table (module_driver m)) \<noteq> None" "dev_running h"
    "bound_promise (bus_drivers st) n h"
proof -
  have "slot_ok bound_promise (bus_drivers st) (h, Some n)"
    using bus_reachable_inv [OF assms(1)] assms(2) by (simp add: bus_inv_def)
  moreover have "\<forall>d \<in> set (bus_drivers st). \<exists>m. d = module_driver m"
    using bus_reachable_inv [OF assms(1)] by (simp add: bus_inv_def)
  ultimately show ?thesis using that by (auto simp: slot_ok_def list_ex_iff)
qed

lemma generic_declines:
  "d \<in> set drvs \<Longrightarrow> name d \<noteq> ''hid-generic'' \<Longrightarrow> hid_match_id h (id_table d) \<noteq> None \<Longrightarrow>
   \<not> hid_generic_match (driver_tables_of drvs) h"
  by (auto simp: hid_generic_match_def driver_tables_of_def list_ex_iff)

lemmas module_tables = f74n_driver_def sfp_driver_def gnescpr_driver_def f74n_devices_match
  sfp_devices_match gnescpr_devices_match

lemmas module_ids = POLSIMER_VENDOR_ID_def POLSIMER_F74N_DEVICE_ID_def
  USB_VENDOR_ID_SIMFEEL_PEDALS_def USB_DEVICE_ID_SIMFEEL_PEDALS_def VKBSIM_VENDOR_ID_def
  VKBSIM_GLADIATOR_ESC_PR_DEVICE_ID_def

text \<open>
  C24: once the F74N module is loaded, no interface of the wheel is bound to any
  driver on any reachable bus: hid-generic declines it because the F74N table
  matches it, and the F74N driver fails on it because its table does not parse.
  Interfaces hid-generic had bound are released when the module loads, and a
  write to a sysfs \<open>bind\<close> file does not bring them back.
\<close>

theorem f74n_module_disables_wheel:
  assumes "bus_reachable st" "f74n_driver \<in> set (bus_drivers st)" "(h, b) \<in> set (bus_devices st)"
    "bus h = BUS_USB" "vendor h = POLSIMER_VENDOR_ID" "product h = POLSIMER_F74N_DEVICE_ID"
  shows "b = None \<and> dev_closed h"
proof (cases b)
  case None
  then show ?thesis
    using bus_reachable_inv [OF assms(1)] assms(3) by (auto simp: bus_inv_def slot_ok_def)
next
  case (Some n)
  then obtain m where m: "module_driver m \<in> set (bus_drivers st)" "name (module_driver m) = n"
    "hid_match_id h (id_table (module_driver m)) \<noteq> None" "bound_promise (bus_drivers st) n h"
    using bound_slot [OF assms(1)] assms(3) by metis
  have f: "hid_match_id h (id_table f74n_driver) \<noteq> None" using assms(4-6) by (simp add: module_tables)
  have g: "\<not> hid_generic_match (driver_tables_of (bus_drivers st)) h"
    by (rule generic_declines [OF assms(2) _ f]) simp
  show ?thesis
  proof (cases m)
    case HID_GENERIC
    then show ?thesis
      using m g by (simp add: bound_promise_def)
  next
    case F74N
    have p: "hid_report_parse (rdesc h) = 0" using m by (simp add: bound_promise_def)
    have "rdesc h = f74n_rdesc_fixed"
      using m F74N by (simp add: bound_promise_def quirk_drivers_def f74n_quirk_def)
    then show ?thesis using p f74n_rdesc_parse by (simp add: errno_defs)
  qed (use m assms(5,6) in \<open>simp_all add: module_tables module_ids\<close>)
qed

text \<open>
  C25: once the SimFeel module is loaded, every bound interface of the pedals is
  bound to the SimFeel driver, runs on the 48-byte replacement table, and is not
  the 23-byte interface: that one is left unbound, and hid-generic does not take it.
\<close>

theorem sfp_module_binds_pedals:
  assumes "bus_reachable st" "sfp_driver \<in> set (bus_drivers st)" "(h, Some n) \<in> set (bus_devices st)"
    "bus h = BUS_USB" "vendor h = USB_VENDOR_ID_SIMFEEL_PEDALS" "product h = USB_DEVICE_ID_SIMFEEL_PEDALS"
  shows "n = ''sfp'' \<and> dev_rsize h \<noteq> 23 \<and> rdesc h = sfp_rdesc_fixed \<and> dev_running h"
proof -
  obtain m where m: "module_driver m \<in> set (bus_drivers st)" "name (module_driver m) = n"
    "hid_match_id h (id_table (module_driver m)) \<noteq> None" "dev_running h"
    "bound_promise (bus_drivers st) n h"
    using bound_slot [OF assms(1,3)] by metis
  have f: "hid_match_id h (id_table sfp_driver) \<noteq> None" using assms(4-6) by (simp add: module_tables)
  have g: "\<not> hid_generic_match (driver_tables_of (bus_drivers st)) h"
    by (rule generic_declines [OF assms(2) _ f]) simp
  show ?thesis
  proof (cases m)
    case HID_GENERIC
    then show ?thesis
      using m g by (simp add: bound_promise_def)
  next
    case SFP
    then show ?thesis
      using m by (simp add: bound_promise_def quirk_drivers_def should_process_def sfp_quirk_def)
  qed (use m assms(5,6) in \<open>simp_all add: module_tables module_ids\<close>)
qed

section \<open>Attaching the pedals\<close>

text \<open>
  With the SimFeel driver registered and a working transport, an accepted interface
  of the pedals ends bound to it: hid-generic, if registered earlier, declines it,
  the other quirk drivers' tables do not match it.
\<close>

lemma device_attach_sfp:
  assumes mods: "\<forall>d \<in> set drvs. \<exists>m. d = module_driver m" and sfp: "sfp_driver \<in> set drvs"
    and ds: "sfp_driver \<in> set ds" "set ds \<subseteq> set drvs"
    and cl: "dev_closed hdev" and ident: "bus hdev = BUS_USB" "vendor hdev = USB_VENDOR_ID_SIMFEEL_PEDALS"
      "product hdev = USB_DEVICE_ID_SIMFEEL_PEDALS" and rs: "dev_rsize hdev \<noteq> 23"
    and env: "\<forall>h. ll_start env h = 0" "\<forall>h m. ll_connect env h m = 0"
  shows "\<exists>h'. device_attach_drivers env drvs ds hdev = (h', Some ''sfp'') \<and>
           rdesc h' = sfp_rdesc_fixed \<and> dev_running h'"
  using ds cl ident rs
proof (induction ds arbitrary: hdev)
  case Nil
  then show ?case by simp
next
  case (Cons d ds)
  obtain m where m: "d = module_driver m" using mods Cons.prems(2) by auto
  have f: "hid_match_id hdev (id_table sfp_driver) \<noteq> None" using Cons.prems(4-6) by (simp add: module_tables)
  show ?case
  proof (cases m)
    case HID_GENERIC
    have g: "\<not> hid_generic_match (driver_tables_of drvs) hdev"
      by (rule generic_declines [OF sfp _ f]) simp
    let ?h = "hdev\<lparr>status := status hdev AND NOT HID_STAT_REPROBED_BIT\<rparr>"
    have "sfp_driver \<in> set ds" using Cons.prems(1) m HID_GENERIC by (auto simp: sfp_driver_def hid_generic_def)
    moreover have "dev_closed ?h" using Cons.prems(3) by (simp add: dev_closed_def)
    ultimately obtain h' where "device_attach_drivers env drvs ds ?h = (h', Some ''sfp'') \<and>
           rdesc h' = sfp_rdesc_fixed \<and> dev_running h'"
      using Cons.IH [of ?h] Cons.prems(2,4-7) by auto
    then show ?thesis
      using m HID_GENERIC hid_generic_declines [OF g, of env] generic_table_matches [of hdev]
      by (auto simp: errno_defs)
  next
    case SFP
    obtain h' where "hid_bus_probe env drvs sfp_driver hdev = (0, h') \<and> rdesc h' = sfp_rdesc_fixed \<and> dev_running h'"
      using sfp_bus_probe_attaches [OF Cons.prems(3-7) env] by blast
    then show ?thesis using m SFP by (simp add: f)
  next
    case F74N
    then have "sfp_driver \<in> set ds" "hid_match_id hdev (id_table d) = None"
      using Cons.prems m by (auto simp: module_tables module_ids)
    then show ?thesis using Cons.IH Cons.prems by simp
  next
    case GNESCPR
    then have "sfp_driver \<in> set ds" "hid_match_id hdev (id_table d) = None"
      using Cons.prems m by (auto simp: module_tables module_ids)
    then show ?thesis using Cons.IH Cons.prems by simp
  qed
qed

section \<open>The bus as a whole\<close>

text \<open>
  C23: on every reachable bus (module loads and unloads, device additions and
  removals, sysfs bind and unbind, in any order) each device is either unbound with its report closed
  and its hardware stopped, or bound to a registered driver whose table matches
  it, running on a descriptor that parses; a device bound to hid-generic is matched
  by no other registered driver, and one bound to a quirk driver passed its
  disambiguation rule and runs on its replacement table.
\<close>

theorem bus_devices_consistent:
  assumes "bus_reachable st" "(h, b) \<in> set (bus_devices st)"
  shows "(b = None \<and> dev_closed h) \<or>
    (\<exists>d \<in> set (bus_drivers st). b = Some (name d) \<and> hid_match_id h (id_table d) \<noteq> None \<and>
       dev_running h \<and> hid_report_parse (rdesc h) = 0 \<and>
       (d = hid_generic \<longrightarrow> (\<forall>d' \<in> set (bus_drivers st). d' \<noteq> hid_generic \<longrightarrow> hid_match_id h (id_table d') = None)) \<and>
       (\<forall>(d', q) \<in> set quirk_drivers. d' = d \<longrightarrow> should_process q (dev_rsize h) \<and> rdesc h = q_fixed q))"
proof (cases b)
  case None
  then show ?thesis
    using bus_reachable_inv [OF assms(1)] assms(2) by (auto simp: bus_inv_def slot_ok_def)
next
  case (Some n)
  then obtain m where m: "module_driver m \<in> set (bus_drivers st)" "name (module_driver m) = n"
    "hid_match_id h (id_table (module_driver m)) \<noteq> None" "dev_running h"
    "bound_promise (bus_drivers st) n h"
    using bound_slot [OF assms(1)] assms(2) by metis
  have mods: "\<forall>d \<in> set (bus_drivers st). \<exists>m. d = module_driver m"
    using bus_reachable_inv [OF assms(1)] by (simp add: bus_inv_def)
  have "module_driver m = hid_generic \<Longrightarrow> d' \<in> set (bus_drivers st) \<Longrightarrow> d' \<noteq> hid_generic \<Longrightarrow>
        hid_match_id h (id_table d') = None" for d'
  proof -
    assume g: "module_driver m = hid_generic" and d': "d' \<in> set (bus_drivers st)" "d' \<noteq> hid_generic"
    obtain m' where "d' = module_driver m'" using mods d'(1) by blast
    then have "name d' \<noteq> ''hid-generic''" using d'(2) generic_module by blast
    then show ?thesis using m(2,5) g d'(1) by (auto simp: bound_promise_def hid_generic_match_def
        driver_tables_of_def list_ex_iff)
  qed
  moreover have "\<forall>(d', q) \<in> set quirk_drivers. d' = module_driver m \<longrightarrow>
      should_process q (dev_rsize h) \<and> rdesc h = q_fixed q"
    using m(2,5) by (auto simp: bound_promise_def list_all_iff)
  ultimately show ?thesis using m Some by (auto simp: bound_promise_def intro!: bexI [of _ "module_driver m"])
qed


text \<open>
  C26: with the SimFeel module loaded on a reachable bus and a transport that
  works, adding an accepted interface of the pedals binds it to the SimFeel driver,
  running on the 48-byte table; the device joins the bus at its end.
\<close>

theorem sfp_pedals_attach:
  assumes "bus_reachable st" "sfp_driver \<in> set (bus_drivers st)" "dev_closed hdev"
    "status hdev AND HID_STAT_ADDED = 0" "bus hdev = BUS_USB" "vendor hdev = USB_VENDOR_ID_SIMFEEL_PEDALS"
    "product hdev = USB_DEVICE_ID_SIMFEEL_PEDALS" "dev_rsize hdev \<noteq> 23" "ll_parse env hdev = 0"
    "\<forall>h. ll_start env h = 0" "\<forall>h m. ll_connect env h m = 0"
  shows "\<exists>h'. hid_add_device env st hdev = (0, st\<lparr>bus_devices := bus_devices st @ [(h', Some ''sfp'')]\<rparr>) \<and>
           rdesc h' = sfp_rdesc_fixed \<and> dev_running h'"
proof -
  have mods: "\<forall>d \<in> set (bus_drivers st). \<exists>m. d = module_driver m"
    using bus_reachable_inv [OF assms(1)] by (simp add: bus_inv_def)
  obtain h' where "device_attach_drivers env (bus_drivers st) (bus_drivers st) hdev = (h', Some ''sfp'') \<and>
      rdesc h' = sfp_rdesc_fixed \<and> dev_running h'"
    using device_attach_sfp [OF mods assms(2) assms(2) subset_refl assms(3,5-8,10,11)] by blast
  then show ?thesis
    using assms(4,9) by (intro exI [of _ "h'\<lparr>status := status h' OR HID_STAT_ADDED\<rparr>"])
      (simp add: hid_add_device_def dev_running_def)
qed

text \<open>
  With the SimFeel module gone, no registered table but hid-generic's matches the
  pedals, so hid-generic accepts them.
\<close>

lemma generic_accepts_pedals:
  assumes mods: "\<forall>d \<in> set drvs. \<exists>m. d = module_driver m" and nsfp: "sfp_driver \<notin> set drvs"
    and ident: "bus h = BUS_USB" "vendor h = USB_VENDOR_ID_SIMFEEL_PEDALS" "product h = USB_DEVICE_ID_SIMFEEL_PEDALS"
  shows "hid_generic_match (driver_tables_of drvs) h"
proof -
  have "\<not> (name d \<noteq> ''hid-generic'' \<and> hid_match_id h (id_table d) \<noteq> None)" if d: "d \<in> set drvs" for d
  proof -
    obtain m where m: "d = module_driver m" using mods d by blast
    show ?thesis using d m nsfp ident by (cases m) (auto simp: module_tables module_ids hid_generic_def)
  qed
  then show ?thesis by (auto simp: hid_generic_match_def driver_tables_of_def list_ex_iff)
qed

text \<open>
  Attaching a closed pedal interface over the module drivers, without the SimFeel
  driver and with hid-generic among the drivers tried, binds it to hid-generic on
  its raw descriptor, when that parses and the transport works.
\<close>

lemma device_attach_generic:
  assumes mods: "\<forall>d \<in> set drvs. \<exists>m. d = module_driver m" and nsfp: "sfp_driver \<notin> set drvs"
    and ds: "hid_generic \<in> set ds" "set ds \<subseteq> set drvs"
    and cl: "dev_closed hdev" and ident: "bus hdev = BUS_USB" "vendor hdev = USB_VENDOR_ID_SIMFEEL_PEDALS"
      "product hdev = USB_DEVICE_ID_SIMFEEL_PEDALS"
    and ps: "hid_report_parse (take (unat (dev_rsize hdev)) (dev_rdesc hdev)) = 0"
    and env: "\<forall>h. ll_start env h = 0" "\<forall>h m. ll_connect env h m = 0"
  shows "\<exists>h'. device_attach_drivers env drvs ds hdev = (h', Some ''hid-generic'') \<and> dev_ident h' = dev_ident hdev \<and>
           rdesc h' = take (unat (dev_rsize hdev)) (dev_rdesc hdev) \<and> dev_running h'"
  using ds
proof (induction ds)
  case Nil
  then show ?case by simp
next
  case (Cons d ds)
  obtain m where m: "d = module_driver m" using mods Cons.prems(2) by auto
  show ?case
  proof (cases m)
    case HID_GENERIC
    have "hid_generic_match (driver_tables_of drvs) hdev" by (rule generic_accepts_pedals [OF mods nsfp ident])
    then obtain h' where "hid_bus_probe env drvs hid_generic hdev = (0, h') \<and> dev_ident h' = dev_ident hdev \<and>
        rdesc h' = take (unat (dev_rsize hdev)) (dev_rdesc hdev) \<and> dev_running h'"
      using hid_generic_attaches [OF _ cl ps env] by blast
    moreover have "name hid_generic = ''hid-generic''" by (simp add: hid_generic_def)
    ultimately show ?thesis using m HID_GENERIC generic_table_matches [of hdev] by auto
  next
    case SFP
    then show ?thesis using m nsfp Cons.prems(2) by auto
  next
    case F74N
    then have "hid_generic \<in> set ds" "hid_match_id hdev (id_table d) = None"
      using Cons.prems m ident by (auto simp: module_tables module_ids hid_generic_def)
    then show ?thesis using Cons.IH Cons.prems by simp
  next
    case GNESCPR
    then have "hid_generic \<in> set ds" "hid_match_id hdev (id_table d) = None"
      using Cons.prems m ident by (auto simp: module_tables module_ids hid_generic_def)
    then show ?thesis using Cons.IH Cons.prems by simp
  qed
qed

text \<open>A rescan attaches an unbound device and leaves a bound one where and as it is.\<close>

lemma bus_rescan_nth:
  "i < length devs \<Longrightarrow> bus_rescan_devices env drvs devs ! i =
     (if snd (devs ! i) = None then device_attach_drivers env drvs drvs (fst (devs ! i)) else devs ! i)"
  by (cases "devs ! i") (simp add: bus_rescan_devices_def)

lemma fold_rescan_bound:
  "i < length devs \<Longrightarrow> snd (devs ! i) \<noteq> None \<Longrightarrow> fold (\<lambda>d. bus_rescan_devices env drvs) ds devs ! i = devs ! i"
proof (induction ds arbitrary: devs)
  case (Cons d ds)
  have "bus_rescan_devices env drvs devs ! i = devs ! i" using Cons.prems by (auto simp: bus_rescan_nth)
  then show ?case using Cons.IH [of "bus_rescan_devices env drvs devs"] Cons.prems by simp
qed simp

text \<open>
  C27: unloading the SimFeel module releases every interface it had bound, and the
  rescan that \<open>hid_unregister_driver\<close> runs hands it to hid-generic, when
  hid-generic is loaded, the interface's own raw descriptor parses and the
  transport works: the interface is bound to hid-generic, running on its raw
  descriptor instead of the SimFeel table.
\<close>

theorem sfp_module_exit_hands_to_generic:
  assumes reach: "bus_reachable st" and gen: "hid_generic \<in> set (bus_drivers st)"
    and i: "i < length (bus_devices st)" and b: "bus_devices st ! i = (h, Some ''sfp'')"
    and ps: "hid_report_parse (take (unat (dev_rsize h)) (dev_rdesc h)) = 0"
    and env: "\<forall>h. ll_start env h = 0" "\<forall>h m. ll_connect env h m = 0"
  shows "sfp_driver \<notin> set (bus_drivers (sfp_driver_exit env st)) \<and>
    (\<exists>h'. bus_devices (sfp_driver_exit env st) ! i = (h', Some ''hid-generic'') \<and>
       dev_ident h' = dev_ident h \<and> rdesc h' = take (unat (dev_rsize h)) (dev_rdesc h) \<and> dev_running h')"
proof -
  let ?drvs = "filter (\<lambda>d. name d \<noteq> ''sfp'') (bus_drivers st)"
  let ?devs = "map (\<lambda>(hdev, b). if b = Some ''sfp'' then (hid_device_remove hdev, None) else (hdev, b))
                 (bus_devices st)"
  have mods: "\<forall>d \<in> set ?drvs. \<exists>m. d = module_driver m"
    using bus_reachable_inv [OF reach] by (auto simp: bus_inv_def)
  have nsfp: "sfp_driver \<notin> set ?drvs" by (simp add: sfp_driver_def)
  have g: "hid_generic \<in> set ?drvs" using gen by (simp add: hid_generic_def)
  have mem: "(h, Some ''sfp'') \<in> set (bus_devices st)" using i b by (metis nth_mem)
  obtain m where "module_driver m \<in> set (bus_drivers st)" "name (module_driver m) = ''sfp''"
    and mt: "hid_match_id h (id_table (module_driver m)) \<noteq> None"
    by (rule bound_slot [OF reach mem])
  then have "module_driver m = sfp_driver"
    using module_driver_name_inj [of m SFP] by (auto simp: sfp_driver_def)
  then have ident: "bus h = BUS_USB" "vendor h = USB_VENDOR_ID_SIMFEEL_PEDALS" "product h = USB_DEVICE_ID_SIMFEEL_PEDALS"
    using mt by (simp_all add: sfp_driver_def sfp_devices_match split: if_splits)
  let ?h0 = "hid_device_remove h"
  have id0: "dev_ident ?h0 = dev_ident h" "dev_rsize ?h0 = dev_rsize h" "dev_rdesc ?h0 = dev_rdesc h"
    by (simp_all add: hid_device_remove_def hid_close_report_def dev_ident_def)
  have i0: "?devs ! i = (?h0, None)" using i b by simp
  have cl0: "dev_closed ?h0" using hid_device_remove_closed [of h] by simp
  have ident0: "bus ?h0 = BUS_USB" "vendor ?h0 = USB_VENDOR_ID_SIMFEEL_PEDALS" "product ?h0 = USB_DEVICE_ID_SIMFEEL_PEDALS"
    using ident by (simp_all add: hid_device_remove_def hid_close_report_def)
  have ps0: "hid_report_parse (take (unat (dev_rsize ?h0)) (dev_rdesc ?h0)) = 0" using ps id0 by simp
  obtain h' where att: "device_attach_drivers env ?drvs ?drvs ?h0 = (h', Some ''hid-generic'')"
    and h': "dev_ident h' = dev_ident h" "rdesc h' = take (unat (dev_rsize h)) (dev_rdesc h)" "dev_running h'"
    using device_attach_generic [OF mods nsfp g subset_refl cl0 ident0 ps0 env] id0 by auto
  obtain d ds where dds: "?drvs = d # ds" using g by (cases ?drvs) auto
  have "fold (\<lambda>d. bus_rescan_devices env ?drvs) ?drvs ?devs ! i = (h', Some ''hid-generic'')"
    unfolding dds using i i0 att dds by (simp add: bus_rescan_nth fold_rescan_bound)
  then show ?thesis using h' by (simp add: sfp_driver_exit_def hid_unregister_driver_def Let_def sfp_driver_def)
qed

section \<open>Loading modules\<close>

text \<open>
  \<open>module_init\<close> of a module (\<open>module_hid_driver\<close>'s init, that is
  \<open>hid_register_driver\<close>) fails with \<open>-EBUSY\<close> and leaves the bus as it was
  when a driver of the same name is registered; otherwise it returns 0, appends
  the driver to the bus's list and neither adds nor drops a device.
\<close>

lemma module_init_result:
  "fst (module_init m env st) =
     (if name (module_driver m) \<in> set (map name (bus_drivers st)) then - EBUSY else 0) \<and>
   (if name (module_driver m) \<in> set (map name (bus_drivers st)) then snd (module_init m env st) = st
    else bus_drivers (snd (module_init m env st)) = bus_drivers st @ [module_driver m] \<and>
      length (bus_devices (snd (module_init m env st))) = length (bus_devices st))"
  by (simp add: module_init_register hid_register_driver_def Let_def driver_attach_def)

text \<open>
  Modprobe loads a module for a device (one of its aliases matches the
  device's \<open>MODALIAS\<close>) exactly when the module's driver table matches the
  device, for every module of the system: autoloading and binding agree.
\<close>

lemma module_autoload:
  "alias_loads (module_aliases m) hdev \<longleftrightarrow> hid_match_id hdev (id_table (module_driver m)) \<noteq> None"
proof -
  have t: "id_table (module_driver m) = butlast (id_table (module_driver m)) @ [hid_id_sentinel]"
    and b: "list_all (\<lambda>e. id_bus e \<noteq> 0) (butlast (id_table (module_driver m)))"
    and a: "module_aliases m = map hid_modalias_entry (butlast (id_table (module_driver m)))"
    using module_table_shape by blast+
  show ?thesis
    unfolding a using alias_loads_table [OF b, of hid_id_sentinel hdev] t
    by (simp add: hid_id_sentinel_def)
qed

text \<open>
  C28: the match table of every module is well formed (terminated by the
  sentinel, its only entry with bus 0), so the bus's scan reads exactly the
  entries before the sentinel.
\<close>

theorem module_tables_wf:
  "id_table_wf (id_table (module_driver m)) \<and>
   hid_match_id hdev (id_table (module_driver m)) =
     find (hid_match_one_id hdev) (butlast (id_table (module_driver m)))"
proof -
  have "id_table_wf (id_table (module_driver m))"
    by (cases m) (simp_all add: id_table_wf_def module_table_defs hid_id_sentinel_def)
  then show ?thesis using hid_match_id_wf by blast
qed

section \<open>Removing devices\<close>

text \<open>
  When the transport destroys a device of a reachable bus, the device leaves
  the bus (the others keep their order) with its driver released: the hardware is
  stopped, the report closed, \<open>HID_STAT_ADDED\<close> cleared and the raw descriptor freed.
\<close>

lemma hid_destroy_device_releases:
  assumes "bus_reachable st" "i < length (bus_devices st)"
  shows "\<exists>h. hid_destroy_device st i =
      (st\<lparr>bus_devices := take i (bus_devices st) @ drop (Suc i) (bus_devices st)\<rparr>, Some h) \<and>
    dev_closed h \<and> status h AND HID_STAT_ADDED = 0 \<and> dev_rdesc h = [] \<and> dev_rsize h = 0"
proof -
  obtain h b where s: "bus_devices st ! i = (h, b)" by fastforce
  have mem: "(h, b) \<in> set (bus_devices st)" using s nth_mem [OF assms(2)] by simp
  have a: "status h AND HID_STAT_ADDED \<noteq> 0" using bus_reachable_added [OF assms(1)] mem by auto
  have ok: "slot_ok bound_promise (bus_drivers st) (h, b)"
    using bus_reachable_inv [OF assms(1)] mem by (simp add: bus_inv_def)
  have "dev_closed (if b = None then h else hid_device_remove h)"
    using ok hid_device_remove_closed [of h] by (auto simp: slot_ok_def)
  then show ?thesis using assms(2) s a by (simp add: hid_destroy_device_def dev_closed_def Let_def)
qed

section \<open>Loading the SimFeel module after the pedals\<close>

lemma reprobe_generic_to_sfp:
  assumes gds: "\<forall>gd \<in> set gds. match gd \<noteq> None \<longrightarrow> gd = hid_generic"
    and i: "i < length devs"
    and s: "sfp_served (devs ! i) \<or>
      (devs ! i = (h, Some ''hid-generic'') \<and> hid_generic \<in> set gds \<and> status h AND HID_STAT_REPROBED_BIT = 0)"
    and decl: "\<not> hid_generic_match (driver_tables_of drvs) h"
    and att: "sfp_served (device_attach_drivers env drvs drvs
                (hid_device_remove (h\<lparr>status := status h OR HID_STAT_REPROBED_BIT\<rparr>)))"
  shows "sfp_served (hid_bus_reprobe env drvs gds devs ! i)"
  using gds i s
proof (induction gds arbitrary: devs)
  case Nil
  then show ?case by simp
next
  case (Cons gd gds)
  show ?case
  proof (cases "match gd")
    case None
    then have "gd \<noteq> hid_generic" by (auto simp: hid_generic_def)
    then show ?thesis using Cons None by auto
  next
    case (Some m)
    then have g: "gd = hid_generic" and mm: "m = hid_generic_match"
      using Cons.prems(1) by (auto simp: hid_generic_def)
    let ?devs = "map (\<lambda>(hdev, b).
                   if b = Some (name gd) \<and> \<not> m (driver_tables_of drvs) hdev \<and>
                      status hdev AND HID_STAT_REPROBED_BIT = 0
                   then device_attach_drivers env drvs drvs
                          (hid_device_remove (hdev\<lparr>status := status hdev OR HID_STAT_REPROBED_BIT\<rparr>))
                   else (hdev, b)) devs"
    have "sfp_served (?devs ! i)"
      using Cons.prems(2,3) g mm decl att by (auto simp: sfp_served_def split: prod.split)
    then have "sfp_served (hid_bus_reprobe env drvs gds ?devs ! i)"
      using Cons.IH [of ?devs] Cons.prems(1,2) by simp
    then show ?thesis using Some by simp
  qed
qed

text \<open>
  C29: the order of plugging and loading does not matter for the pedals: loading
  the SimFeel module on a reachable bus where it is not loaded, with a transport
  that works, leaves every accepted interface of the pedals already on the bus
  bound to sfp and running on its table, whether it was unbound or bound to
  hid-generic (which the new driver's arrival makes reprobe).
\<close>

theorem sfp_module_load_binds_pedals:
  assumes reach: "bus_reachable st" and fresh: "''sfp'' \<notin> set (map name (bus_drivers st))"
    and i: "i < length (bus_devices st)" and h: "fst (bus_devices st ! i) = h"
    and ident: "bus h = BUS_USB" "vendor h = USB_VENDOR_ID_SIMFEEL_PEDALS"
      "product h = USB_DEVICE_ID_SIMFEEL_PEDALS" and rs: "dev_rsize h \<noteq> 23"
    and env: "\<forall>h. ll_start env h = 0" "\<forall>h m. ll_connect env h m = 0"
  shows "snd (bus_devices (snd (sfp_driver_init env st)) ! i) = Some ''sfp'' \<and>
    rdesc (fst (bus_devices (snd (sfp_driver_init env st)) ! i)) = sfp_rdesc_fixed \<and>
    dev_running (fst (bus_devices (snd (sfp_driver_init env st)) ! i))"
proof -
  let ?drvs = "bus_drivers st @ [sfp_driver]"
  let ?devs = "driver_attach env ?drvs sfp_driver (bus_devices st)"
  have inv: "bus_inv st" by (rule bus_reachable_inv [OF reach])
  have mods: "\<forall>d \<in> set ?drvs. \<exists>m. d = module_driver m"
    using inv by (auto simp: bus_inv_def intro: exI [of _ SFP])
  have gds: "\<forall>gd \<in> set ?drvs. match gd \<noteq> None \<longrightarrow> gd = hid_generic"
    using mods module_match by metis
  have fm: "hid_match_id h (id_table sfp_driver) \<noteq> None"
    using ident by (simp add: module_tables)
  obtain b where slot: "bus_devices st ! i = (h, b)" using h by (metis prod.collapse)
  have ok: "slot_ok bound_promise (bus_drivers st) (h, b)"
    using inv i slot nth_mem [OF i] by (auto simp: bus_inv_def)
  have st_eq: "snd (sfp_driver_init env st) =
      \<lparr>bus_drivers = ?drvs, bus_devices = hid_bus_reprobe env ?drvs ?drvs ?devs\<rparr>"
    using fresh by (simp add: sfp_driver_init_def hid_register_driver_def Let_def)
  let ?h0 = "h\<lparr>status := status h OR HID_STAT_REPROBED_BIT\<rparr>"
  have rem: "dev_closed (hid_device_remove ?h0)" "dev_ident (hid_device_remove ?h0) = dev_ident h"
    using hid_device_remove_closed [of ?h0] by simp_all
  have att: "sfp_served (device_attach_drivers env ?drvs ?drvs (hid_device_remove ?h0))"
    using device_attach_sfp [OF mods _ _ subset_refl rem(1) _ _ _ _ env] rem(2) ident rs
    by (auto simp: sfp_served_def dev_ident_def)
  have decl: "\<not> hid_generic_match (driver_tables_of ?drvs) h"
    by (rule generic_declines [OF _ _ fm]) simp_all
  have s: "sfp_served (?devs ! i) \<or>
      (?devs ! i = (h, Some ''hid-generic'') \<and> hid_generic \<in> set ?drvs \<and> status h AND HID_STAT_REPROBED_BIT = 0)"
  proof (cases b)
    case None
    then have "dev_closed h" using ok by (simp add: slot_ok_def)
    then obtain h' where "hid_bus_probe env ?drvs sfp_driver h = (0, h') \<and>
        rdesc h' = sfp_rdesc_fixed \<and> dev_running h'"
      using sfp_bus_probe_attaches [OF _ ident rs env] by blast
    then show ?thesis using None slot i fm by (simp add: driver_attach_def sfp_served_def)
  next
    case (Some n)
    then obtain d where d: "d \<in> set (bus_drivers st)" "name d = n" "hid_match_id h (id_table d) \<noteq> None"
      and run: "dev_running h"
      using ok by (auto simp: slot_ok_def list_ex_iff)
    obtain m where m: "d = module_driver m" using inv d(1) by (auto simp: bus_inv_def)
    have "m \<noteq> SFP" using fresh d(1) m by (metis image_eqI module_driver.simps(3) driver_names(3) set_map)
    moreover have "m \<noteq> F74N" "m \<noteq> GNESCPR" using d(3) m ident by (auto simp: module_tables module_ids)
    ultimately have "m = HID_GENERIC" by (cases m) auto
    then have "d = hid_generic" "n = ''hid-generic''" using m d(2) by simp_all
    then show ?thesis using Some slot i d(1) run by (auto simp: driver_attach_def dev_running_def)
  qed
  have "sfp_served (hid_bus_reprobe env ?drvs ?drvs ?devs ! i)"
    by (rule reprobe_generic_to_sfp [OF gds _ s decl att]) (use i in \<open>simp add: driver_attach_def\<close>)
  then show ?thesis using st_eq by (simp add: sfp_served_def)
qed

end
