(* ===== verification/Hid_Scenarios.thy ===== *)
theory Hid_Scenarios
  imports Hid_System
begin

unbundle bit_operations_syntax

text \<open>
  Concrete runs of the bus with a transport that always succeeds: the spec's
  scenarios evaluated through the modules' init functions and \<open>hid_add_device\<close>,
  and the instances of the bus-level theorems at them.
\<close>

section \<open>The states\<close>

text \<open>
  Spec \<section>8 with hid-generic: hid-generic and the SimFeel module loaded, then
  the pedals' 23-byte interface plugged (\<open>pedals_bus_before\<close>), then its 64-byte
  interface (\<open>pedals_bus\<close>).
\<close>

definition pedals_bus_before :: hid_bus_state where
  "pedals_bus_before =
     snd (hid_add_device transport_ok
       (snd (module_init SFP transport_ok (snd (module_init HID_GENERIC transport_ok empty_bus))))
       (usb_interface USB_VENDOR_ID_SIMFEEL_PEDALS USB_DEVICE_ID_SIMFEEL_PEDALS (replicate 23 0)))"

definition pedals_bus :: hid_bus_state where
  "pedals_bus =
     snd (hid_add_device transport_ok pedals_bus_before
       (usb_interface USB_VENDOR_ID_SIMFEEL_PEDALS USB_DEVICE_ID_SIMFEEL_PEDALS (replicate 64 0)))"

text \<open>
  The F74N wheel plugged while only hid-generic is loaded, then the F74N module
  loaded.
\<close>

definition wheel_bus_generic :: hid_bus_state where
  "wheel_bus_generic =
     snd (hid_add_device transport_ok (snd (module_init HID_GENERIC transport_ok empty_bus))
       (usb_interface POLSIMER_VENDOR_ID POLSIMER_F74N_DEVICE_ID (replicate 64 0)))"

definition wheel_bus :: hid_bus_state where
  "wheel_bus = snd (module_init F74N transport_ok wheel_bus_generic)"

text \<open>
  The other order: the pedals' 64-byte interface plugged while only hid-generic is
  loaded (so hid-generic binds it); the SimFeel module is loaded afterwards.
\<close>

definition generic_pedals_bus :: hid_bus_state where
  "generic_pedals_bus =
     snd (hid_add_device transport_ok (snd (module_init HID_GENERIC transport_ok empty_bus))
       (usb_interface USB_VENDOR_ID_SIMFEEL_PEDALS USB_DEVICE_ID_SIMFEEL_PEDALS (replicate 64 0)))"

section \<open>Evaluating the states\<close>

lemma zero_descriptor_parses: "hid_report_parse (replicate 64 0) = 0"
  by code_simp

lemmas scenario_simps = transport_ok_def usb_interface_def hid_add_device_def hid_register_driver_def
  driver_attach_def Let_def f74n_driver_init_def sfp_driver_init_def bus_probe_defs hid_generic_def
  hid_generic_match_def driver_tables_of_def hid_match_one_id_def hid_const_defs hid_id_sentinel_def
  f74n_driver_def f74n_probe_def f74n_report_fixup_def f74n_rdesc_fixed_length f74n_rdesc_parse
  f74n_devices_def sfp_driver_def sfp_probe_def sfp_report_fixup_def sfp_rdesc_fixed_length
  sfp_rdesc_parse sfp_devices_def HID_USB_DEVICE_def hid_device_remove_def HID_STAT_ADDED_def
  HID_STAT_REPROBED_BIT_def module_ids zero_descriptor_parses

lemma scenarios_reachable:
  "bus_reachable pedals_bus_before" "bus_reachable pedals_bus" "bus_reachable wheel_bus_generic"
  "bus_reachable wheel_bus"
proof -
  have closed: "dev_closed (usb_interface v p raw)" "status (usb_interface v p raw) AND HID_STAT_ADDED = 0"
    for v p raw by (simp_all add: usb_interface_def dev_closed_def)
  show a: "bus_reachable pedals_bus_before"
    unfolding pedals_bus_before_def
    by (intro bus_reachable.intros closed) (simp_all add: module_init_register)
  show "bus_reachable pedals_bus"
    unfolding pedals_bus_def by (intro bus_reachable.plug a closed)
  show b: "bus_reachable wheel_bus_generic"
    unfolding wheel_bus_generic_def
    by (intro bus_reachable.intros closed) (simp_all add: module_init_register)
  show "bus_reachable wheel_bus"
    unfolding wheel_bus_def by (intro bus_reachable.intros b) (simp add: wheel_bus_generic_def module_init_register)
qed

lemma pedals_bus_devices:
  "bus_devices pedals_bus ! 1 = (fst (bus_devices pedals_bus ! 1), Some ''sfp'')"
  "snd (bus_devices pedals_bus ! 0) = None" "length (bus_devices pedals_bus) = 2"
  "bus (fst (bus_devices pedals_bus ! 1)) = BUS_USB"
  "vendor (fst (bus_devices pedals_bus ! 1)) = USB_VENDOR_ID_SIMFEEL_PEDALS"
  "product (fst (bus_devices pedals_bus ! 1)) = USB_DEVICE_ID_SIMFEEL_PEDALS"
  "sfp_driver \<in> set (bus_drivers pedals_bus)" "sfp_driver \<in> set (bus_drivers pedals_bus_before)"
  "hid_generic \<in> set (bus_drivers pedals_bus)"
  "dev_rsize (fst (bus_devices pedals_bus ! 1)) = 64" "dev_rdesc (fst (bus_devices pedals_bus ! 1)) = replicate 64 0"
  by (simp_all add: pedals_bus_def pedals_bus_before_def scenario_simps)

lemma wheel_bus_devices:
  "map snd (bus_devices wheel_bus_generic) = [Some ''hid-generic'']"
  "bus_devices wheel_bus \<noteq> []" "bus (fst (hd (bus_devices wheel_bus))) = BUS_USB"
  "vendor (fst (hd (bus_devices wheel_bus))) = POLSIMER_VENDOR_ID"
  "product (fst (hd (bus_devices wheel_bus))) = POLSIMER_F74N_DEVICE_ID"
  "f74n_driver \<in> set (bus_drivers wheel_bus)"
  by (simp_all add: wheel_bus_def wheel_bus_generic_def scenario_simps hid_close_report_def)

text \<open>Spec \<section>8 with hid-generic: the pedals' 64-byte interface runs on the replacement table.\<close>

lemma bus_devices_consistent_witness:
  "snd (bus_devices pedals_bus ! 1) = Some ''sfp'' \<and> dev_running (fst (bus_devices pedals_bus ! 1)) \<and>
   hid_report_parse (rdesc (fst (bus_devices pedals_bus ! 1))) = 0"
proof -
  have "bus_devices pedals_bus ! 1 \<in> set (bus_devices pedals_bus)"
    using pedals_bus_devices(3) by simp
  then have "(fst (bus_devices pedals_bus ! 1), Some ''sfp'') \<in> set (bus_devices pedals_bus)"
    using pedals_bus_devices(1) by simp
  moreover have "snd (bus_devices pedals_bus ! 1) = Some ''sfp''"
    using pedals_bus_devices(1) by (metis snd_conv)
  ultimately show ?thesis
    using bus_devices_consistent [OF scenarios_reachable(2)] by fastforce
qed

text \<open>
  The wheel's 64-byte interface is bound to hid-generic until the F74N module is
  loaded, and unbound afterwards.
\<close>

lemma f74n_module_disables_wheel_witness:
  "map snd (bus_devices wheel_bus_generic) = [Some ''hid-generic''] \<and>
   snd (hd (bus_devices wheel_bus)) = None \<and> dev_closed (fst (hd (bus_devices wheel_bus)))"
  using f74n_module_disables_wheel [OF scenarios_reachable(4) wheel_bus_devices(6)
      _ wheel_bus_devices(3-5), of "snd (hd (bus_devices wheel_bus))"] wheel_bus_devices(1,2)
  by simp

text \<open>Spec \<section>8 with hid-generic loaded: the pedals' bound interface is the 64-byte one.\<close>

lemma sfp_module_binds_pedals_witness:
  "dev_rsize (fst (bus_devices pedals_bus ! 1)) \<noteq> 23 \<and>
   rdesc (fst (bus_devices pedals_bus ! 1)) = sfp_rdesc_fixed \<and> snd (bus_devices pedals_bus ! 0) = None"
proof -
  have "bus_devices pedals_bus ! 1 \<in> set (bus_devices pedals_bus)"
    using pedals_bus_devices(3) by simp
  then have "(fst (bus_devices pedals_bus ! 1), Some ''sfp'') \<in> set (bus_devices pedals_bus)"
    using pedals_bus_devices(1) by simp
  from sfp_module_binds_pedals [OF scenarios_reachable(2) pedals_bus_devices(7) this pedals_bus_devices(4-6)]
  show ?thesis using pedals_bus_devices(2) by simp
qed

text \<open>Plugging the pedals' 64-byte interface into a bus with hid-generic and the SimFeel module.\<close>

lemma sfp_pedals_attach_witness:
  "\<exists>h'. hid_add_device transport_ok pedals_bus_before
          (usb_interface USB_VENDOR_ID_SIMFEEL_PEDALS USB_DEVICE_ID_SIMFEEL_PEDALS (replicate 64 0)) =
        (0, pedals_bus_before\<lparr>bus_devices := bus_devices pedals_bus_before @ [(h', Some ''sfp'')]\<rparr>) \<and>
        rdesc h' = sfp_rdesc_fixed \<and> dev_running h'"
  by (rule sfp_pedals_attach [OF scenarios_reachable(1) pedals_bus_devices(8)])
    (simp_all add: usb_interface_def dev_closed_def transport_ok_def)

text \<open>
  Unloading the SimFeel module: the rescan hands the pedals' interface, released
  by sfp, to hid-generic, which runs it on its raw descriptor.
\<close>

lemma sfp_module_exit_hands_to_generic_witness:
  "\<exists>h'. bus_devices (sfp_driver_exit transport_ok pedals_bus) ! 1 = (h', Some ''hid-generic'') \<and>
     rdesc h' = replicate 64 0 \<and> dev_running h'"
proof -
  have i: "1 < length (bus_devices pedals_bus)" using pedals_bus_devices(3) by simp
  have ps: "hid_report_parse (take (unat (dev_rsize (fst (bus_devices pedals_bus ! 1))))
      (dev_rdesc (fst (bus_devices pedals_bus ! 1)))) = 0"
    using pedals_bus_devices(10,11) zero_descriptor_parses by simp
  show ?thesis
    using sfp_module_exit_hands_to_generic [OF scenarios_reachable(2) pedals_bus_devices(9) i
        pedals_bus_devices(1) ps, of transport_ok] pedals_bus_devices(10,11)
    by (auto simp: transport_ok_def)
qed

lemma generic_pedals_bus_facts:
  "bus_reachable generic_pedals_bus"
  "bus_devices generic_pedals_bus \<noteq> []"
  "snd (bus_devices generic_pedals_bus ! 0) = Some ''hid-generic''"
  "bus (fst (bus_devices generic_pedals_bus ! 0)) = BUS_USB"
  "vendor (fst (bus_devices generic_pedals_bus ! 0)) = USB_VENDOR_ID_SIMFEEL_PEDALS"
  "product (fst (bus_devices generic_pedals_bus ! 0)) = USB_DEVICE_ID_SIMFEEL_PEDALS"
  "dev_rsize (fst (bus_devices generic_pedals_bus ! 0)) \<noteq> 23"
  "''sfp'' \<notin> set (map name (bus_drivers generic_pedals_bus))"
proof -
  show "bus_reachable generic_pedals_bus"
    unfolding generic_pedals_bus_def
    by (intro bus_reachable.intros) (simp_all add: module_init_register usb_interface_def dev_closed_def)
qed (simp_all add: generic_pedals_bus_def scenario_simps hid_close_report_def)

text \<open>
  The pedals plugged before the SimFeel module: hid-generic holds the interface,
  and loading the module hands it to sfp.
\<close>

lemma sfp_module_load_binds_pedals_witness:
  "snd (bus_devices generic_pedals_bus ! 0) = Some ''hid-generic'' \<and>
   snd (bus_devices (snd (sfp_driver_init transport_ok generic_pedals_bus)) ! 0) = Some ''sfp''"
  using sfp_module_load_binds_pedals [OF generic_pedals_bus_facts(1,8) _ refl generic_pedals_bus_facts(4-7),
      of transport_ok] generic_pedals_bus_facts(2,3)
  by (simp add: transport_ok_def)

text \<open>
  With the F74N module loaded, writing the wheel's interface to the \<open>bind\<close> file
  of hid-generic fails with \<open>-ENODEV\<close> (its \<open>match\<close> callback declines), and to
  that of f74n with \<open>-EINVAL\<close> (the parse of its table fails): no manual binding
  brings the wheel back.
\<close>

lemma wheel_manual_bind:
  "fst (hid_sysfs_bind transport_ok wheel_bus hid_generic 0) = - ENODEV \<and>
   map snd (bus_devices (snd (hid_sysfs_bind transport_ok wheel_bus hid_generic 0))) = [None] \<and>
   fst (hid_sysfs_bind transport_ok wheel_bus f74n_driver 0) = - EINVAL \<and>
   map snd (bus_devices (snd (hid_sysfs_bind transport_ok wheel_bus f74n_driver 0))) = [None]"
  by (simp add: wheel_bus_def wheel_bus_generic_def scenario_simps hid_sysfs_bind_def hid_close_report_def)

end
