(* ===== verification/Spec2Isabelle.thy ===== *)
theory Spec2Isabelle
  imports Hid_Prelude Hid_Items Hid_Parser Hid_Core Hid_Bus Hid_Module Probe_Lifecycle Hid_F74n Hid_Sfp
    Hid_Vkbsim_Gsc Hid_System Hid_Scenarios
begin

text \<open>
  \<^bold>\<open>HID descriptor-override drivers: a verification development.\<close>

  \<^medskip>\<^bold>\<open>The program.\<close> The repository holds three Linux HID driver modules, one C
  file each: \<open>src/hid-f74n.c\<close> (Polsimer F74N wheel, 0x16c0:0x0486),
  \<open>src/hid-sfp.c\<close> (SimFeel pedals, 0x10c4:0x8ccc) and \<open>src/hid-vkbsim-gsc.c\<close>
  (VKB-Sim Gladiator, 0x231d:0x0200). Each registers a \<open>struct hid_driver\<close>
  (\<open>module_hid_driver\<close>) whose match table (\<open>MODULE_DEVICE_TABLE\<close>) names its
  device, whose \<open>report_fixup\<close> callback replaces the device's report descriptor
  by a static table, and whose \<open>probe\<close> callback refuses the interface with a
  23-byte raw descriptor (\<open>-ENODEV\<close>) and otherwise calls the host's
  \<open>hid_parse\<close> (which runs the fixup and parses its result) and \<open>hid_hw_start\<close>.
  The host is not in the repository and is modelled from its sources as far as the
  drivers depend on it: the HID bus binds each device to the first driver, in
  registration order, whose table matches and whose probe succeeds; hid-generic
  matches every device but declines one another registered driver matches, and is
  reprobed off such devices when that driver arrives; modpost turns each table
  into module aliases against which modprobe matches a device's \<open>MODALIAS\<close>.

  \<^medskip>\<^bold>\<open>The theories.\<close>
  \<^item> \<open>Hid_Prelude\<close>: the word types, errno and \<open>hid.h\<close> constants, the records
    \<open>hid_device\<close> and \<open>hid_device_id\<close>, logging as appends to \<open>dmesg\<close>.
  \<^item> \<open>Hid_Items\<close>: the item reader of hid-core: \<open>fetch_item\<close>, the tokenizer of a
    whole descriptor and its inverse encoder with both round-trip laws, termination
    of the tokenizer, and well-formedness of every fetched item.
  \<^item> \<open>Hid_Parser\<close>: the parser of hid-core: the item handlers and the item loop
    \<open>hid_parse_items\<close> of \<open>hid_open_report\<close>, with the checks on collections, the
    global stack, report size, count and id, delimiters and logical ranges, the
    usage lists (\<open>hid_add_usage\<close>, the Usage Maximum loop on \<open>__u32\<close>), the usage
    page joined to short usages (\<open>complete_usage\<close>,
    \<open>hid_concatenate_last_usage_page\<close>, whose loop with its \<open>break\<close> equals a
    \<open>takeWhile\<close>/\<open>dropWhile\<close> reference) and the usages of the fields of each report (\<open>hid_add_field\<close>,
    which drops a field beyond \<open>HID_MAX_FIELDS\<close>); termination of the loops (their
    domain predicates hold everywhere; the usage loop by \<open>HID_MAX_USAGES\<close>), the
    two return values of the item loop, and the invariant \<open>parser_wf\<close> of its states.
  \<^item> \<open>Hid_Core\<close>: \<open>struct hid_driver\<close> (with the \<open>match\<close> callback), the host
    operations \<open>hid_ops\<close> a probe receives, \<open>hid_match_id\<close> and well-formed tables,
    \<open>hid_open_report\<close> (fixup hook, copy, parse, close on failure) and
    \<open>hid_device_probe\<close> (\<open>__hid_device_probe\<close>).
  \<^item> \<open>Hid_Bus\<close>: the transport's callbacks (\<open>hid_env\<close>), \<open>hid_hw_start\<close>,
    \<open>hid_device_remove\<close>, and the bus state (\<open>hid_bus_state\<close>: drivers in
    registration order, devices with the name of their driver) with
    \<open>__device_attach\<close>, \<open>driver_attach\<close>, the hid-generic reprobe,
    \<open>hid_register_driver\<close>, \<open>hid_unregister_driver\<close> with the
    \<open>bus_rescan_devices\<close> it runs, \<open>hid_add_device\<close>, \<open>hid_destroy_device\<close>, the sysfs \<open>bind\<close> and \<open>unbind\<close> files
    (\<open>hid_sysfs_bind\<close>, \<open>hid_sysfs_unbind\<close>) and hid-generic; the contract
    \<open>probe_contract\<close> a driver meets on the bus.
  \<^item> \<open>Hid_Module\<close>: \<open>do_hid_entry\<close>'s alias strings, \<open>hid_uevent\<close>'s
    \<open>MODALIAS\<close>, and shell matching with \<open>*\<close>.
  \<^item> \<open>Probe_Lifecycle\<close>: the abstract specification of a probe call (spec \<section>4.4):
    quirk entries, \<open>should_process\<close>, the inductive step relation
    \<open>lifecycle_step\<close> over the states \<open>Unevaluated \<dots> Ready\<close>, its executable run,
    the refinement obligation \<open>refines_lifecycle\<close>, and that every call ends.
  \<^item> \<open>Hid_F74n\<close>, \<open>Hid_Sfp\<close>, \<open>Hid_Vkbsim_Gsc\<close>: one theory per C file, with its
    \<open>#define\<close>s, descriptor table, \<open>*_report_fixup\<close>, \<open>*_probe\<close>,
    \<open>*_devices\<close>, the aliases of its table, \<open>*_driver\<close>, the module's init and
    exit, its \<open>.modinfo\<close>, the quirk entry it implements, and its lemmas, among
    them the contract each driver meets on the bus.
  \<^item> \<open>Hid_Reachable\<close>: the four modules (hid-generic and the three of the
    repository), the states reachable by \<open>insmod\<close>, \<open>rmmod\<close>, plugging and
    unplugging a device and writing to a driver's sysfs \<open>bind\<close> or \<open>unbind\<close>
    file (the inductive \<open>bus_reachable\<close>), the invariant \<open>bus_inv\<close> and the
    \<open>HID_STAT_ADDED\<close> invariant, each proved by rule induction.
  \<^item> \<open>Hid_System\<close>: the properties of the system as a whole on the reachable states.
  \<^item> \<open>Hid_Scenarios\<close>: concrete runs (the pedals, the wheel) evaluated by \<open>simp\<close>
    and the bus theorems applied to them.
  \<^item> this theory: the registry of the three quirks and the properties across drivers.

  \<^medskip>\<^bold>\<open>Correspondence.\<close> The device state is the record \<open>hid_device\<close>, passed in and
  returned by every callback (C pointers to it become state passing; \<open>*rsize =\<close>
  becomes a returned value). The host calls a probe makes are the fields of
  \<open>hid_ops\<close>; the lemmas about a probe hold for all host operations, and
  \<open>hid_device_probe\<close> instantiates them with \<open>hid_open_report\<close> over the bound
  driver's hook and a given \<open>hid_hw_start\<close>. On the bus the transport's results
  are the functions of \<open>hid_env\<close>, and each bus theorem holds for every transport
  or names what it needs of it. \<open>module_hid_driver(drv)\<close> is the pair
  \<open>*_driver_init\<close>/\<open>*_driver_exit\<close>, which register and unregister the driver.
  Return values are C \<open>int\<close>s (0 or a negated errno) kept as \<open>int\<close>; sizes, ids and
  status bits are words of their C width.

  \<^medskip>\<^bold>\<open>What is shown.\<close>
  \<^item> Each probe callback on every branch (refusal, parse failure, start failure,
    success), and its refinement of the lifecycle machine (C1, C2, C6--C9, C12);
    the three callbacks are the same function (C15).
  \<^item> Each fixup hook ignores its input and returns its table with the table's size,
    60, 48 and 313 bytes (C5, C11, C14), where spec \<section>6 and the source comments
    give 85 and 31 for the first two.
  \<^item> Under hid-core's parser the F74N table is rejected, because it closes one
    collection more than it opens (C4), so no interface of the wheel attaches
    (C3); the other two tables parse and their devices attach (C10, C13).
  \<^item> The bus binds a registered driver exactly to its identity (C17) and leaves
    every other device untouched, with no fixup run (C16); the 23-byte interface
    is refused on the bus (C22).
  \<^item> The tables as hid-core reads them: the pedals' button Report Count item reads
    128 where its comment says 1, and all 128 button values carry the usage Button 1
    (C18); the Gladiator's fields carry the usages of C19, two of its data fields
    the undefined usage 0; the reports the tables declare have the sizes of C20
    and C21 (and C4 for the F74N table without its stray byte), and their fields
    the usage counts of C30.
  \<^item> The system: on every reachable bus each device is unbound and closed or
    bound to a registered driver that matches it, runs on a descriptor that
    parses, and keeps its driver's promise (C23). Once the F74N module is loaded
    the wheel is bound to nothing, although hid-generic had bound it before
    (C24, and the scenario \<open>wheel_bus\<close>), and no write to a sysfs \<open>bind\<close> file
    changes that (\<open>wheel_manual_bind\<close>). The pedals' accepted interface binds
    to sfp on its table whenever the module is loaded and the transport works
    (C25, C26), also when sfp is loaded after the pedals were plugged and
    hid-generic holds them (C29); unloading sfp releases the interface and the
    rescan of \<open>hid_unregister_driver\<close> hands it to hid-generic, on its raw
    descriptor (C27). Every module's table is well formed (C28).
  \<^item> Library facts that are not properties of the drivers: every probe call of the
    lifecycle machine ends (\<open>lifecycle_terminates\<close>); the item loop terminates
    and every state of it is within hid-core's array bounds (\<open>parser_wf\<close>);
    joining the usage page (\<open>hid_concat_page_eq\<close>); loading a module twice
    fails with \<open>-EBUSY\<close> (\<open>module_init_result\<close>); autoloading agrees with
    binding (\<open>modalias_match\<close>, \<open>module_autoload\<close>); destroying a device
    releases its driver (\<open>hid_destroy_device_releases\<close>).

  \<^medskip>\<^bold>\<open>Not modelled.\<close> The USB transport (usbhid, URBs, interface descriptors)
  beyond the results of its callbacks; asynchronous and deferred probing, dynamic
  ids, \<open>driver_override\<close>, and \<open>hid_ignore_special_drivers\<close>; memory
  allocation failures; the trailing newline of log messages; the members of a
  parsed field other than its usages (flags, units, collections, values);
  udev beyond alias matching, and shell patterns other
  than \<open>*\<close>, which file2alias never writes. Loops are the item loop (terminating
  by the length of the remaining descriptor), the table scan, the attach and
  reprobe and rescan loops (by their lists), the Usage Maximum loop (by the usages left
  below \<open>HID_MAX_USAGES\<close>, since its \<open>__u32\<close> counter may wrap) and the lifecycle
  (by its stage rank); no fuel is needed. The comments and \<open>#include\<close> lines of
  the three files are all that the map leaves out of \<open>src/\<close>. Of the host, also
  not modelled: the group \<open>hid_scan_report\<close> assigns in \<open>hid_add_device\<close> and a
  failing \<open>device_add\<close> (the tables match any group); a fixup hook that reports a
  size beyond its buffer, from which C would copy past the end while the model
  takes the bytes there are (the three hooks report their table's exact size).
  The rescan after \<open>hid_unregister_driver\<close> runs once per remaining driver, as
  \<open>bus_for_each_drv\<close> does, and is a \<open>fold\<close> over that list. The table facts
  and scenarios are evaluated in the kernel by
  \<open>code_simp\<close> and \<open>simp\<close>; the prelude imports \<open>Code_Target_Nat\<close> so that
  natural numbers evaluate in binary.
\<close>

section \<open>The registry\<close>

text \<open>The quirk table of spec \<section>6, one entry per driver of the repository.\<close>

definition quirk_registry :: "quirk_entry list" where
  "quirk_registry = [f74n_quirk, sfp_quirk, gnescpr_quirk]"

text \<open>\<open>lookup(identity)\<close> of spec \<section>4.1.\<close>

definition quirk_lookup :: "u32 \<Rightarrow> u32 \<Rightarrow> quirk_entry option" where
  "quirk_lookup v p = find (\<lambda>q. q_vendor q = v \<and> q_product q = p) quirk_registry"

section \<open>Properties across the drivers\<close>

lemmas hid_id_defs = POLSIMER_VENDOR_ID_def POLSIMER_F74N_DEVICE_ID_def
  USB_VENDOR_ID_SIMFEEL_PEDALS_def USB_DEVICE_ID_SIMFEEL_PEDALS_def VKBSIM_VENDOR_ID_def
  VKBSIM_GLADIATOR_ESC_PR_DEVICE_ID_def

text \<open>
  C15: the three probe callbacks are the same function: the SimFeel and the
  VKB-Sim probes behave as the F74N probe on every input.
\<close>

theorem drivers_probe_equivalent: "sfp_probe = f74n_probe \<and> gnescpr_probe = f74n_probe"
  by (simp add: fun_eq_iff sfp_probe_def gnescpr_probe_def f74n_probe_def)

text \<open>
  C17: the bus binds each registered driver exactly to the identity of its quirk
  entry: its match table selects a device iff the device is on USB with the
  entry's vendor and product.
\<close>

theorem registry_binding:
  "(d, q) \<in> set quirk_drivers \<Longrightarrow>
   hid_match_id hdev (id_table d) =
     (if bus hdev = BUS_USB \<and> vendor hdev = q_vendor q \<and> product hdev = q_product q
      then Some (HID_USB_DEVICE (q_vendor q) (q_product q)) else None)"
  by (auto simp: quirk_drivers_def f74n_driver_def sfp_driver_def gnescpr_driver_def
      f74n_quirk_def sfp_quirk_def gnescpr_quirk_def f74n_devices_match sfp_devices_match
      gnescpr_devices_match)

text \<open>
  C16: a device with no registry entry (another identity, or not on USB) is
  refused by every registered driver with \<open>-ENODEV\<close> and left unchanged: no
  fixup hook, parse or start runs, so its descriptor passes through untouched.
\<close>

theorem unknown_device_untouched:
  assumes "quirk_lookup (vendor hdev) (product hdev) = None \<or> bus hdev \<noteq> BUS_USB"
    and "(d, q) \<in> set quirk_drivers"
  shows "hid_device_probe engine hw_start tables d hdev = (- ENODEV, hdev)"
proof -
  have "hid_match_id hdev (id_table d) = None"
    using assms
    by (auto simp: quirk_lookup_def quirk_registry_def quirk_drivers_def f74n_driver_def
        sfp_driver_def gnescpr_driver_def f74n_devices_match sfp_devices_match
        gnescpr_devices_match f74n_quirk_def sfp_quirk_def gnescpr_quirk_def hid_id_defs)
  then show ?thesis by (simp add: hid_device_probe_def)
qed


section \<open>Witnesses\<close>

text \<open>A USB device of another vendor is refused by the F74N driver and left as it was.\<close>

lemma unknown_device_untouched_witness:
  "hid_device_probe hid_report_parse (\<lambda>h c. (0, h)) [] f74n_driver
     (\<lparr>bus = BUS_USB, group = 0, vendor = 0x046d, product = 0xc24f, dev_rdesc = replicate 64 0, dev_rsize = 64, rdesc = [], rsize = 0, status = 0, hw_started = False, dmesg = []\<rparr>) = (- ENODEV, \<lparr>bus = BUS_USB, group = 0, vendor = 0x046d, product = 0xc24f, dev_rdesc = replicate 64 0, dev_rsize = 64, rdesc = [], rsize = 0, status = 0, hw_started = False, dmesg = []\<rparr>)"
  by (rule unknown_device_untouched [where q = f74n_quirk])
    (simp_all add: quirk_lookup_def quirk_registry_def quirk_drivers_def f74n_quirk_def
      sfp_quirk_def gnescpr_quirk_def hid_id_defs)

text \<open>The SimFeel driver's table selects a SimFeel device.\<close>

lemma registry_binding_witness:
  "hid_match_id (\<lparr>bus = BUS_USB, group = 0, vendor = USB_VENDOR_ID_SIMFEEL_PEDALS, product = USB_DEVICE_ID_SIMFEEL_PEDALS, dev_rdesc = replicate 64 0, dev_rsize = 64, rdesc = [], rsize = 0, status = 0, hw_started = False, dmesg = []\<rparr>) (id_table sfp_driver) =
   Some (HID_USB_DEVICE USB_VENDOR_ID_SIMFEEL_PEDALS USB_DEVICE_ID_SIMFEEL_PEDALS)"
  using registry_binding [of sfp_driver sfp_quirk "\<lparr>bus = BUS_USB, group = 0, vendor = USB_VENDOR_ID_SIMFEEL_PEDALS, product = USB_DEVICE_ID_SIMFEEL_PEDALS, dev_rdesc = replicate 64 0, dev_rsize = 64, rdesc = [], rsize = 0, status = 0, hw_started = False, dmesg = []\<rparr>"]
  by (simp add: quirk_drivers_def sfp_quirk_def)

end
